theory Spec2Isabelle
  imports Main "HOL-Library.Multiset" "HOL-Library.Sublist"
begin

section \<open>Data model (package database)\<close>

text \<open>
  Go strings are byte sequences, so they are modelled as \<open>string\<close> (a list of 8-bit
  characters); non-ASCII literals are written as their UTF-8 bytes. The int64 identifiers
  are only compared, never computed with, so they are \<open>int\<close>. A UUID is kept as its
  canonical text (what \<open>ID.String()\<close> stores and \<open>uuid.Parse\<close> reads back). The
  \<open>time.Time\<close> of a row and of \<open>time.Now()\<close> in the handlers is kept as its
  wall-clock reading in the local zone, in nanoseconds since 1970-01-01 00:00 of that
  zone; the scheduler, which passes locations around, has a \<open>time.Time\<close> with its
  instant and location (section Scheduler). A row that is read back has the values that
  were written, when it can be read back at all (see \<open>scan_time\<close>).
\<close>

type_synonym uuid = string
type_synonym time = int

record Participant =
  ID :: uuid
  GroupID :: int
  UserID :: int
  Username :: string
  FullName :: string
  CreatedAt :: time

record Pair =
  Pair_ID :: uuid
  Pair_GroupID :: int
  WeekStart :: int
  User1ID :: int
  User2ID :: int
  Pair_CreatedAt :: time

record PollMapping =
  PollID :: string
  PM_GroupID :: int
  MessageID :: int

text \<open>
  What \<open>db.ExecContext\<close>, \<open>db.QueryContext\<close> and \<open>rows.Scan\<close> can answer with: a
  failure of the driver or the file (\<open>DriverError\<close>, injected by a flag that each
  operation takes), a statement that names a table or column the database does not
  have, a violated uniqueness constraint, \<open>sql.ErrNoRows\<close>, or a column value that
  \<open>rows.Scan\<close> cannot store into its destination (\<open>ScanError\<close>).
  \<open>MigrationError\<close> is the error of \<open>goose.Up\<close> for a migration file it cannot
  parse.
\<close>

datatype error =
    DriverError | NoSuchTable | NoSuchColumn | ConstraintFailed | ErrNoRows | ScanError
  | MigrationError

text \<open>
  The database file: the tables that exist, each with its columns (name and declared
  type, in upper case), the number of the last migration that goose has recorded as
  applied (0 when there is none), and the rows of the three tables in rowid order. The
  uniqueness constraints are those of \<open>migrations/00001_init_schema.sql\<close>.
\<close>

type_synonym schema = "(string \<times> (string \<times> string) list) list"

record db =
  schema :: schema
  goose_version :: int
  participant :: "Participant list"
  pair :: "Pair list"
  poll_mapping :: "PollMapping list"

definition check_columns :: "schema \<Rightarrow> string \<Rightarrow> string list \<Rightarrow> error option" where
  "check_columns sch t cols =
     (case map_of sch t of
        None \<Rightarrow> Some NoSuchTable
      | Some cs \<Rightarrow> if set cols \<subseteq> set (map fst cs) then None else Some NoSuchColumn)"

definition prepare :: "bool \<Rightarrow> schema \<Rightarrow> string \<Rightarrow> string list \<Rightarrow> error option" where
  "prepare fault sch t cols = (if fault then Some DriverError else check_columns sch t cols)"

text \<open>
  \<open>rows.Scan\<close> into a \<open>*time.Time\<close>. The driver (\<open>modernc.org/sqlite\<close>) writes a
  \<open>time.Time\<close> as text and hands it back as a \<open>time.Time\<close> only when the declared
  type of the column is \<open>DATE\<close>, \<open>DATETIME\<close> or \<open>TIMESTAMP\<close>; under any other
  declared type the value arrives as a string and \<open>Scan\<close> returns an error. The
  other destinations of the two scanning queries (\<open>string\<close> and \<open>int64\<close>) take what
  the statements of this package stored.
\<close>

definition scan_time :: "schema \<Rightarrow> string \<Rightarrow> string \<Rightarrow> error option" where
  "scan_time sch t col =
     (case map_of sch t of
        None \<Rightarrow> Some NoSuchTable
      | Some cs \<Rightarrow>
         (case map_of cs col of
            None \<Rightarrow> Some NoSuchColumn
          | Some ty \<Rightarrow>
              if ty = ''DATE'' \<or> ty = ''DATETIME'' \<or> ty = ''TIMESTAMP'' then None
              else Some ScanError))"

subsection \<open>Migration 00001\<close>

text \<open>
  The three \<open>CREATE TABLE IF NOT EXISTS\<close> statements of
  \<open>migrations/00001_init_schema.sql\<close>, as sqlite executes them.
\<close>

definition create_table_if_not_exists ::
  "string \<Rightarrow> (string \<times> string) list \<Rightarrow> schema \<Rightarrow> schema" where
  "create_table_if_not_exists t cols sch =
     (case map_of sch t of None \<Rightarrow> sch @ [(t, cols)] | Some _ \<Rightarrow> sch)"

definition init_schema :: "schema \<Rightarrow> schema" where
  "init_schema sch =
     create_table_if_not_exists ''poll_mapping''
       [(''poll_id'', ''TEXT''), (''group_id'', ''INTEGER'')]
       (create_table_if_not_exists ''participant''
          [(''id'', ''TEXT''), (''group_id'', ''INTEGER''), (''user_id'', ''INTEGER''),
           (''username'', ''TEXT''), (''full_name'', ''TEXT''), (''created_at'', ''TEXT'')]
          (create_table_if_not_exists ''pair''
             [(''id'', ''TEXT''), (''group_id'', ''INTEGER''), (''week_start'', ''TEXT''),
              (''user1_id'', ''INTEGER''), (''user2_id'', ''INTEGER''), (''created_at'', ''TEXT'')]
             sch))"

text \<open>
  \<open>runMigrations\<close>: \<open>goose.Up\<close> applies the migrations of the directory that are
  not recorded as applied. The directory has the one file, number 1, and that file has
  no \<open>-- +goose Up\<close> annotation: the parser of goose rejects it, so when the
  migration is pending \<open>goose.Up\<close> returns an error and none of the statements runs
  (\<open>main\<close> then exits). When the migration is recorded as applied there is nothing
  to do.
\<close>

definition runMigrations :: "bool \<Rightarrow> db \<Rightarrow> error + db" where
  "runMigrations fault d =
     (if fault then Inl DriverError
      else if 1 \<le> goose_version d then Inr d
      else Inl MigrationError)"

definition empty_db :: db where
  "empty_db = \<lparr>schema = [], goose_version = 0, participant = [], pair = [], poll_mapping = []\<rparr>"

subsection \<open>Participant operations\<close>

definition participant_columns :: "string list" where
  "participant_columns =
     [''id'', ''group_id'', ''user_id'', ''username'', ''full_name'', ''created_at'']"

text \<open>
  The upsert: when a row with the same (group_id, user_id) exists, the \<open>ON CONFLICT\<close>
  branch gives it the new username and full name and leaves its id and created_at;
  otherwise the row is inserted, unless its id (the primary key) is taken.
\<close>

definition CreateOrUpdateParticipant :: "bool \<Rightarrow> db \<Rightarrow> Participant \<Rightarrow> error + db" where
  "CreateOrUpdateParticipant fault d p =
     (case prepare fault (schema d) ''participant'' participant_columns of
        Some e \<Rightarrow> Inl e
      | None \<Rightarrow>
          if \<exists>r \<in> set (participant d). GroupID r = GroupID p \<and> UserID r = UserID p
          then Inr (d\<lparr>participant :=
                 map (\<lambda>r. if GroupID r = GroupID p \<and> UserID r = UserID p
                           then r\<lparr>Username := Username p, FullName := FullName p\<rparr> else r)
                   (participant d)\<rparr>)
          else if \<exists>r \<in> set (participant d). ID r = ID p
          then Inl ConstraintFailed
          else Inr (d\<lparr>participant := participant d @ [p]\<rparr>))"

text \<open>
  The SELECT of \<open>GetAllParticipants\<close> has no \<open>ORDER BY\<close>; sqlite answers it from the
  index of \<open>UNIQUE (group_id, user_id)\<close>, so the rows of the group come by ascending
  user id. The loop returns the error of the first \<open>rows.Scan\<close> that fails.
\<close>

definition GetAllParticipants :: "bool \<Rightarrow> db \<Rightarrow> int \<Rightarrow> error + Participant list" where
  "GetAllParticipants fault d groupID =
     (case prepare fault (schema d) ''participant'' participant_columns of
        Some e \<Rightarrow> Inl e
      | None \<Rightarrow>
         (let rows = sort_key UserID (filter (\<lambda>r. GroupID r = groupID) (participant d)) in
          case (if rows = [] then None else scan_time (schema d) ''participant'' ''created_at'') of
            Some e \<Rightarrow> Inl e
          | None \<Rightarrow> Inr rows))"

definition DeleteParticipant :: "bool \<Rightarrow> db \<Rightarrow> int \<Rightarrow> int \<Rightarrow> error + db" where
  "DeleteParticipant fault d groupID userID =
     (case prepare fault (schema d) ''participant'' [''group_id'', ''user_id''] of
        Some e \<Rightarrow> Inl e
      | None \<Rightarrow> Inr (d\<lparr>participant :=
          filter (\<lambda>r. \<not> (GroupID r = groupID \<and> UserID r = userID)) (participant d)\<rparr>))"

definition ClearAllParticipants :: "bool \<Rightarrow> db \<Rightarrow> int \<Rightarrow> error + db" where
  "ClearAllParticipants fault d groupID =
     (case prepare fault (schema d) ''participant'' [''group_id''] of
        Some e \<Rightarrow> Inl e
      | None \<Rightarrow> Inr (d\<lparr>participant := filter (\<lambda>r. GroupID r \<noteq> groupID) (participant d)\<rparr>))"

subsection \<open>Pair operations\<close>

definition insert_pair :: "bool \<Rightarrow> db \<Rightarrow> Pair \<Rightarrow> error + db" where
  "insert_pair fault d p =
     (case prepare fault (schema d) ''pair''
             [''id'', ''group_id'', ''week_start'', ''user1_id'', ''user2_id'', ''created_at''] of
        Some e \<Rightarrow> Inl e
      | None \<Rightarrow>
          if \<exists>r \<in> set (pair d). Pair_ID r = Pair_ID p
               \<or> (Pair_GroupID r = Pair_GroupID p \<and> WeekStart r = WeekStart p
                   \<and> User1ID r = User1ID p \<and> User2ID r = User2ID p)
          then Inl ConstraintFailed
          else Inr (d\<lparr>pair := pair d @ [p]\<rparr>))"

text \<open>
  \<open>database.CreatePairs\<close>: one INSERT per pair, each committed on its own; the loop
  returns at the first error, and the rows inserted before it stay. The flags say which
  INSERT the driver fails (a missing flag is no failure).
\<close>

fun db_CreatePairs :: "bool list \<Rightarrow> db \<Rightarrow> Pair list \<Rightarrow> error option \<times> db" where
  "db_CreatePairs faults d [] = (None, d)"
| "db_CreatePairs faults d (p # ps) =
     (case insert_pair (case faults of [] \<Rightarrow> False | f # _ \<Rightarrow> f) d p of
        Inl e \<Rightarrow> (Some e, d)
      | Inr d' \<Rightarrow> db_CreatePairs (tl faults) d' ps)"

text \<open>
  The pairing query. The cross join with \<open>p1.user_id < p2.user_id\<close> and the
  \<open>NOT EXISTS\<close> anti-join against the history are written as they are in the SQL;
  \<open>ORDER BY RANDOM()\<close> is the function \<open>rnd\<close>, which the theorems take to be any
  reordering. Each row is scanned into two participants whose \<open>GroupID\<close> is the
  argument; the loop returns the error of the first \<open>rows.Scan\<close> that fails, which
  is the first row when \<open>created_at\<close> does not come back as a time.
\<close>

definition available_users :: "db \<Rightarrow> int \<Rightarrow> (Participant \<times> Participant) list" where
  "available_users d groupID =
     [(p1, p2). p1 \<leftarrow> participant d, p2 \<leftarrow> participant d,
        GroupID p1 = groupID \<and> GroupID p2 = groupID \<and> UserID p1 < UserID p2]"

definition in_history :: "db \<Rightarrow> int \<Rightarrow> Participant \<times> Participant \<Rightarrow> bool" where
  "in_history d groupID au =
     (\<exists>pr \<in> set (pair d). Pair_GroupID pr = groupID
        \<and> ((User1ID pr = UserID (fst au) \<and> User2ID pr = UserID (snd au))
           \<or> (User1ID pr = UserID (snd au) \<and> User2ID pr = UserID (fst au))))"

definition scan_participant :: "int \<Rightarrow> Participant \<Rightarrow> Participant" where
  "scan_participant groupID r =
     \<lparr>ID = ID r, GroupID = groupID, UserID = UserID r, Username = Username r,
      FullName = FullName r, CreatedAt = CreatedAt r\<rparr>"

definition GetAvailablePairs ::
  "bool \<Rightarrow> ((Participant \<times> Participant) list \<Rightarrow> (Participant \<times> Participant) list)
     \<Rightarrow> db \<Rightarrow> int \<Rightarrow> error + (Participant \<times> Participant) list" where
  "GetAvailablePairs fault rnd d groupID =
     (case prepare fault (schema d) ''participant'' participant_columns of
        Some e \<Rightarrow> Inl e
      | None \<Rightarrow>
         (case check_columns (schema d) ''pair'' [''group_id'', ''user1_id'', ''user2_id''] of
            Some e \<Rightarrow> Inl e
          | None \<Rightarrow>
             (let rows = rnd (filter (\<lambda>au. \<not> in_history d groupID au)
                                (available_users d groupID)) in
              case (if rows = [] then None
                    else scan_time (schema d) ''participant'' ''created_at'') of
                Some e \<Rightarrow> Inl e
              | None \<Rightarrow>
                  Inr (map (\<lambda>(r1, r2). (scan_participant groupID r1, scan_participant groupID r2))
                         rows))))"

subsection \<open>Poll mapping operations\<close>

definition CreatePollMapping :: "bool \<Rightarrow> db \<Rightarrow> PollMapping \<Rightarrow> error + db" where
  "CreatePollMapping fault d pm =
     (case prepare fault (schema d) ''poll_mapping'' [''poll_id'', ''group_id'', ''message_id''] of
        Some e \<Rightarrow> Inl e
      | None \<Rightarrow>
          if \<exists>r \<in> set (poll_mapping d). PollID r = PollID pm then Inl ConstraintFailed
          else Inr (d\<lparr>poll_mapping := poll_mapping d @ [pm]\<rparr>))"

definition GetGroupIDByPollID :: "bool \<Rightarrow> db \<Rightarrow> string \<Rightarrow> error + int" where
  "GetGroupIDByPollID fault d pollID =
     (case prepare fault (schema d) ''poll_mapping'' [''group_id'', ''poll_id''] of
        Some e \<Rightarrow> Inl e
      | None \<Rightarrow>
         (case filter (\<lambda>r. PollID r = pollID) (poll_mapping d) of
            [] \<Rightarrow> Inl ErrNoRows
          | r # _ \<Rightarrow> Inr (PM_GroupID r)))"

definition GetPollMappingByGroupID :: "bool \<Rightarrow> db \<Rightarrow> int \<Rightarrow> error + PollMapping option" where
  "GetPollMappingByGroupID fault d groupID =
     (case prepare fault (schema d) ''poll_mapping'' [''poll_id'', ''group_id'', ''message_id''] of
        Some e \<Rightarrow> Inl e
      | None \<Rightarrow>
         (case rev (filter (\<lambda>r. PM_GroupID r = groupID) (poll_mapping d)) of
            [] \<Rightarrow> Inr None
          | r # _ \<Rightarrow> Inr (Some r)))"

definition DeletePollMapping :: "bool \<Rightarrow> db \<Rightarrow> int \<Rightarrow> error + db" where
  "DeletePollMapping fault d groupID =
     (case prepare fault (schema d) ''poll_mapping'' [''group_id''] of
        Some e \<Rightarrow> Inl e
      | None \<Rightarrow> Inr (d\<lparr>poll_mapping :=
          filter (\<lambda>r. PM_GroupID r \<noteq> groupID) (poll_mapping d)\<rparr>))"

section \<open>The pairing engine (package main)\<close>

text \<open>
  \<open>usedUsers\<close> is a Go \<open>map[int64]bool\<close>: reading a missing key gives \<open>false\<close>.
\<close>

definition lookup_bool :: "(int \<rightharpoonup> bool) \<Rightarrow> int \<Rightarrow> bool" where
  "lookup_bool m k = (case m k of None \<Rightarrow> False | Some b \<Rightarrow> b)"

fun filterUniquePairs_loop ::
  "(Participant \<times> Participant) list \<Rightarrow> (Participant \<times> Participant) list \<times> (int \<rightharpoonup> bool)
     \<Rightarrow> (Participant \<times> Participant) list \<times> (int \<rightharpoonup> bool)" where
  "filterUniquePairs_loop [] (finalPairs, usedUsers) = (finalPairs, usedUsers)"
| "filterUniquePairs_loop ((p1, p2) # rest) (finalPairs, usedUsers) =
     (if \<not> lookup_bool usedUsers (UserID p1) \<and> \<not> lookup_bool usedUsers (UserID p2)
      then filterUniquePairs_loop rest
             (finalPairs @ [(p1, p2)], usedUsers(UserID p1 \<mapsto> True, UserID p2 \<mapsto> True))
      else filterUniquePairs_loop rest (finalPairs, usedUsers))"

definition filterUniquePairs ::
  "(Participant \<times> Participant) list \<Rightarrow> (Participant \<times> Participant) list \<times> (int \<rightharpoonup> bool)" where
  "filterUniquePairs availablePairs = filterUniquePairs_loop availablePairs ([], Map.empty)"

text \<open>
  The user ids that \<open>usedUsers\<close> marks, and the number of selected pairs a user id
  occurs in.
\<close>

definition used_ids :: "(int \<rightharpoonup> bool) \<Rightarrow> int set" where
  "used_ids m = {u. lookup_bool m u}"

definition appearances :: "(Participant \<times> Participant) list \<Rightarrow> int \<Rightarrow> nat" where
  "appearances finalPairs u =
     length (filter (\<lambda>(a, b). UserID a = u \<or> UserID b = u) finalPairs)"

section \<open>The outside world of one handler run\<close>

text \<open>
  A handler changes the database and calls the Telegram API and the logger. The world
  is the database together with the trace of these calls, in order. What the outside
  answers during one run of a handler is the environment \<open>env\<close>: which database
  calls the driver fails, the order \<open>ORDER BY RANDOM()\<close> produces, the answers of the
  Telegram API, the values of \<open>uuid.New()\<close> and \<open>time.Now()\<close>. The theorems hold for
  every environment unless they say otherwise. The admin notifier, which forwards
  error-level log records to the admins from a goroutine of its own, and the mutex of
  \<open>Bot.Update\<close> are outside the model.
\<close>

datatype level = Debug | Info | Warn | Error

datatype dbcall =
    Call_CreateOrUpdateParticipant Participant
  | Call_GetAllParticipants int
  | Call_DeleteParticipant int int
  | Call_ClearAllParticipants int
  | Call_CreatePairs "Pair list"
  | Call_GetAvailablePairs int
  | Call_CreatePollMapping PollMapping
  | Call_GetGroupIDByPollID string
  | Call_GetPollMappingByGroupID int
  | Call_DeletePollMapping int

datatype opname =
    Op_CreateOrUpdateParticipant | Op_GetAllParticipants | Op_DeleteParticipant
  | Op_ClearAllParticipants | Op_GetAvailablePairs | Op_CreatePollMapping
  | Op_GetGroupIDByPollID | Op_GetPollMappingByGroupID | Op_DeletePollMapping

datatype event =
    SendMessage string int
  | SendPoll int
  | PinChatMessage int int
  | UnpinChatMessage int int
  | DBCall dbcall
  | Log level string

datatype poll_result = PollError | PollNil | PollSent string int

record env =
  db_fault :: "opname \<Rightarrow> bool"
  insert_fault :: "bool list"
  order_by_random :: "(Participant \<times> Participant) list \<Rightarrow> (Participant \<times> Participant) list"
  send_message_err :: "string option"
  send_poll_res :: poll_result
  pin_err :: bool
  unpin_err :: bool
  uuid_New :: "nat \<Rightarrow> uuid"
  time_Now :: time

record world =
  DB :: db
  trace :: "event list"

definition emit :: "event \<Rightarrow> world \<Rightarrow> world" where
  "emit ev w = w\<lparr>trace := trace w @ [ev]\<rparr>"

text \<open>
  The configuration read from the environment variables once parsed: the admin map
  built by \<open>initAdmins\<close> and the list \<open>getConfiguredGroups\<close> returns.
\<close>

record config =
  adminChatIDsMap :: "int \<rightharpoonup> bool"
  configuredGroups :: "int list"

section \<open>Message texts\<close>

text \<open>The string literals of package main, as their UTF-8 bytes.\<close>

definition msg_header :: string where
  "msg_header =
     [CHR 0xF0, CHR 0x9F, CHR 0x8E, CHR 0x89] @ '' '' @ [CHR 0xD0, CHR 0x9F, CHR 0xD0, CHR 0xB0,
     CHR 0xD1, CHR 0x80, CHR 0xD1, CHR 0x8B] @ '' Random Coffee '' @ [CHR 0xD0, CHR 0xBD,
     CHR 0xD0, CHR 0xB0] @ '' '' @ [CHR 0xD1, CHR 0x8D, CHR 0xD1, CHR 0x82, CHR 0xD1, CHR 0x83] @
     '' '' @ [CHR 0xD0, CHR 0xBD, CHR 0xD0, CHR 0xB5, CHR 0xD0, CHR 0xB4, CHR 0xD0, CHR 0xB5,
     CHR 0xD0, CHR 0xBB, CHR 0xD1, CHR 0x8E] @ '' '' @ [CHR 0xE2, CHR 0x98, CHR 0x95, CHR 0xEF,
     CHR 0xB8, CHR 0x8F, CHR 0x0A, CHR 0x0A]"

definition msg_bullet :: string where
  "msg_bullet =
     [CHR 0xE2, CHR 0x96, CHR 0xAB, CHR 0xEF, CHR 0xB8, CHR 0x8F] @ '' ''"

definition msg_cross :: string where
  "msg_cross =
     '' '' @ [CHR 0xE2, CHR 0x9C, CHR 0x96, CHR 0xEF, CHR 0xB8, CHR 0x8F] @ '' ''"

definition msg_footer :: string where
  "msg_footer =
     [CHR 0xF0, CHR 0x9F, CHR 0x92, CHR 0xAC] @ '' '' @ [CHR 0xD0, CHR 0x9D, CHR 0xD0, CHR 0xB0,
     CHR 0xD0, CHR 0xBF, CHR 0xD0, CHR 0xB8, CHR 0xD1, CHR 0x88, CHR 0xD0, CHR 0xB8] @ '' '' @
     [CHR 0xD0, CHR 0xBF, CHR 0xD1, CHR 0x80, CHR 0xD1, CHR 0x8F, CHR 0xD0, CHR 0xBC, CHR 0xD0,
     CHR 0xBE] @ '' '' @ [CHR 0xD1, CHR 0x81, CHR 0xD0, CHR 0xB5, CHR 0xD0, CHR 0xB9, CHR 0xD1,
     CHR 0x87, CHR 0xD0, CHR 0xB0, CHR 0xD1, CHR 0x81] @ '' '' @ [CHR 0xD1, CHR 0x81, CHR 0xD0,
     CHR 0xBE, CHR 0xD0, CHR 0xB1, CHR 0xD0, CHR 0xB5, CHR 0xD1, CHR 0x81, CHR 0xD0, CHR 0xB5,
     CHR 0xD0, CHR 0xB4, CHR 0xD0, CHR 0xBD, CHR 0xD0, CHR 0xB8, CHR 0xD0, CHR 0xBA, CHR 0xD1,
     CHR 0x83] @ '' '' @ [CHR 0xD0, CHR 0xB2] @ '' '' @ [CHR 0xD0, CHR 0xBB, CHR 0xD0, CHR 0xB8,
     CHR 0xD1, CHR 0x87, CHR 0xD0, CHR 0xBA, CHR 0xD1, CHR 0x83] @ '' '' @ [CHR 0xD0, CHR 0xB8] @
     '' '' @ [CHR 0xD0, CHR 0xB4, CHR 0xD0, CHR 0xBE, CHR 0xD0, CHR 0xB3, CHR 0xD0, CHR 0xBE,
     CHR 0xD0, CHR 0xB2, CHR 0xD0, CHR 0xBE, CHR 0xD1, CHR 0x80, CHR 0xD0, CHR 0xB8, CHR 0xD1,
     CHR 0x81, CHR 0xD1, CHR 0x8C] @ '' '' @ [CHR 0xD0, CHR 0xBE] @ '' '' @ [CHR 0xD0, CHR 0xBC,
     CHR 0xD0, CHR 0xB5, CHR 0xD1, CHR 0x81, CHR 0xD1, CHR 0x82, CHR 0xD0, CHR 0xB5] @ '' '' @
     [CHR 0xD0, CHR 0xB8] @ '' '' @ [CHR 0xD0, CHR 0xB2, CHR 0xD1, CHR 0x80, CHR 0xD0, CHR 0xB5,
     CHR 0xD0, CHR 0xBC, CHR 0xD0, CHR 0xB5, CHR 0xD0, CHR 0xBD, CHR 0xD0, CHR 0xB8] @ ''!''"

definition msg_unpaired :: string where
  "msg_unpaired =
     [CHR 0x0A, CHR 0x0A, CHR 0xF0, CHR 0x9F, CHR 0x98, CHR 0x94] @ '' '' @ [CHR 0xD0, CHR 0x9A]
     @ '' '' @ [CHR 0xD1, CHR 0x81, CHR 0xD0, CHR 0xBE, CHR 0xD0, CHR 0xB6, CHR 0xD0, CHR 0xB0,
     CHR 0xD0, CHR 0xBB, CHR 0xD0, CHR 0xB5, CHR 0xD0, CHR 0xBD, CHR 0xD0, CHR 0xB8, CHR 0xD1,
     CHR 0x8E] @ '', '' @ [CHR 0xD0, CHR 0xB1, CHR 0xD0, CHR 0xB5, CHR 0xD0, CHR 0xB7] @ '' '' @
     [CHR 0xD0, CHR 0xBF, CHR 0xD0, CHR 0xB0, CHR 0xD1, CHR 0x80, CHR 0xD1, CHR 0x8B] @ '': ''"

definition msg_truncated :: string where
  "msg_truncated =
     [CHR 0x0A, CHR 0x0A] @ ''...('' @ [CHR 0xD0, CHR 0xBE, CHR 0xD0, CHR 0xB1, CHR 0xD1,
     CHR 0x80, CHR 0xD0, CHR 0xB5, CHR 0xD0, CHR 0xB7, CHR 0xD0, CHR 0xB0, CHR 0xD0, CHR 0xBD,
     CHR 0xD0, CHR 0xBE] @ '')''"

definition msg_get_pairs_failed :: string where
  "msg_get_pairs_failed =
     [CHR 0xE2, CHR 0x9D, CHR 0x8C] @ '' '' @ [CHR 0xD0, CHR 0x9E, CHR 0xD1, CHR 0x88, CHR 0xD0,
     CHR 0xB8, CHR 0xD0, CHR 0xB1, CHR 0xD0, CHR 0xBA, CHR 0xD0, CHR 0xB0] @ '' '' @ [CHR 0xD0,
     CHR 0xBF, CHR 0xD1, CHR 0x80, CHR 0xD0, CHR 0xB8] @ '' '' @ [CHR 0xD0, CHR 0xBF, CHR 0xD0,
     CHR 0xBE, CHR 0xD0, CHR 0xBB, CHR 0xD1, CHR 0x83, CHR 0xD1, CHR 0x87, CHR 0xD0, CHR 0xB5,
     CHR 0xD0, CHR 0xBD, CHR 0xD0, CHR 0xB8, CHR 0xD0, CHR 0xB8] @ '' '' @ [CHR 0xD0, CHR 0xB4,
     CHR 0xD0, CHR 0xBE, CHR 0xD1, CHR 0x81, CHR 0xD1, CHR 0x82, CHR 0xD1, CHR 0x83, CHR 0xD0,
     CHR 0xBF, CHR 0xD0, CHR 0xBD, CHR 0xD1, CHR 0x8B, CHR 0xD1, CHR 0x85] @ '' '' @ [CHR 0xD0,
     CHR 0xBF, CHR 0xD0, CHR 0xB0, CHR 0xD1, CHR 0x80]"

definition msg_not_enough :: string where
  "msg_not_enough =
     [CHR 0xE2, CHR 0x9D, CHR 0x8C] @ '' '' @ [CHR 0xD0, CHR 0x9D, CHR 0xD0, CHR 0xB5, CHR 0xD0,
     CHR 0xB4, CHR 0xD0, CHR 0xBE, CHR 0xD1, CHR 0x81, CHR 0xD1, CHR 0x82, CHR 0xD0, CHR 0xB0,
     CHR 0xD1, CHR 0x82, CHR 0xD0, CHR 0xBE, CHR 0xD1, CHR 0x87, CHR 0xD0, CHR 0xBD, CHR 0xD0,
     CHR 0xBE] @ '' '' @ [CHR 0xD1, CHR 0x83, CHR 0xD1, CHR 0x87, CHR 0xD0, CHR 0xB0, CHR 0xD1,
     CHR 0x81, CHR 0xD1, CHR 0x82, CHR 0xD0, CHR 0xBD, CHR 0xD0, CHR 0xB8, CHR 0xD0, CHR 0xBA,
     CHR 0xD0, CHR 0xBE, CHR 0xD0, CHR 0xB2] @ '' '' @ [CHR 0xD0, CHR 0xB8, CHR 0xD0, CHR 0xBB,
     CHR 0xD0, CHR 0xB8] @ '' '' @ [CHR 0xD0, CHR 0xBD, CHR 0xD0, CHR 0xB5, CHR 0xD1, CHR 0x82] @
     '' '' @ [CHR 0xD1, CHR 0x83, CHR 0xD0, CHR 0xBD, CHR 0xD0, CHR 0xB8, CHR 0xD0, CHR 0xBA,
     CHR 0xD0, CHR 0xB0, CHR 0xD0, CHR 0xBB, CHR 0xD1, CHR 0x8C, CHR 0xD0, CHR 0xBD, CHR 0xD1,
     CHR 0x8B, CHR 0xD1, CHR 0x85] @ '' '' @ [CHR 0xD0, CHR 0xBF, CHR 0xD0, CHR 0xB0, CHR 0xD1,
     CHR 0x80]"

definition msg_no_unique_pairs :: string where
  "msg_no_unique_pairs =
     [CHR 0xE2, CHR 0x9D, CHR 0x8C] @ '' '' @ [CHR 0xD0, CHR 0x9D, CHR 0xD0, CHR 0xB5] @ '' '' @
     [CHR 0xD1, CHR 0x83, CHR 0xD0, CHR 0xB4, CHR 0xD0, CHR 0xB0, CHR 0xD0, CHR 0xBB, CHR 0xD0,
     CHR 0xBE, CHR 0xD1, CHR 0x81, CHR 0xD1, CHR 0x8C] @ '' '' @ [CHR 0xD1, CHR 0x81, CHR 0xD0,
     CHR 0xBE, CHR 0xD0, CHR 0xB7, CHR 0xD0, CHR 0xB4, CHR 0xD0, CHR 0xB0, CHR 0xD1, CHR 0x82,
     CHR 0xD1, CHR 0x8C] @ '' '' @ [CHR 0xD1, CHR 0x83, CHR 0xD0, CHR 0xBD, CHR 0xD0, CHR 0xB8,
     CHR 0xD0, CHR 0xBA, CHR 0xD0, CHR 0xB0, CHR 0xD0, CHR 0xBB, CHR 0xD1, CHR 0x8C, CHR 0xD0,
     CHR 0xBD, CHR 0xD1, CHR 0x8B, CHR 0xD0, CHR 0xB5] @ '' '' @ [CHR 0xD0, CHR 0xBF, CHR 0xD0,
     CHR 0xB0, CHR 0xD1, CHR 0x80, CHR 0xD1, CHR 0x8B]"

definition msg_save_failed :: string where
  "msg_save_failed =
     [CHR 0xE2, CHR 0x9D, CHR 0x8C] @ '' '' @ [CHR 0xD0, CHR 0x9E, CHR 0xD1, CHR 0x88, CHR 0xD0,
     CHR 0xB8, CHR 0xD0, CHR 0xB1, CHR 0xD0, CHR 0xBA, CHR 0xD0, CHR 0xB0] @ '' '' @ [CHR 0xD0,
     CHR 0xBF, CHR 0xD1, CHR 0x80, CHR 0xD0, CHR 0xB8] @ '' '' @ [CHR 0xD1, CHR 0x81, CHR 0xD0,
     CHR 0xBE, CHR 0xD1, CHR 0x85, CHR 0xD1, CHR 0x80, CHR 0xD0, CHR 0xB0, CHR 0xD0, CHR 0xBD,
     CHR 0xD0, CHR 0xB5, CHR 0xD0, CHR 0xBD, CHR 0xD0, CHR 0xB8, CHR 0xD0, CHR 0xB8] @ '' '' @
     [CHR 0xD0, CHR 0xBF, CHR 0xD0, CHR 0xB0, CHR 0xD1, CHR 0x80]"

definition msg_start :: string where
  "msg_start =
     [CHR 0xF0, CHR 0x9F, CHR 0x91, CHR 0x8B] @ '' '' @ [CHR 0xD0, CHR 0x9F, CHR 0xD1, CHR 0x80,
     CHR 0xD0, CHR 0xB8, CHR 0xD0, CHR 0xB2, CHR 0xD0, CHR 0xB5, CHR 0xD1, CHR 0x82] @ ''! '' @
     [CHR 0xD0, CHR 0xAD, CHR 0xD1, CHR 0x82, CHR 0xD0, CHR 0xBE] @ '' Random Coffee Bot.'' @
     [CHR 0x0A, CHR 0x0A, CHR 0xD0, CHR 0x91, CHR 0xD0, CHR 0xBE, CHR 0xD1, CHR 0x82] @ '' '' @
     [CHR 0xD0, CHR 0xB0, CHR 0xD0, CHR 0xB2, CHR 0xD1, CHR 0x82, CHR 0xD0, CHR 0xBE, CHR 0xD0,
     CHR 0xBC, CHR 0xD0, CHR 0xB0, CHR 0xD1, CHR 0x82, CHR 0xD0, CHR 0xB8, CHR 0xD1, CHR 0x87,
     CHR 0xD0, CHR 0xB5, CHR 0xD1, CHR 0x81, CHR 0xD0, CHR 0xBA, CHR 0xD0, CHR 0xB8] @ '' '' @
     [CHR 0xD1, CHR 0x81, CHR 0xD0, CHR 0xBE, CHR 0xD0, CHR 0xB7, CHR 0xD0, CHR 0xB4, CHR 0xD0,
     CHR 0xB0, CHR 0xD0, CHR 0xB5, CHR 0xD1, CHR 0x82] @ '' '' @ [CHR 0xD0, CHR 0xBF, CHR 0xD0,
     CHR 0xB0, CHR 0xD1, CHR 0x80, CHR 0xD1, CHR 0x8B] @ '' '' @ [CHR 0xD0, CHR 0xB4, CHR 0xD0,
     CHR 0xBB, CHR 0xD1, CHR 0x8F] @ '' '' @ [CHR 0xD1, CHR 0x81, CHR 0xD0, CHR 0xBB, CHR 0xD1,
     CHR 0x83, CHR 0xD1, CHR 0x87, CHR 0xD0, CHR 0xB0, CHR 0xD0, CHR 0xB9, CHR 0xD0, CHR 0xBD,
     CHR 0xD1, CHR 0x8B, CHR 0xD1, CHR 0x85] @ '' '' @ [CHR 0xD0, CHR 0xB2, CHR 0xD1, CHR 0x81,
     CHR 0xD1, CHR 0x82, CHR 0xD1, CHR 0x80, CHR 0xD0, CHR 0xB5, CHR 0xD1, CHR 0x87] @ ''.'' @
     [CHR 0x0A, CHR 0x0A, CHR 0xF0, CHR 0x9F, CHR 0x93, CHR 0x85] @ '' '' @ [CHR 0xD0, CHR 0xA0,
     CHR 0xD0, CHR 0xB0, CHR 0xD1, CHR 0x81, CHR 0xD0, CHR 0xBF, CHR 0xD0, CHR 0xB8, CHR 0xD1,
     CHR 0x81, CHR 0xD0, CHR 0xB0, CHR 0xD0, CHR 0xBD, CHR 0xD0, CHR 0xB8, CHR 0xD0, CHR 0xB5] @
     '':'' @ [CHR 0x0A, CHR 0xE2, CHR 0x80, CHR 0xA2] @ '' '' @ [CHR 0xD0, CHR 0x9F, CHR 0xD1,
     CHR 0x8F, CHR 0xD1, CHR 0x82, CHR 0xD0, CHR 0xBD, CHR 0xD0, CHR 0xB8, CHR 0xD1, CHR 0x86,
     CHR 0xD0, CHR 0xB0] @ '' 17:00 - '' @ [CHR 0xD1, CHR 0x80, CHR 0xD0, CHR 0xB0, CHR 0xD1,
     CHR 0x81, CHR 0xD1, CHR 0x81, CHR 0xD1, CHR 0x8B, CHR 0xD0, CHR 0xBB, CHR 0xD0, CHR 0xBA,
     CHR 0xD0, CHR 0xB0] @ '' '' @ [CHR 0xD0, CHR 0xBE, CHR 0xD0, CHR 0xBF, CHR 0xD1, CHR 0x80,
     CHR 0xD0, CHR 0xBE, CHR 0xD1, CHR 0x81, CHR 0xD0, CHR 0xB0, CHR 0x0A, CHR 0xE2, CHR 0x80,
     CHR 0xA2] @ '' '' @ [CHR 0xD0, CHR 0x92, CHR 0xD0, CHR 0xBE, CHR 0xD1, CHR 0x81, CHR 0xD0,
     CHR 0xBA, CHR 0xD1, CHR 0x80, CHR 0xD0, CHR 0xB5, CHR 0xD1, CHR 0x81, CHR 0xD0, CHR 0xB5,
     CHR 0xD0, CHR 0xBD, CHR 0xD1, CHR 0x8C, CHR 0xD0, CHR 0xB5] @ '' 19:00 - '' @ [CHR 0xD1,
     CHR 0x81, CHR 0xD0, CHR 0xBE, CHR 0xD0, CHR 0xB7, CHR 0xD0, CHR 0xB4, CHR 0xD0, CHR 0xB0,
     CHR 0xD0, CHR 0xBD, CHR 0xD0, CHR 0xB8, CHR 0xD0, CHR 0xB5] @ '' '' @ [CHR 0xD0, CHR 0xBF,
     CHR 0xD0, CHR 0xB0, CHR 0xD1, CHR 0x80, CHR 0x0A, CHR 0x0A, CHR 0xD0, CHR 0x9A, CHR 0xD0,
     CHR 0xBE, CHR 0xD0, CHR 0xBC, CHR 0xD0, CHR 0xB0, CHR 0xD0, CHR 0xBD, CHR 0xD0, CHR 0xB4,
     CHR 0xD1, CHR 0x8B] @ '' '' @ [CHR 0xD0, CHR 0xB2] @ '' '' @ [CHR 0xD0, CHR 0xBB, CHR 0xD0,
     CHR 0xB8, CHR 0xD1, CHR 0x87, CHR 0xD0, CHR 0xBA, CHR 0xD0, CHR 0xB5] @ '' ('' @ [CHR 0xD1,
     CHR 0x82, CHR 0xD0, CHR 0xBE, CHR 0xD0, CHR 0xBB, CHR 0xD1, CHR 0x8C, CHR 0xD0, CHR 0xBA,
     CHR 0xD0, CHR 0xBE] @ '' '' @ [CHR 0xD0, CHR 0xB4, CHR 0xD0, CHR 0xBB, CHR 0xD1, CHR 0x8F] @
     '' '' @ [CHR 0xD0, CHR 0xB0, CHR 0xD0, CHR 0xB4, CHR 0xD0, CHR 0xBC, CHR 0xD0, CHR 0xB8,
     CHR 0xD0, CHR 0xBD, CHR 0xD0, CHR 0xBE, CHR 0xD0, CHR 0xB2] @ ''):'' @ [CHR 0x0A] @
     ''/groups - '' @ [CHR 0xD1, CHR 0x81, CHR 0xD0, CHR 0xBF, CHR 0xD0, CHR 0xB8, CHR 0xD1,
     CHR 0x81, CHR 0xD0, CHR 0xBE, CHR 0xD0, CHR 0xBA] @ '' '' @ [CHR 0xD0, CHR 0xB3, CHR 0xD1,
     CHR 0x80, CHR 0xD1, CHR 0x83, CHR 0xD0, CHR 0xBF, CHR 0xD0, CHR 0xBF, CHR 0x0A, CHR 0x0A,
     CHR 0xD0, CHR 0x9A, CHR 0xD0, CHR 0xBE, CHR 0xD0, CHR 0xBC, CHR 0xD0, CHR 0xB0, CHR 0xD0,
     CHR 0xBD, CHR 0xD0, CHR 0xB4, CHR 0xD1, CHR 0x8B] @ '' '' @ [CHR 0xD0, CHR 0xB2] @ '' '' @
     [CHR 0xD0, CHR 0xB3, CHR 0xD1, CHR 0x80, CHR 0xD1, CHR 0x83, CHR 0xD0, CHR 0xBF, CHR 0xD0,
     CHR 0xBF, CHR 0xD0, CHR 0xB5] @ '' ('' @ [CHR 0xD1, CHR 0x82, CHR 0xD0, CHR 0xBE, CHR 0xD0,
     CHR 0xBB, CHR 0xD1, CHR 0x8C, CHR 0xD0, CHR 0xBA, CHR 0xD0, CHR 0xBE] @ '' '' @ [CHR 0xD0,
     CHR 0xB4, CHR 0xD0, CHR 0xBB, CHR 0xD1, CHR 0x8F] @ '' '' @ [CHR 0xD0, CHR 0xB0, CHR 0xD0,
     CHR 0xB4, CHR 0xD0, CHR 0xBC, CHR 0xD0, CHR 0xB8, CHR 0xD0, CHR 0xBD, CHR 0xD0, CHR 0xBE,
     CHR 0xD0, CHR 0xB2] @ ''):'' @ [CHR 0x0A] @ ''/send_quiz - '' @ [CHR 0xD0, CHR 0xBE,
     CHR 0xD1, CHR 0x82, CHR 0xD0, CHR 0xBF, CHR 0xD1, CHR 0x80, CHR 0xD0, CHR 0xB0, CHR 0xD0,
     CHR 0xB2, CHR 0xD0, CHR 0xB8, CHR 0xD1, CHR 0x82, CHR 0xD1, CHR 0x8C] @ '' '' @ [CHR 0xD0,
     CHR 0xBE, CHR 0xD0, CHR 0xBF, CHR 0xD1, CHR 0x80, CHR 0xD0, CHR 0xBE, CHR 0xD1, CHR 0x81] @
     '' '' @ [CHR 0xD0, CHR 0xB2, CHR 0xD1, CHR 0x80, CHR 0xD1, CHR 0x83, CHR 0xD1, CHR 0x87,
     CHR 0xD0, CHR 0xBD, CHR 0xD1, CHR 0x83, CHR 0xD1, CHR 0x8E, CHR 0x0A] @ ''/create_pairs - ''
     @ [CHR 0xD1, CHR 0x81, CHR 0xD0, CHR 0xBE, CHR 0xD0, CHR 0xB7, CHR 0xD0, CHR 0xB4, CHR 0xD0,
     CHR 0xB0, CHR 0xD1, CHR 0x82, CHR 0xD1, CHR 0x8C] @ '' '' @ [CHR 0xD0, CHR 0xBF, CHR 0xD0,
     CHR 0xB0, CHR 0xD1, CHR 0x80, CHR 0xD1, CHR 0x8B] @ '' '' @ [CHR 0xD0, CHR 0xB2, CHR 0xD1,
     CHR 0x80, CHR 0xD1, CHR 0x83, CHR 0xD1, CHR 0x87, CHR 0xD0, CHR 0xBD, CHR 0xD1, CHR 0x83,
     CHR 0xD1, CHR 0x8E]"

definition msg_access_denied :: string where
  "msg_access_denied =
     [CHR 0xE2, CHR 0x9D, CHR 0x8C] @ '' '' @ [CHR 0xD0, CHR 0x94, CHR 0xD0, CHR 0xBE, CHR 0xD1,
     CHR 0x81, CHR 0xD1, CHR 0x82, CHR 0xD1, CHR 0x83, CHR 0xD0, CHR 0xBF] @ '' '' @ [CHR 0xD0,
     CHR 0xB7, CHR 0xD0, CHR 0xB0, CHR 0xD0, CHR 0xBF, CHR 0xD1, CHR 0x80, CHR 0xD0, CHR 0xB5,
     CHR 0xD1, CHR 0x89, CHR 0xD0, CHR 0xB5, CHR 0xD0, CHR 0xBD]"

definition msg_no_groups :: string where
  "msg_no_groups =
     [CHR 0xD0, CHR 0x93, CHR 0xD1, CHR 0x80, CHR 0xD1, CHR 0x83, CHR 0xD0, CHR 0xBF, CHR 0xD0,
     CHR 0xBF, CHR 0xD1, CHR 0x8B] @ '' '' @ [CHR 0xD0, CHR 0xBD, CHR 0xD0, CHR 0xB5] @ '' '' @
     [CHR 0xD0, CHR 0xBD, CHR 0xD0, CHR 0xB0, CHR 0xD1, CHR 0x81, CHR 0xD1, CHR 0x82, CHR 0xD1,
     CHR 0x80, CHR 0xD0, CHR 0xBE, CHR 0xD0, CHR 0xB5, CHR 0xD0, CHR 0xBD, CHR 0xD1, CHR 0x8B]"

definition msg_groups_header :: string where
  "msg_groups_header =
     [CHR 0xD0, CHR 0x9D, CHR 0xD0, CHR 0xB0, CHR 0xD1, CHR 0x81, CHR 0xD1, CHR 0x82, CHR 0xD1,
     CHR 0x80, CHR 0xD0, CHR 0xBE, CHR 0xD0, CHR 0xB5, CHR 0xD0, CHR 0xBD, CHR 0xD0, CHR 0xBD,
     CHR 0xD1, CHR 0x8B, CHR 0xD0, CHR 0xB5] @ '' '' @ [CHR 0xD0, CHR 0xB3, CHR 0xD1, CHR 0x80,
     CHR 0xD1, CHR 0x83, CHR 0xD0, CHR 0xBF, CHR 0xD0, CHR 0xBF, CHR 0xD1, CHR 0x8B] @ '':'' @
     [CHR 0x0A]"

definition msg_group_bullet :: string where
  "msg_group_bullet =
     [CHR 0xE2, CHR 0x80, CHR 0xA2] @ '' ''"

definition msg_unknown_command :: string where
  "msg_unknown_command =
     [CHR 0xD0, CHR 0x9D, CHR 0xD0, CHR 0xB5, CHR 0xD0, CHR 0xB8, CHR 0xD0, CHR 0xB7, CHR 0xD0,
     CHR 0xB2, CHR 0xD0, CHR 0xB5, CHR 0xD1, CHR 0x81, CHR 0xD1, CHR 0x82, CHR 0xD0, CHR 0xBD,
     CHR 0xD0, CHR 0xB0, CHR 0xD1, CHR 0x8F] @ '' '' @ [CHR 0xD0, CHR 0xBA, CHR 0xD0, CHR 0xBE,
     CHR 0xD0, CHR 0xBC, CHR 0xD0, CHR 0xB0, CHR 0xD0, CHR 0xBD, CHR 0xD0, CHR 0xB4, CHR 0xD0,
     CHR 0xB0] @ ''. '' @ [CHR 0xD0, CHR 0x98, CHR 0xD1, CHR 0x81, CHR 0xD0, CHR 0xBF, CHR 0xD0,
     CHR 0xBE, CHR 0xD0, CHR 0xBB, CHR 0xD1, CHR 0x8C, CHR 0xD0, CHR 0xB7, CHR 0xD1, CHR 0x83,
     CHR 0xD0, CHR 0xB9] @ '' /start '' @ [CHR 0xD0, CHR 0xB4, CHR 0xD0, CHR 0xBB, CHR 0xD1,
     CHR 0x8F] @ '' '' @ [CHR 0xD1, CHR 0x81, CHR 0xD0, CHR 0xBF, CHR 0xD1, CHR 0x80, CHR 0xD0,
     CHR 0xB0, CHR 0xD0, CHR 0xB2, CHR 0xD0, CHR 0xBA, CHR 0xD0, CHR 0xB8] @ ''.''"

section \<open>Helpers of package main\<close>

definition sendMessage :: "env \<Rightarrow> string \<Rightarrow> int \<Rightarrow> world \<Rightarrow> world" where
  "sendMessage e text chatID w =
     (let w1 = emit (SendMessage text chatID) w in
      case send_message_err e of
        None \<Rightarrow> w1
      | Some errStr \<Rightarrow>
          if sublist ''bot was blocked'' errStr \<or> sublist ''bot was kicked'' errStr
             \<or> sublist ''chat not found'' errStr \<or> sublist ''have no rights'' errStr
          then (if chatID < 0
                then emit (Log Warn ''Bot removed from group or no permissions'') w1
                else emit (Log Warn ''Bot blocked by user or chat not found'') w1)
          else emit (Log Error ''SendMessage failed'') w1)"

definition getDisplayName :: "Participant \<Rightarrow> string" where
  "getDisplayName p = (if Username p \<noteq> [] then ''@'' @ Username p else FullName p)"

text \<open>
  Calendar: day 0 is 1970-01-01, a Thursday (\<open>time.Weekday\<close> 4; Sunday is 0).
  \<open>t.AddDate(0, 0, n)\<close> moves the wall clock by \<open>n\<close> days. \<open>getWeekStart\<close> formats
  the Monday of the week as a date; the model keeps the number of that day, so
  \<open>WeekStart\<close> is a day number.
\<close>

definition ns_per_day :: int where
  "ns_per_day = 86400 * 1000000000"

definition Weekday :: "time \<Rightarrow> int" where
  "Weekday t = (4 + t div ns_per_day) mod 7"

definition AddDate_days :: "time \<Rightarrow> int \<Rightarrow> time" where
  "AddDate_days t n = t + n * ns_per_day"

definition getWeekStart :: "time \<Rightarrow> int" where
  "getWeekStart t =
     (let offset = Weekday t - 1;
          offset = (if offset < 0 then offset + 7 else offset)
      in AddDate_days t (- offset) div ns_per_day)"

definition isAdmin :: "config \<Rightarrow> int \<Rightarrow> bool" where
  "isAdmin cfg userID = lookup_bool (adminChatIDsMap cfg) userID"

text \<open>\<open>fmt.Sprintf("%d", n)\<close> for an int64.\<close>

fun digits :: "nat \<Rightarrow> string" where
  "digits n = (if n < 10 then [''0123456789'' ! n]
               else digits (n div 10) @ [''0123456789'' ! (n mod 10)])"

definition itoa :: "int \<Rightarrow> string" where
  "itoa n = (if n < 0 then ''-'' @ digits (nat (- n)) else digits (nat n))"

section \<open>Telegram updates\<close>

record User =
  User_ID :: int
  FirstName :: string
  LastName :: string
  User_Username :: string

record PollAnswer =
  PA_PollID :: string
  PA_User :: "User option"
  OptionIDs :: "int list"

record Chat =
  Chat_ID :: int
  Chat_Type :: string

record Message =
  From :: "User option"
  Chat :: Chat
  Text :: string

record Update =
  U_PollAnswer :: "PollAnswer option"
  U_Message :: "Message option"

section \<open>Response workflow\<close>

definition HandlePollAnswer :: "env \<Rightarrow> world \<Rightarrow> PollAnswer \<Rightarrow> world" where
  "HandlePollAnswer e w pollAnswer =
     (case PA_User pollAnswer of
        None \<Rightarrow> w
      | Some user \<Rightarrow>
         (let w1 = emit (DBCall (Call_GetGroupIDByPollID (PA_PollID pollAnswer))) w in
          case GetGroupIDByPollID (db_fault e Op_GetGroupIDByPollID) (DB w1) (PA_PollID pollAnswer) of
            Inl err \<Rightarrow> emit (Log Debug ''Poll not found (probably old poll)'') w1
          | Inr groupID \<Rightarrow>
              if (case OptionIDs pollAnswer of [] \<Rightarrow> True | o0 # _ \<Rightarrow> o0 \<noteq> 0)
              then
                (let w2 = emit (DBCall (Call_DeleteParticipant groupID (User_ID user))) w1 in
                 case DeleteParticipant (db_fault e Op_DeleteParticipant) (DB w2) groupID (User_ID user) of
                   Inl err \<Rightarrow> emit (Log Warn ''Failed to delete participant'') w2
                 | Inr d \<Rightarrow> emit (Log Info ''User removed from participants'') (w2\<lparr>DB := d\<rparr>))
              else
                (let fullName = (if LastName user \<noteq> [] then FirstName user @ '' '' @ LastName user
                                 else FirstName user);
                     p = \<lparr>ID = uuid_New e 0, GroupID = groupID, UserID = User_ID user,
                          Username = User_Username user, FullName = fullName,
                          CreatedAt = time_Now e\<rparr>;
                     w2 = emit (DBCall (Call_CreateOrUpdateParticipant p)) w1
                 in case CreateOrUpdateParticipant (db_fault e Op_CreateOrUpdateParticipant) (DB w2) p of
                      Inl err \<Rightarrow> emit (Log Error ''CreateOrUpdateParticipant failed'') w2
                    | Inr d \<Rightarrow> emit (Log Info ''User added to participants'') (w2\<lparr>DB := d\<rparr>))))"

section \<open>Quiz workflow\<close>

definition SendQuiz :: "env \<Rightarrow> world \<Rightarrow> int \<Rightarrow> world" where
  "SendQuiz e w groupID =
     (let w1 = emit (DBCall (Call_DeletePollMapping groupID)) w;
          w2 = (case DeletePollMapping (db_fault e Op_DeletePollMapping) (DB w1) groupID of
                  Inl err \<Rightarrow> emit (Log Warn ''Failed to delete old poll mapping'') w1
                | Inr d \<Rightarrow> w1\<lparr>DB := d\<rparr>);
          w3 = emit (SendPoll groupID) w2
      in case send_poll_res e of
           PollError \<Rightarrow> emit (Log Error ''SendPoll failed'') w3
         | PollNil \<Rightarrow> emit (Log Error ''Poll result is nil'') w3
         | PollSent pollID messageID \<Rightarrow>
            (let pm = \<lparr>PollID = pollID, PM_GroupID = groupID, MessageID = messageID\<rparr>;
                 w4 = emit (DBCall (Call_CreatePollMapping pm)) w3
             in case CreatePollMapping (db_fault e Op_CreatePollMapping) (DB w4) pm of
                  Inl err \<Rightarrow> emit (Log Error ''CreatePollMapping failed'') w4
                | Inr d \<Rightarrow>
                   (let w5 = emit (PinChatMessage groupID messageID) (w4\<lparr>DB := d\<rparr>);
                        w6 = (if pin_err e
                              then emit (Log Warn ''PinChatMessage failed (check bot permissions)'') w5
                              else w5)
                    in emit (Log Info ''Quiz sent and pinned successfully'') w6)))"

section \<open>Pairing workflow\<close>

definition savePairsToDatabase ::
  "env \<Rightarrow> world \<Rightarrow> (Participant \<times> Participant) list \<Rightarrow> int \<Rightarrow> error option \<times> world" where
  "savePairsToDatabase e w finalPairs groupID =
     (let weekStart = getWeekStart (time_Now e);
          pairs = map (\<lambda>(k, fp).
                    \<lparr>Pair_ID = uuid_New e k, Pair_GroupID = groupID, WeekStart = weekStart,
                     User1ID = UserID (fst fp), User2ID = UserID (snd fp),
                     Pair_CreatedAt = time_Now e\<rparr>)
                  (enumerate 0 finalPairs);
          w1 = emit (DBCall (Call_CreatePairs pairs)) w;
          (err, d) = db_CreatePairs (insert_fault e) (DB w1) pairs
      in (err, w1\<lparr>DB := d\<rparr>))"

definition buildPairsMessage :: "(Participant \<times> Participant) list \<Rightarrow> string" where
  "buildPairsMessage finalPairs =
     foldl (\<lambda>message (p1, p2).
              message @ msg_bullet @ getDisplayName p1 @ msg_cross @ getDisplayName p2
                @ [CHR 0x0A, CHR 0x0A])
           msg_header finalPairs
     @ msg_footer"

text \<open>\<open>strings.Join\<close>.\<close>

fun Join :: "string list \<Rightarrow> string \<Rightarrow> string" where
  "Join [] sep = []"
| "Join [s] sep = s"
| "Join (s # t # rest) sep = s @ sep @ Join (t # rest) sep"

definition appendUnpairedMessage ::
  "env \<Rightarrow> world \<Rightarrow> string \<Rightarrow> int \<Rightarrow> (int \<rightharpoonup> bool) \<Rightarrow> string \<times> world" where
  "appendUnpairedMessage e w message groupID usedUsers =
     (let w1 = emit (DBCall (Call_GetAllParticipants groupID)) w in
      case GetAllParticipants (db_fault e Op_GetAllParticipants) (DB w1) groupID of
        Inl err \<Rightarrow> (message, emit (Log Error ''GetAllParticipants failed'') w1)
      | Inr allParticipants \<Rightarrow>
          if length allParticipants = 0 then (message, w1)
          else
            (let unpaired = filter (\<lambda>p. \<not> lookup_bool usedUsers (UserID p)) allParticipants in
             if length unpaired = 0 then (message, w1)
             else (message @ msg_unpaired @ Join (map getDisplayName unpaired) '', '', w1)))"

text \<open>
  The length check in the body of \<open>CreatePairs\<close>: \<open>len\<close> counts bytes, and so does
  the slice.
\<close>

definition truncateMessage :: "string \<Rightarrow> string" where
  "truncateMessage message =
     (if length message > 4000 then take 4000 message @ msg_truncated else message)"

text \<open>
  The last part of the body of \<open>CreatePairs\<close>, after the summary message: unpin the
  poll, delete the poll mapping, clear the participants.
\<close>

definition unpinAndCleanup :: "env \<Rightarrow> world \<Rightarrow> int \<Rightarrow> world" where
  "unpinAndCleanup e w groupID =
     (let w1 = emit (DBCall (Call_GetPollMappingByGroupID groupID)) w;
          w2 = (case GetPollMappingByGroupID (db_fault e Op_GetPollMappingByGroupID) (DB w1) groupID of
                  Inl err \<Rightarrow> emit (Log Warn ''GetPollMappingByGroupID failed (no active poll)'') w1
                | Inr None \<Rightarrow> w1
                | Inr (Some pollMapping) \<Rightarrow>
                   (let u1 = emit (UnpinChatMessage groupID (MessageID pollMapping)) w1;
                        u2 = (if unpin_err e
                              then emit (Log Warn ''UnpinChatMessage failed (check bot permissions)'') u1
                              else emit (Log Info ''Poll message unpinned'') u1);
                        u3 = emit (DBCall (Call_DeletePollMapping groupID)) u2
                    in case DeletePollMapping (db_fault e Op_DeletePollMapping) (DB u3) groupID of
                         Inl err \<Rightarrow> emit (Log Warn ''DeletePollMapping failed'') u3
                       | Inr d \<Rightarrow> u3\<lparr>DB := d\<rparr>));
          w3 = emit (DBCall (Call_ClearAllParticipants groupID)) w2
      in case ClearAllParticipants (db_fault e Op_ClearAllParticipants) (DB w3) groupID of
           Inl err \<Rightarrow> emit (Log Error ''ClearAllParticipants failed'') w3
         | Inr d \<Rightarrow> w3\<lparr>DB := d\<rparr>)"

definition CreatePairs :: "env \<Rightarrow> world \<Rightarrow> int \<Rightarrow> world" where
  "CreatePairs e w groupID =
     (let w1 = emit (DBCall (Call_GetAvailablePairs groupID)) w in
      case GetAvailablePairs (db_fault e Op_GetAvailablePairs) (order_by_random e) (DB w1) groupID of
        Inl err \<Rightarrow>
          sendMessage e msg_get_pairs_failed groupID (emit (Log Error ''GetAvailablePairs failed'') w1)
      | Inr availablePairs \<Rightarrow>
          if length availablePairs = 0 then sendMessage e msg_not_enough groupID w1
          else
            (let (finalPairs, usedUsers) = filterUniquePairs availablePairs in
             if length finalPairs = 0 then sendMessage e msg_no_unique_pairs groupID w1
             else
               (case savePairsToDatabase e w1 finalPairs groupID of
                  (Some err, w2) \<Rightarrow>
                    sendMessage e msg_save_failed groupID (emit (Log Error ''CreatePairs failed'') w2)
                | (None, w2) \<Rightarrow>
                   (let (message, w3) = appendUnpairedMessage e w2 (buildPairsMessage finalPairs)
                                           groupID usedUsers;
                        w4 = sendMessage e (truncateMessage message) groupID w3;
                        w5 = unpinAndCleanup e w4 groupID
                    in emit (Log Info ''Pairs created successfully'') w5))))"

section \<open>Commands\<close>

definition HandleGroupCommand :: "config \<Rightarrow> env \<Rightarrow> world \<Rightarrow> Message \<Rightarrow> world" where
  "HandleGroupCommand cfg e w message =
     (case From message of
        None \<Rightarrow> w
      | Some sender \<Rightarrow>
          if \<not> isAdmin cfg (User_ID sender) then w
          else
            (let groupID = Chat_ID (Chat message) in
             if Text message = ''/create_pairs''
             then CreatePairs e (emit (Log Info ''Manual create_pairs command'') w) groupID
             else if Text message = ''/send_quiz''
             then SendQuiz e (emit (Log Info ''Manual send_quiz command'') w) groupID
             else w))"

definition HandlePrivateCommand :: "config \<Rightarrow> env \<Rightarrow> world \<Rightarrow> Message \<Rightarrow> world" where
  "HandlePrivateCommand cfg e w message =
     (case From message of
        None \<Rightarrow> w
      | Some sender \<Rightarrow>
          if Text message = ''/start'' then sendMessage e msg_start (Chat_ID (Chat message)) w
          else if Text message = ''/groups'' then
            (if \<not> isAdmin cfg (User_ID sender)
             then sendMessage e msg_access_denied (Chat_ID (Chat message)) w
             else
               (let groupIDs = configuredGroups cfg in
                if length groupIDs = 0
                then sendMessage e msg_no_groups (Chat_ID (Chat message)) w
                else sendMessage e
                       (foldl (\<lambda>text gid. text @ msg_group_bullet @ itoa gid @ [CHR 0x0A])
                          msg_groups_header groupIDs)
                       (Chat_ID (Chat message)) w))
          else sendMessage e msg_unknown_command (Chat_ID (Chat message)) w)"

text \<open>\<open>Bot.Update\<close>, the single entry point of an incoming update.\<close>

definition Update :: "config \<Rightarrow> env \<Rightarrow> world \<Rightarrow> Update \<Rightarrow> world" where
  "Update cfg e w u =
     (case U_PollAnswer u of
        Some pollAnswer \<Rightarrow> HandlePollAnswer e w pollAnswer
      | None \<Rightarrow>
         (case U_Message u of
            None \<Rightarrow> w
          | Some message \<Rightarrow>
              if Chat_Type (Chat message) = ''private''
              then HandlePrivateCommand cfg e w message
              else HandleGroupCommand cfg e w message))"

section \<open>Scheduler\<close>


















section \<open>Observations on the trace\<close>

text \<open>The messages sent so far, in order, and the UTF-8 continuation bytes 10xxxxxx.\<close>

fun sent_messages_of :: "event list \<Rightarrow> (string \<times> int) list" where
  "sent_messages_of [] = []"
| "sent_messages_of (SendMessage text chatID # evs) = (text, chatID) # sent_messages_of evs"
| "sent_messages_of (_ # evs) = sent_messages_of evs"

definition sent_messages :: "world \<Rightarrow> (string \<times> int) list" where
  "sent_messages w = sent_messages_of (trace w)"

definition is_continuation_byte :: "char \<Rightarrow> bool" where
  "is_continuation_byte c = (128 \<le> (of_char c :: nat) \<and> (of_char c :: nat) < 192)"

text \<open>
  The participant rows of a (group, user), and the full name \<open>HandlePollAnswer\<close> builds.
\<close>

definition rows_of :: "db \<Rightarrow> int \<Rightarrow> int \<Rightarrow> Participant list" where
  "rows_of d groupID userID =
     filter (\<lambda>r. GroupID r = groupID \<and> UserID r = userID) (participant d)"

definition fullName_of :: "User \<Rightarrow> string" where
  "fullName_of user =
     (if LastName user \<noteq> [] then FirstName user @ '' '' @ LastName user else FirstName user)"

text \<open>The events a handler run added to the trace.\<close>

definition events_since :: "world \<Rightarrow> world \<Rightarrow> event list" where
  "events_since w w' = drop (length (trace w)) (trace w')"

text \<open>The text of the \<open>/groups\<close> reply for a non-empty list of groups.\<close>

definition groups_listing :: "int list \<Rightarrow> string" where
  "groups_listing groupIDs =
     foldl (\<lambda>text gid. text @ msg_group_bullet @ itoa gid @ [CHR 0x0A]) msg_groups_header groupIDs"

section \<open>Example data\<close>

text \<open>
  A database whose \<open>participant\<close> and \<open>poll_mapping\<close> tables were created before the
  statements of the migration ran, the first with \<open>created_at\<close> declared
  \<open>DATETIME\<close>, the second with a \<open>message_id\<close> column;
  \<open>CREATE TABLE IF NOT EXISTS\<close> leaves such tables as they are. The example
  databases have this schema and the migration recorded as applied.
\<close>

definition legacy_schema :: schema where
  "legacy_schema =
     init_schema
       [(''participant'',
           [(''id'', ''TEXT''), (''group_id'', ''INTEGER''), (''user_id'', ''INTEGER''),
            (''username'', ''TEXT''), (''full_name'', ''TEXT''), (''created_at'', ''DATETIME'')]),
        (''poll_mapping'',
           [(''poll_id'', ''TEXT''), (''group_id'', ''INTEGER''), (''message_id'', ''INTEGER'')])]"

definition alice :: Participant where
  "alice = \<lparr>ID = ''a1'', GroupID = - 100, UserID = 1, Username = ''alice'',
            FullName = ''Alice A'', CreatedAt = 0\<rparr>"

definition bob :: Participant where
  "bob = \<lparr>ID = ''b2'', GroupID = - 100, UserID = 2, Username = [],
          FullName = ''Bob B'', CreatedAt = 0\<rparr>"

definition carol :: Participant where
  "carol = \<lparr>ID = ''c3'', GroupID = - 100, UserID = 3, Username = ''carol'',
            FullName = ''Carol C'', CreatedAt = 0\<rparr>"

definition dave :: Participant where
  "dave = \<lparr>ID = ''d4'', GroupID = - 200, UserID = 4, Username = ''dave'',
           FullName = ''Dave D'', CreatedAt = 0\<rparr>"

definition history_db :: db where
  "history_db =
     \<lparr>schema = legacy_schema, goose_version = 1, participant = [alice, bob, carol, dave],
      pair = [\<lparr>Pair_ID = ''x'', Pair_GroupID = - 100, WeekStart = 0, User1ID = 2, User2ID = 1,
               Pair_CreatedAt = 0\<rparr>,
              \<lparr>Pair_ID = ''y'', Pair_GroupID = - 200, WeekStart = 0, User1ID = 1, User2ID = 3,
               Pair_CreatedAt = 0\<rparr>],
      poll_mapping = []\<rparr>"

definition erin :: Participant where
  "erin = \<lparr>ID = ''e5'', GroupID = - 300, UserID = 5, Username = ''erin'',
           FullName = ''Erin E'', CreatedAt = 0\<rparr>"

definition frank :: Participant where
  "frank = \<lparr>ID = ''f6'', GroupID = - 300, UserID = 6, Username = ''frank'',
            FullName = ''Frank F'', CreatedAt = 0\<rparr>"

definition week_db :: db where
  "week_db =
     \<lparr>schema = legacy_schema, goose_version = 1,
      participant = [alice, bob, carol, dave, erin, frank],
      pair = [\<lparr>Pair_ID = ''y'', Pair_GroupID = - 200, WeekStart = 0, User1ID = 1, User2ID = 3,
               Pair_CreatedAt = 0\<rparr>],
      poll_mapping = [\<lparr>PollID = ''poll9'', PM_GroupID = - 300, MessageID = 9\<rparr>]\<rparr>"

text \<open>
  Sixteen participants of one group who have no username and whose full name is the
  same 120 Cyrillic letters (240 bytes), in a database with no pair history, and the
  eight pairs the greedy selection makes of them when the candidates come in the order
  of the query.
\<close>

definition long_name :: string where
  "long_name = concat (replicate 120 [CHR 0xD0, CHR 0xB6])"

definition member :: "int \<Rightarrow> Participant" where
  "member k = \<lparr>ID = itoa k, GroupID = - 100, UserID = k, Username = [],
                FullName = long_name, CreatedAt = 0\<rparr>"

definition crowd_world :: world where
  "crowd_world =
     \<lparr>DB = \<lparr>schema = legacy_schema, goose_version = 1, participant = map member [1..16],
             pair = [], poll_mapping = []\<rparr>,
      trace = []\<rparr>"

definition crowd_pairs :: "(Participant \<times> Participant) list" where
  "crowd_pairs =
     [(member 1, member 2), (member 3, member 4), (member 5, member 6), (member 7, member 8),
      (member 9, member 10), (member 11, member 12), (member 13, member 14),
      (member 15, member 16)]"

text \<open>
  An environment in which nothing fails, a world with one poll mapping, and some
  Telegram users.
\<close>

definition quiet_env :: env where
  "quiet_env =
     \<lparr>db_fault = (\<lambda>_. False), insert_fault = [], order_by_random = (\<lambda>xs. xs),
      send_message_err = None, send_poll_res = PollSent ''poll2'' 8, pin_err = False,
      unpin_err = False, uuid_New = (\<lambda>k. ''uuid-'' @ itoa (int k)), time_Now = 0\<rparr>"

definition poll_world :: world where
  "poll_world =
     \<lparr>DB = history_db\<lparr>poll_mapping := [\<lparr>PollID = ''poll1'', PM_GroupID = - 100, MessageID = 7\<rparr>]\<rparr>,
      trace = []\<rparr>"

definition user_alice :: User where
  "user_alice = \<lparr>User_ID = 1, FirstName = ''Alice'', LastName = ''Again'', User_Username = ''alice2''\<rparr>"

definition user_bob :: User where
  "user_bob = \<lparr>User_ID = 2, FirstName = ''Bob'', LastName = ''B'', User_Username = []\<rparr>"

definition user_zed :: User where
  "user_zed = \<lparr>User_ID = 26, FirstName = ''Zed'', LastName = [], User_Username = []\<rparr>"

definition second_env :: env where
  "second_env = quiet_env\<lparr>send_poll_res := PollSent ''poll3'' 9\<rparr>"

definition week_world :: world where
  "week_world = \<lparr>DB = week_db, trace = []\<rparr>"

definition save_fails_env :: env where
  "save_fails_env = quiet_env\<lparr>insert_fault := [True]\<rparr>"

definition kicked_env :: env where
  "kicked_env = quiet_env\<lparr>send_message_err := Some ''Forbidden: bot was kicked from the group chat'',
                           unpin_err := True\<rparr>"

definition demo_config :: config where
  "demo_config = \<lparr>adminChatIDsMap = [1 \<mapsto> True], configuredGroups = [- 100, - 300]\<rparr>"

definition migrated_world :: world where
  "migrated_world = \<lparr>DB = empty_db\<lparr>schema := init_schema []\<rparr>, trace = []\<rparr>"







lemmas db_defs =
  prepare_def check_columns_def scan_time_def participant_columns_def legacy_schema_def
  init_schema_def create_table_if_not_exists_def

lemmas person_defs = alice_def bob_def carol_def dave_def erin_def frank_def

lemmas world_defs = poll_world_def history_db_def quiet_env_def

section \<open>Basic facts\<close>

lemma check_columns_mono:
  "check_columns sch t cols = None \<Longrightarrow> set cols' \<subseteq> set cols \<Longrightarrow> check_columns sch t cols' = None"
  by (auto simp: check_columns_def split: option.splits if_splits)

lemma DB_emit: "DB (emit ev w) = DB w"
  by (simp add: emit_def)

lemma trace_emit: "trace (emit ev w) = trace w @ [ev]"
  by (simp add: emit_def)

section \<open>Properties of the pairing query\<close>

lemma scan_participant_same_group:
  "GroupID r = groupID \<Longrightarrow> scan_participant groupID r = r"
  by (simp add: scan_participant_def)

lemma filterUniquePairs_loop_subset:
  "set (fst (filterUniquePairs_loop xs acc)) \<subseteq> set (fst acc) \<union> set xs"
proof (induction xs acc rule: filterUniquePairs_loop.induct)
  case (1 finalPairs usedUsers)
  show ?case by simp
next
  case (2 p1 p2 rest finalPairs usedUsers)
  then show ?case by (auto split: if_splits)
qed

lemma filterUniquePairs_subset: "set (fst (filterUniquePairs xs)) \<subseteq> set xs"
  using filterUniquePairs_loop_subset [of xs "([], Map.empty)"]
  by (simp add: filterUniquePairs_def)

lemma GetAvailablePairs_Inr:
  assumes "GetAvailablePairs fault rnd d groupID = Inr rows"
  shows "rows = map (\<lambda>(r1, r2). (scan_participant groupID r1, scan_participant groupID r2))
                  (rnd (filter (\<lambda>au. \<not> in_history d groupID au) (available_users d groupID)))"
  using assms
  by (simp add: GetAvailablePairs_def Let_def split: option.splits if_splits)

lemma GetAvailablePairs_returns:
  assumes "check_columns (schema d) ''participant'' participant_columns = None"
    and "check_columns (schema d) ''pair'' [''group_id'', ''user1_id'', ''user2_id''] = None"
    and "scan_time (schema d) ''participant'' ''created_at'' = None"
  shows "\<exists>rows. GetAvailablePairs False rnd d groupID = Inr rows"
  using assms by (simp add: GetAvailablePairs_def prepare_def Let_def)

lemma GetAvailablePairs_rows:
  assumes perm: "\<forall>xs. mset (rnd xs) = mset xs"
    and ok: "GetAvailablePairs fault rnd d groupID = Inr rows"
    and mem: "(p1, p2) \<in> set rows"
  shows "p1 \<in> set (participant d) \<and> p2 \<in> set (participant d)
         \<and> GroupID p1 = groupID \<and> GroupID p2 = groupID \<and> UserID p1 < UserID p2
         \<and> \<not> in_history d groupID (p1, p2)"
proof -
  let ?cands = "filter (\<lambda>au. \<not> in_history d groupID au) (available_users d groupID)"
  have set_rnd: "set (rnd ?cands) = set ?cands"
    using perm by (metis set_mset_mset)
  from ok have rows: "rows = map (\<lambda>(r1, r2). (scan_participant groupID r1, scan_participant groupID r2))
                              (rnd ?cands)"
    by (rule GetAvailablePairs_Inr)
  with mem obtain r1 r2 where r: "(r1, r2) \<in> set (rnd ?cands)"
    and p: "p1 = scan_participant groupID r1" "p2 = scan_participant groupID r2"
    by auto
  from r set_rnd have c: "(r1, r2) \<in> set (available_users d groupID)"
    and h: "\<not> in_history d groupID (r1, r2)"
    by auto
  from c have g: "r1 \<in> set (participant d)" "r2 \<in> set (participant d)"
    "GroupID r1 = groupID" "GroupID r2 = groupID" "UserID r1 < UserID r2"
    by (auto simp: available_users_def)
  with p have "p1 = r1" "p2 = r2"
    by (simp_all add: scan_participant_same_group)
  with g h show ?thesis by simp
qed

text \<open>
  C1. Every candidate pair that the pairing query returns, whatever the random order,
  is made of two stored participants of the group with different user ids, and no row
  of the pair history of that group has the same two users, in either order. The pairs
  that \<open>filterUniquePairs\<close> then selects are among the candidates, so no selected pair
  repeats a historical pair of the group.
\<close>

theorem GetAvailablePairs_no_repeat:
  assumes "\<forall>xs. mset (rnd xs) = mset xs"
    and "GetAvailablePairs fault rnd d groupID = Inr rows"
    and "(p1, p2) \<in> set rows \<or> (p1, p2) \<in> set (fst (filterUniquePairs rows))"
  shows "p1 \<in> set (participant d) \<and> p2 \<in> set (participant d)
         \<and> GroupID p1 = groupID \<and> GroupID p2 = groupID
         \<and> UserID p1 \<noteq> UserID p2 \<and> p1 \<noteq> p2
         \<and> (\<forall>pr \<in> set (pair d). Pair_GroupID pr = groupID \<longrightarrow>
               \<not> (User1ID pr = UserID p1 \<and> User2ID pr = UserID p2)
             \<and> \<not> (User1ID pr = UserID p2 \<and> User2ID pr = UserID p1))"
proof -
  from assms(3) have "(p1, p2) \<in> set rows"
    using filterUniquePairs_subset [of rows] by auto
  from GetAvailablePairs_rows [OF assms(1) assms(2) this]
  show ?thesis by (auto simp: in_history_def)
qed

theorem GetAvailablePairs_no_repeat_witness:
  "(\<forall>xs :: (Participant \<times> Participant) list. mset (rev xs) = mset xs)
   \<and> GetAvailablePairs False rev history_db (- 100) = Inr [(bob, carol), (alice, carol)]
   \<and> ((alice, carol) \<in> set [(bob, carol), (alice, carol)]
        \<or> (alice, carol) \<in> set (fst (filterUniquePairs [(bob, carol), (alice, carol)])))
   \<and> alice \<in> set (participant history_db) \<and> carol \<in> set (participant history_db)
   \<and> GroupID alice = - 100 \<and> GroupID carol = - 100
   \<and> UserID alice \<noteq> UserID carol \<and> alice \<noteq> carol
   \<and> \<not> (\<exists>pr \<in> set (pair history_db). Pair_GroupID pr = - 100
          \<and> ((User1ID pr = UserID alice \<and> User2ID pr = UserID carol)
              \<or> (User1ID pr = UserID carol \<and> User2ID pr = UserID alice)))"
proof -
  have h1: "\<forall>xs :: (Participant \<times> Participant) list. mset (rev xs) = mset xs"
    by simp
  have h2: "GetAvailablePairs False rev history_db (- 100) = Inr [(bob, carol), (alice, carol)]"
    by (simp add: GetAvailablePairs_def history_db_def db_defs available_users_def
        in_history_def person_defs scan_participant_def)
  have h3: "(alice, carol) \<in> set [(bob, carol), (alice, carol)]
            \<or> (alice, carol) \<in> set (fst (filterUniquePairs [(bob, carol), (alice, carol)]))"
    by simp
  from GetAvailablePairs_no_repeat [OF h1 h2 h3] h1 h2 h3 show ?thesis
    by blast
qed

section \<open>The greedy selection covers the participants\<close>

lemma used_ids_upd:
  "used_ids (m(a \<mapsto> True, b \<mapsto> True)) = insert a (insert b (used_ids m))"
  by (auto simp: used_ids_def lookup_bool_def)

lemma loop_mono:
  "filterUniquePairs_loop xs (fp, used) = (fp', used') \<Longrightarrow> used_ids used \<subseteq> used_ids used'"
proof (induction xs "(fp, used)" arbitrary: fp used rule: filterUniquePairs_loop.induct)
  case (1 finalPairs usedUsers)
  then show ?case by simp
next
  case (2 p1 p2 rest finalPairs usedUsers)
  then show ?case
    by (fastforce simp: used_ids_upd split: if_splits)
qed

lemma loop_maximal:
  "filterUniquePairs_loop xs (fp, used) = (fp', used') \<Longrightarrow> (a, b) \<in> set xs
     \<Longrightarrow> UserID a \<in> used_ids used' \<or> UserID b \<in> used_ids used'"
proof (induction xs "(fp, used)" arbitrary: fp used rule: filterUniquePairs_loop.induct)
  case (1 finalPairs usedUsers)
  then show ?case by simp
next
  case (2 p1 p2 rest finalPairs usedUsers)
  show ?case
  proof (cases "(a, b) = (p1, p2)")
    case False
    with 2 show ?thesis by (auto split: if_splits)
  next
    case True
    show ?thesis
    proof (cases "\<not> lookup_bool usedUsers (UserID p1) \<and> \<not> lookup_bool usedUsers (UserID p2)")
      case t: True
      with 2(3) have "filterUniquePairs_loop rest
             (finalPairs @ [(p1, p2)], usedUsers(UserID p1 \<mapsto> True, UserID p2 \<mapsto> True)) = (fp', used')"
        by simp
      from loop_mono [OF this] True show ?thesis by (auto simp: used_ids_upd)
    next
      case f: False
      with 2(3) have "filterUniquePairs_loop rest (finalPairs, usedUsers) = (fp', used')"
        by simp
      from loop_mono [OF this] f True show ?thesis by (auto simp: used_ids_def)
    qed
  qed
qed

lemma loop_appearances:
  "filterUniquePairs_loop xs (fp, used) = (fp', used')
     \<Longrightarrow> \<forall>u. appearances fp u = (if u \<in> used_ids used then 1 else 0)
     \<Longrightarrow> appearances fp' u = (if u \<in> used_ids used' then 1 else 0)"
proof (induction xs "(fp, used)" arbitrary: fp used rule: filterUniquePairs_loop.induct)
  case (1 finalPairs usedUsers)
  then show ?case by simp
next
  case (2 p1 p2 rest finalPairs usedUsers)
  show ?case
  proof (cases "\<not> lookup_bool usedUsers (UserID p1) \<and> \<not> lookup_bool usedUsers (UserID p2)")
    case True
    with 2(3) have run: "filterUniquePairs_loop rest
           (finalPairs @ [(p1, p2)], usedUsers(UserID p1 \<mapsto> True, UserID p2 \<mapsto> True)) = (fp', used')"
      by simp
    have inv: "\<forall>u. appearances (finalPairs @ [(p1, p2)]) u =
       (if u \<in> used_ids (usedUsers(UserID p1 \<mapsto> True, UserID p2 \<mapsto> True)) then 1 else 0)"
      using 2(4) True by (auto simp: appearances_def used_ids_def lookup_bool_def)
    from 2(1) [OF True run inv] show ?thesis .
  next
    case False
    with 2(3) have run: "filterUniquePairs_loop rest (finalPairs, usedUsers) = (fp', used')"
      by simp
    from 2(2) [OF False run 2(4)] show ?thesis .
  qed
qed

lemma loop_even:
  "filterUniquePairs_loop xs (fp, used) = (fp', used')
     \<Longrightarrow> \<forall>(a, b) \<in> set xs. UserID a \<noteq> UserID b \<and> UserID a \<in> S \<and> UserID b \<in> S
     \<Longrightarrow> finite (used_ids used) \<Longrightarrow> even (card (used_ids used)) \<Longrightarrow> used_ids used \<subseteq> S
     \<Longrightarrow> finite (used_ids used') \<and> even (card (used_ids used')) \<and> used_ids used' \<subseteq> S"
proof (induction xs "(fp, used)" arbitrary: fp used rule: filterUniquePairs_loop.induct)
  case (1 finalPairs usedUsers)
  then show ?case by simp
next
  case (2 p1 p2 rest finalPairs usedUsers)
  from 2(4) have rest: "\<forall>(a, b) \<in> set rest. UserID a \<noteq> UserID b \<and> UserID a \<in> S \<and> UserID b \<in> S"
    and here: "UserID p1 \<noteq> UserID p2" "UserID p1 \<in> S" "UserID p2 \<in> S"
    by auto
  show ?case
  proof (cases "\<not> lookup_bool usedUsers (UserID p1) \<and> \<not> lookup_bool usedUsers (UserID p2)")
    case True
    with 2(3) have run: "filterUniquePairs_loop rest
           (finalPairs @ [(p1, p2)], usedUsers(UserID p1 \<mapsto> True, UserID p2 \<mapsto> True)) = (fp', used')"
      by simp
    let ?U = "used_ids (usedUsers(UserID p1 \<mapsto> True, UserID p2 \<mapsto> True))"
    from True have notin: "UserID p1 \<notin> used_ids usedUsers" "UserID p2 \<notin> used_ids usedUsers"
      by (simp_all add: used_ids_def)
    have fin: "finite ?U" using 2(5) by (simp add: used_ids_upd)
    have "card ?U = card (used_ids usedUsers) + 2"
      using 2(5) notin here(1) by (simp add: used_ids_upd)
    with 2(6) have ev: "even (card ?U)" by simp
    have sub: "?U \<subseteq> S" using 2(7) here by (simp add: used_ids_upd)
    from 2(1) [OF True run rest fin ev sub] show ?thesis .
  next
    case False
    with 2(3) have run: "filterUniquePairs_loop rest (finalPairs, usedUsers) = (fp', used')"
      by simp
    from 2(2) [OF False run rest 2(5) 2(6) 2(7)] show ?thesis .
  qed
qed

lemma rows_are_all_pairs:
  assumes perm: "\<forall>xs. mset (rnd xs) = mset xs"
    and ok: "GetAvailablePairs fault rnd d groupID = Inr rows"
    and nohist: "\<forall>pr \<in> set (pair d). Pair_GroupID pr \<noteq> groupID"
  shows "set rows = set (available_users d groupID)"
proof -
  have nh: "filter (\<lambda>au. \<not> in_history d groupID au) (available_users d groupID)
            = available_users d groupID"
    using nohist by (auto simp: in_history_def intro: filter_True)
  have scan: "map (\<lambda>(r1, r2). (scan_participant groupID r1, scan_participant groupID r2)) xs = xs"
    if "set xs \<subseteq> set (available_users d groupID)" for xs
  proof (rule map_idI)
    fix x assume "x \<in> set xs"
    with that have "x \<in> set (available_users d groupID)" by auto
    then show "(case x of (r1, r2) \<Rightarrow> (scan_participant groupID r1, scan_participant groupID r2)) = x"
      by (auto simp: available_users_def scan_participant_same_group)
  qed
  have set_rnd: "set (rnd (available_users d groupID)) = set (available_users d groupID)"
    using perm by (metis set_mset_mset)
  from GetAvailablePairs_Inr [OF ok]
  have "rows = map (\<lambda>(r1, r2). (scan_participant groupID r1, scan_participant groupID r2))
                 (rnd (available_users d groupID))"
    by (simp add: nh)
  with scan [of "rnd (available_users d groupID)"] set_rnd show ?thesis by simp
qed

lemma greedy_selection_covers:
  assumes perm: "\<forall>xs. mset (rnd xs) = mset xs"
    and ok: "GetAvailablePairs fault rnd d groupID = Inr rows"
    and uniq: "distinct (map UserID (filter (\<lambda>r. GroupID r = groupID) (participant d)))"
    and nohist: "\<forall>pr \<in> set (pair d). Pair_GroupID pr \<noteq> groupID"
  shows "(let ps = filter (\<lambda>r. GroupID r = groupID) (participant d);
              finalPairs = fst (filterUniquePairs rows)
          in (even (length ps) \<longrightarrow> (\<forall>p \<in> set ps. appearances finalPairs (UserID p) = 1))
           \<and> (odd (length ps) \<longrightarrow>
                (\<exists>q \<in> set ps. appearances finalPairs (UserID q) = 0
                   \<and> (\<forall>p \<in> set ps. p \<noteq> q \<longrightarrow> appearances finalPairs (UserID p) = 1))))"
proof -
  define ps where "ps = filter (\<lambda>r. GroupID r = groupID) (participant d)"
  define S where "S = UserID ` set ps"
  have rows: "set rows = set (available_users d groupID)"
    by (rule rows_are_all_pairs [OF perm ok nohist])
  obtain fp used where run: "filterUniquePairs_loop rows ([], Map.empty) = (fp, used)"
    by (cases "filterUniquePairs_loop rows ([], Map.empty)")
  define U where "U = used_ids used"
  have fp: "fst (filterUniquePairs rows) = fp"
    by (simp add: filterUniquePairs_def run)
  have inj: "inj_on UserID (set ps)"
    using uniq by (simp add: ps_def distinct_map)
  have cardS: "card S = length ps"
    using uniq unfolding S_def ps_def by (metis distinct_card length_map set_map)
  have wf: "\<forall>(a, b) \<in> set rows. UserID a \<noteq> UserID b \<and> UserID a \<in> S \<and> UserID b \<in> S"
    unfolding rows by (auto simp: available_users_def S_def ps_def)
  have empty: "used_ids Map.empty = {}"
    by (simp add: used_ids_def lookup_bool_def)
  from loop_even [OF run wf] empty
  have U: "finite U" "even (card U)" "U \<subseteq> S"
    by (simp_all add: U_def)
  have app: "appearances fp u = (if u \<in> U then 1 else 0)" for u
    unfolding U_def
    by (rule loop_appearances [OF run]) (simp add: appearances_def empty)
  have one: "x = y" if "x \<in> S - U" "y \<in> S - U" for x y
  proof (rule ccontr)
    assume ne: "x \<noteq> y"
    have aux: False if xy: "x' \<in> S - U" "y' \<in> S - U" "x' < y'" for x' y'
    proof -
      from xy obtain px py where p: "px \<in> set ps" "py \<in> set ps" "UserID px = x'" "UserID py = y'"
        by (auto simp: S_def)
      with xy(3) have "(px, py) \<in> set rows"
        unfolding rows by (auto simp: available_users_def ps_def)
      from loop_maximal [OF run this] p xy show False by (simp add: U_def)
    qed
    from ne that aux [of x y] aux [of y x] show False by (cases "x < y") auto
  qed
  have finS: "finite S" by (simp add: S_def)
  have cardD: "card (S - U) = card S - card U"
    using U finS by (simp add: card_Diff_subset)
  have le: "card U \<le> card S"
    using U finS by (simp add: card_mono)
  have le1: "card (S - U) \<le> 1"
    using one finS by (metis card_le_Suc0_iff_eq One_nat_def finite_Diff)
  have evenc: "\<forall>p \<in> set ps. appearances fp (UserID p) = 1" if ev: "even (length ps)"
  proof
    fix p assume p: "p \<in> set ps"
    from ev cardS U(2) cardD le have "even (card (S - U))" by simp
    with le1 have "card (S - U) = 0" by presburger
    with finS have "S - U = {}" by simp
    with p have "UserID p \<in> U" by (auto simp: S_def)
    then show "appearances fp (UserID p) = 1" by (simp add: app)
  qed
  have oddc: "\<exists>q \<in> set ps. appearances fp (UserID q) = 0
       \<and> (\<forall>p \<in> set ps. p \<noteq> q \<longrightarrow> appearances fp (UserID p) = 1)" if od: "odd (length ps)"
  proof -
    from od cardS U(2) cardD le have "odd (card (S - U))" by simp
    with le1 have "card (S - U) = 1" by presburger
    then obtain x where x: "S - U = {x}" by (auto simp: card_1_singleton_iff)
    then have "x \<in> S" by auto
    then obtain q where q: "q \<in> set ps" "UserID q = x" unfolding S_def by auto
    from x q have q0: "appearances fp (UserID q) = 0" by (auto simp: app)
    have "appearances fp (UserID p) = 1" if p: "p \<in> set ps" "p \<noteq> q" for p
    proof -
      from p q inj have "UserID p \<noteq> x" by (auto dest: inj_onD)
      with x p(1) have "UserID p \<in> U" by (auto simp: S_def)
      then show ?thesis by (simp add: app)
    qed
    with q q0 show ?thesis by blast
  qed
  from evenc oddc show ?thesis
    by (simp add: Let_def fp ps_def)
qed

text \<open>
  C2. With no pair history for the group and the user ids of its participants distinct
  (the UNIQUE constraint on (group_id, user_id)): whenever the pairing query returns
  its rows, in any random order, \<open>filterUniquePairs\<close> puts every participant of the
  group in exactly one selected pair when their number is even; when it is odd, exactly
  one participant is in no pair and every other one is in exactly one. The query does
  return when the driver does not fail, the tables have the columns it names and
  \<open>created_at\<close> is read back as a time.
\<close>

theorem pairing_covers_participants:
  assumes perm: "\<forall>xs. mset (rnd xs) = mset xs"
    and uniq: "distinct (map UserID (filter (\<lambda>r. GroupID r = groupID) (participant d)))"
    and nohist: "\<forall>pr \<in> set (pair d). Pair_GroupID pr \<noteq> groupID"
  shows "(check_columns (schema d) ''participant'' participant_columns = None
          \<and> check_columns (schema d) ''pair'' [''group_id'', ''user1_id'', ''user2_id''] = None
          \<and> scan_time (schema d) ''participant'' ''created_at'' = None
          \<longrightarrow> (\<exists>rows. GetAvailablePairs False rnd d groupID = Inr rows))
       \<and> (\<forall>rows. GetAvailablePairs fault rnd d groupID = Inr rows \<longrightarrow>
            (let ps = filter (\<lambda>r. GroupID r = groupID) (participant d);
                 finalPairs = fst (filterUniquePairs rows)
             in (even (length ps) \<longrightarrow> (\<forall>p \<in> set ps. appearances finalPairs (UserID p) = 1))
              \<and> (odd (length ps) \<longrightarrow>
                   (\<exists>q \<in> set ps. appearances finalPairs (UserID q) = 0
                      \<and> (\<forall>p \<in> set ps. p \<noteq> q \<longrightarrow> appearances finalPairs (UserID p) = 1)))))"
proof (intro conjI impI allI)
  assume "check_columns (schema d) ''participant'' participant_columns = None
          \<and> check_columns (schema d) ''pair'' [''group_id'', ''user1_id'', ''user2_id''] = None
          \<and> scan_time (schema d) ''participant'' ''created_at'' = None"
  then show "\<exists>rows. GetAvailablePairs False rnd d groupID = Inr rows"
    using GetAvailablePairs_returns by blast
next
  fix rows
  assume "GetAvailablePairs fault rnd d groupID = Inr rows"
  from greedy_selection_covers [OF perm this uniq nohist]
  show "(let ps = filter (\<lambda>r. GroupID r = groupID) (participant d);
             finalPairs = fst (filterUniquePairs rows)
         in (even (length ps) \<longrightarrow> (\<forall>p \<in> set ps. appearances finalPairs (UserID p) = 1))
          \<and> (odd (length ps) \<longrightarrow>
               (\<exists>q \<in> set ps. appearances finalPairs (UserID q) = 0
                  \<and> (\<forall>p \<in> set ps. p \<noteq> q \<longrightarrow> appearances finalPairs (UserID p) = 1))))" .
qed

theorem pairing_covers_participants_witness:
  "(\<forall>xs :: (Participant \<times> Participant) list. mset (rev xs) = mset xs)
   \<and> check_columns (schema week_db) ''participant'' participant_columns = None
   \<and> check_columns (schema week_db) ''pair'' [''group_id'', ''user1_id'', ''user2_id''] = None
   \<and> scan_time (schema week_db) ''participant'' ''created_at'' = None
   \<and> distinct (map UserID (filter (\<lambda>r. GroupID r = - 100) (participant week_db)))
   \<and> distinct (map UserID (filter (\<lambda>r. GroupID r = - 300) (participant week_db)))
   \<and> \<not> (\<exists>pr \<in> set (pair week_db). Pair_GroupID pr = - 100 \<or> Pair_GroupID pr = - 300)
   \<and> (\<exists>rows. GetAvailablePairs False rev week_db (- 100) = Inr rows)
   \<and> filter (\<lambda>r. GroupID r = - 100) (participant week_db) = [alice, bob, carol]
   \<and> GetAvailablePairs False rev week_db (- 100) = Inr [(bob, carol), (alice, carol), (alice, bob)]
   \<and> (\<exists>q \<in> set [alice, bob, carol].
         appearances (fst (filterUniquePairs [(bob, carol), (alice, carol), (alice, bob)])) (UserID q) = 0
         \<and> \<not> (\<exists>p \<in> set [alice, bob, carol]. p \<noteq> q \<and>
               appearances (fst (filterUniquePairs [(bob, carol), (alice, carol), (alice, bob)]))
                 (UserID p) \<noteq> 1))
   \<and> filter (\<lambda>r. GroupID r = - 300) (participant week_db) = [erin, frank]
   \<and> GetAvailablePairs False rev week_db (- 300) = Inr [(erin, frank)]
   \<and> appearances (fst (filterUniquePairs [(erin, frank)])) (UserID erin) = 1
   \<and> appearances (fst (filterUniquePairs [(erin, frank)])) (UserID frank) = 1"
proof -
  have h1: "\<forall>xs :: (Participant \<times> Participant) list. mset (rev xs) = mset xs"
    by simp
  have h2: "check_columns (schema week_db) ''participant'' participant_columns = None"
    by (simp add: week_db_def db_defs)
  have h3: "check_columns (schema week_db) ''pair'' [''group_id'', ''user1_id'', ''user2_id''] = None"
    by (simp add: week_db_def db_defs)
  have h3': "scan_time (schema week_db) ''participant'' ''created_at'' = None"
    by (simp add: week_db_def db_defs)
  have ps: "filter (\<lambda>r. GroupID r = - 100) (participant week_db) = [alice, bob, carol]"
    by (simp add: week_db_def person_defs)
  have ps': "filter (\<lambda>r. GroupID r = - 300) (participant week_db) = [erin, frank]"
    by (simp add: week_db_def person_defs)
  have h4: "distinct (map UserID (filter (\<lambda>r. GroupID r = - 100) (participant week_db)))"
    unfolding ps by (simp add: person_defs)
  have h4': "distinct (map UserID (filter (\<lambda>r. GroupID r = - 300) (participant week_db)))"
    unfolding ps' by (simp add: person_defs)
  have h5: "\<forall>pr \<in> set (pair week_db). Pair_GroupID pr \<noteq> - 100"
    by (simp add: week_db_def)
  have h5': "\<forall>pr \<in> set (pair week_db). Pair_GroupID pr \<noteq> - 300"
    by (simp add: week_db_def)
  have r: "GetAvailablePairs False rev week_db (- 100)
           = Inr [(bob, carol), (alice, carol), (alice, bob)]"
    by (simp add: GetAvailablePairs_def week_db_def db_defs available_users_def
        in_history_def person_defs scan_participant_def)
  have r': "GetAvailablePairs False rev week_db (- 300) = Inr [(erin, frank)]"
    by (simp add: GetAvailablePairs_def week_db_def db_defs available_users_def
        in_history_def person_defs scan_participant_def)
  note odd_thm = pairing_covers_participants [OF h1 h4 h5, where fault = False]
  note even_thm = pairing_covers_participants [OF h1 h4' h5', where fault = False]
  from odd_thm h2 h3 h3' have ret: "\<exists>rows. GetAvailablePairs False rev week_db (- 100) = Inr rows"
    by blast
  from odd_thm r
  have "\<exists>q \<in> set [alice, bob, carol].
         appearances (fst (filterUniquePairs [(bob, carol), (alice, carol), (alice, bob)])) (UserID q) = 0
         \<and> (\<forall>p \<in> set [alice, bob, carol]. p \<noteq> q \<longrightarrow>
               appearances (fst (filterUniquePairs [(bob, carol), (alice, carol), (alice, bob)]))
                 (UserID p) = 1)"
    unfolding ps Let_def by simp
  then have odd_case: "\<exists>q \<in> set [alice, bob, carol].
         appearances (fst (filterUniquePairs [(bob, carol), (alice, carol), (alice, bob)])) (UserID q) = 0
         \<and> \<not> (\<exists>p \<in> set [alice, bob, carol]. p \<noteq> q \<and>
               appearances (fst (filterUniquePairs [(bob, carol), (alice, carol), (alice, bob)]))
                 (UserID p) \<noteq> 1)"
    by blast
  from even_thm r'
  have even_case: "\<forall>p \<in> set [erin, frank].
      appearances (fst (filterUniquePairs [(erin, frank)])) (UserID p) = 1"
    unfolding ps' Let_def by simp
  from h5 h5' have h5'': "\<not> (\<exists>pr \<in> set (pair week_db). Pair_GroupID pr = - 100 \<or> Pair_GroupID pr = - 300)"
    by blast
  from even_case have e: "appearances (fst (filterUniquePairs [(erin, frank)])) (UserID erin) = 1"
    "appearances (fst (filterUniquePairs [(erin, frank)])) (UserID frank) = 1"
    by simp_all
  show ?thesis
    using h1 h2 h3 h3' h4 h4' h5'' ret ps r odd_case ps' r' e by (intro conjI)
qed

section \<open>The schema the migration creates\<close>

text \<open>
  C6. On a database that has no tables yet, the startup migration fails (the file lacks
  the annotation goose needs) and creates no table, so the INSERT of
  \<open>CreatePollMapping\<close> fails for every row. When the statements of the file are
  executed on that database, \<open>poll_mapping\<close> has the columns \<open>poll_id\<close> and
  \<open>group_id\<close> only; the INSERT of \<open>CreatePollMapping\<close> names \<open>message_id\<close>,
  so it fails for every row again, and so does the SELECT of
  \<open>GetPollMappingByGroupID\<close>.
\<close>

theorem CreatePollMapping_fails_on_migrated_schema:
  "runMigrations False empty_db = Inl MigrationError
   \<and> (\<forall>pm. CreatePollMapping False empty_db pm = Inl NoSuchTable)
   \<and> (\<exists>d. d = empty_db\<lparr>schema := init_schema (schema empty_db)\<rparr>
     \<and> map_of (schema d) ''poll_mapping'' = Some [(''poll_id'', ''TEXT''), (''group_id'', ''INTEGER'')]
     \<and> (\<forall>pm. CreatePollMapping False d pm = Inl NoSuchColumn)
     \<and> (\<forall>groupID. GetPollMappingByGroupID False d groupID = Inl NoSuchColumn))"
  by (simp add: runMigrations_def empty_db_def init_schema_def create_table_if_not_exists_def
      CreatePollMapping_def GetPollMappingByGroupID_def prepare_def check_columns_def)

section \<open>The next occurrence of a weekly trigger\<close>
















section \<open>The summary message\<close>

lemma sent_messages_of_append:
  "sent_messages_of (xs @ ys) = sent_messages_of xs @ sent_messages_of ys"
  by (induction xs rule: sent_messages_of.induct) simp_all

lemma sent_emit:
  "sent_messages (emit ev w) =
     sent_messages w @ (case ev of SendMessage text chatID \<Rightarrow> [(text, chatID)] | _ \<Rightarrow> [])"
  by (cases ev) (simp_all add: sent_messages_def emit_def sent_messages_of_append)

lemma sent_DB_update: "sent_messages (w\<lparr>DB := d\<rparr>) = sent_messages w"
  by (simp add: sent_messages_def)

lemma sent_sendMessage:
  "sent_messages (sendMessage e text chatID w) = sent_messages w @ [(text, chatID)]"
  by (simp add: sendMessage_def Let_def sent_emit split: option.splits)

lemma sent_savePairsToDatabase:
  "sent_messages (snd (savePairsToDatabase e w finalPairs groupID)) = sent_messages w"
  by (simp add: savePairsToDatabase_def Let_def sent_emit sent_DB_update split: prod.splits)

lemma sent_appendUnpairedMessage:
  "sent_messages (snd (appendUnpairedMessage e w message groupID usedUsers)) = sent_messages w"
  by (simp add: appendUnpairedMessage_def Let_def sent_emit split: sum.splits)

lemma sent_unpinAndCleanup:
  "sent_messages (unpinAndCleanup e w groupID) = sent_messages w"
  by (simp add: unpinAndCleanup_def Let_def sent_emit sent_DB_update split: sum.splits option.splits)

lemma length_truncateMessage:
  "length (truncateMessage message) \<le> 4000 + length msg_truncated"
  by (simp add: truncateMessage_def)

lemma length_msg_truncated: "length msg_truncated = 23"
  by (simp add: msg_truncated_def)

lemma length_error_texts:
  "length msg_get_pairs_failed \<le> 4000" "length msg_not_enough \<le> 4000"
  "length msg_no_unique_pairs \<le> 4000" "length msg_save_failed \<le> 4000"
  by (simp_all add: msg_get_pairs_failed_def msg_not_enough_def msg_no_unique_pairs_def
      msg_save_failed_def)

lemma CreatePairs_sends_one:
  "\<exists>text. sent_messages (CreatePairs e w groupID) = sent_messages w @ [(text, groupID)]
     \<and> length text \<le> 4000 + length msg_truncated"
proof -
  let ?w1 = "emit (DBCall (Call_GetAvailablePairs groupID)) w"
  have w1: "sent_messages ?w1 = sent_messages w" by (simp add: sent_emit)
  show ?thesis
  proof (cases "GetAvailablePairs (db_fault e Op_GetAvailablePairs) (order_by_random e) (DB ?w1) groupID")
    case (Inl err)
    then show ?thesis
      using length_error_texts(1)
      by (simp add: CreatePairs_def Let_def sent_sendMessage sent_emit w1)
  next
    case (Inr availablePairs)
    obtain finalPairs usedUsers where f: "filterUniquePairs availablePairs = (finalPairs, usedUsers)"
      by (cases "filterUniquePairs availablePairs")
    obtain err w2 where s: "savePairsToDatabase e ?w1 finalPairs groupID = (err, w2)"
      by (cases "savePairsToDatabase e ?w1 finalPairs groupID")
    have w2: "sent_messages w2 = sent_messages w"
      using sent_savePairsToDatabase [of e ?w1 finalPairs groupID] by (simp add: s w1)
    obtain message w3 where a: "appendUnpairedMessage e w2 (buildPairsMessage finalPairs) groupID usedUsers
        = (message, w3)"
      by (cases "appendUnpairedMessage e w2 (buildPairsMessage finalPairs) groupID usedUsers")
    have w3: "sent_messages w3 = sent_messages w"
      using sent_appendUnpairedMessage [of e w2 "buildPairsMessage finalPairs" groupID usedUsers]
      by (simp add: a w2)
    show ?thesis
      using Inr f s a length_error_texts length_truncateMessage [of message]
      by (cases err)
        (simp_all add: CreatePairs_def Let_def sent_sendMessage sent_emit w1 w2 w3
          sent_unpinAndCleanup)
  qed
qed

lemma foldl_lines:
  assumes "\<forall>(p1, p2) \<in> set ps. getDisplayName p1 = n1 \<and> getDisplayName p2 = n2"
  shows "foldl (\<lambda>message (p1, p2).
              message @ msg_bullet @ getDisplayName p1 @ msg_cross @ getDisplayName p2
                @ [CHR 0x0A, CHR 0x0A]) acc ps
         = acc @ concat (replicate (length ps) (msg_bullet @ n1 @ msg_cross @ n2 @ [CHR 0x0A, CHR 0x0A]))"
  using assms
proof (induction ps arbitrary: acc)
  case Nil
  show ?case by simp
next
  case (Cons x xs)
  obtain p1 p2 where x: "x = (p1, p2)" by (cases x)
  from Cons.prems x have n: "getDisplayName p1 = n1" "getDisplayName p2 = n2"
    and rest: "\<forall>(p1, p2) \<in> set xs. getDisplayName p1 = n1 \<and> getDisplayName p2 = n2"
    by auto
  show ?case
    by (simp add: x n Cons.IH [OF rest])
qed

lemma nth_concat_replicate:
  "i < n * length xs \<Longrightarrow> concat (replicate n xs) ! i = xs ! (i mod length xs)"
proof (induction n arbitrary: i)
  case 0
  then show ?case by simp
next
  case (Suc n)
  show ?case
  proof (cases "i < length xs")
    case True
    then show ?thesis by (simp add: nth_append)
  next
    case False
    then have "i - length xs < n * length xs" using Suc.prems by simp
    from Suc.IH [OF this] False show ?thesis
      by (simp add: nth_append le_mod_geq)
  qed
qed

lemma length_concat_replicate:
  "length (concat (replicate n xs)) = n * length xs"
  by (induction n) simp_all

lemma upto16: "[1..16] = [1,2,3,4,5,6,7,8,9,10,11,12,13,14,15,16::int]"
  by (simp add: upto.simps)

lemma member_sel: "GroupID (member k) = - 100" "UserID (member k) = k" "Username (member k) = []"
  "FullName (member k) = long_name"
  by (simp_all add: member_def)

lemma scan_member: "scan_participant (- 100) (member k) = member k"
  by (simp add: scan_participant_def member_def)

lemma crowd_select:
  "\<exists>rows used. GetAvailablePairs (db_fault quiet_env Op_GetAvailablePairs) (order_by_random quiet_env)
       (DB crowd_world) (- 100) = Inr rows
     \<and> filterUniquePairs rows = (crowd_pairs, used)
     \<and> (\<forall>k \<in> set [1..16]. lookup_bool used k)"
  by (simp add: GetAvailablePairs_def crowd_world_def db_defs available_users_def upto16
      in_history_def member_sel scan_member Let_def quiet_env_def
      filterUniquePairs_def lookup_bool_def crowd_pairs_def)

lemma crowd_save:
  "fst (savePairsToDatabase quiet_env (emit (DBCall (Call_GetAvailablePairs (- 100))) crowd_world)
          crowd_pairs (- 100)) = None"
  by (simp add: savePairsToDatabase_def Let_def quiet_env_def crowd_world_def crowd_pairs_def
      emit_def insert_pair_def db_defs member_sel itoa_def split: prod.splits)


lemma prefix_appendUnpairedMessage:
  "prefix message (fst (appendUnpairedMessage e w message groupID usedUsers))"
  by (simp add: appendUnpairedMessage_def Let_def split: sum.splits)

lemma CreatePairs_sends_summary:
  assumes avail: "GetAvailablePairs (db_fault e Op_GetAvailablePairs) (order_by_random e) (DB w) groupID
                    = Inr availablePairs"
    and sel: "fst (filterUniquePairs availablePairs) \<noteq> []"
    and saved: "fst (savePairsToDatabase e (emit (DBCall (Call_GetAvailablePairs groupID)) w)
                       (fst (filterUniquePairs availablePairs)) groupID) = None"
  shows "sent_messages (CreatePairs e w groupID) = sent_messages w @
           [(truncateMessage
               (fst (appendUnpairedMessage e
                       (snd (savePairsToDatabase e (emit (DBCall (Call_GetAvailablePairs groupID)) w)
                               (fst (filterUniquePairs availablePairs)) groupID))
                       (buildPairsMessage (fst (filterUniquePairs availablePairs))) groupID
                       (snd (filterUniquePairs availablePairs)))),
             groupID)]"
proof -
  let ?w1 = "emit (DBCall (Call_GetAvailablePairs groupID)) w"
  have w1: "sent_messages ?w1 = sent_messages w" by (simp add: sent_emit)
  obtain finalPairs usedUsers where f: "filterUniquePairs availablePairs = (finalPairs, usedUsers)"
    by (cases "filterUniquePairs availablePairs")
  with sel have ne: "finalPairs \<noteq> []" by simp
  have ane: "availablePairs \<noteq> []"
    using f ne by (auto simp: filterUniquePairs_def)
  obtain err w2 where s: "savePairsToDatabase e ?w1 finalPairs groupID = (err, w2)"
    by (cases "savePairsToDatabase e ?w1 finalPairs groupID")
  with saved f have err: "err = None" by simp
  have w2: "sent_messages w2 = sent_messages w"
    using sent_savePairsToDatabase [of e ?w1 finalPairs groupID] by (simp add: s w1)
  obtain message w3 where a: "appendUnpairedMessage e w2 (buildPairsMessage finalPairs) groupID usedUsers
      = (message, w3)"
    by (cases "appendUnpairedMessage e w2 (buildPairsMessage finalPairs) groupID usedUsers")
  have w3: "sent_messages w3 = sent_messages w"
    using sent_appendUnpairedMessage [of e w2 "buildPairsMessage finalPairs" groupID usedUsers]
    by (simp add: a w2)
  show ?thesis
    using avail f ne ane s err a
    by (simp add: CreatePairs_def Let_def DB_emit sent_sendMessage sent_emit w3 sent_unpinAndCleanup)
qed

lemma crowd_message:
  "buildPairsMessage crowd_pairs =
     msg_header @ concat (replicate 8 (msg_bullet @ long_name @ msg_cross @ long_name @ [CHR 0x0A, CHR 0x0A]))
       @ msg_footer"
proof -
  have n: "\<forall>(p1, p2) \<in> set crowd_pairs. getDisplayName p1 = long_name \<and> getDisplayName p2 = long_name"
    by (simp add: crowd_pairs_def getDisplayName_def member_sel)
  have l: "length crowd_pairs = 8"
    by (simp add: crowd_pairs_def)
  show ?thesis
    unfolding buildPairsMessage_def foldl_lines [OF n] l by simp
qed

lemma long_name_bytes:
  "length long_name = 240" "long_name ! 204 = CHR 0xD0" "long_name ! 205 = CHR 0xB6"
proof -
  have two: "length [CHR 0xD0, CHR 0xB6] = 2" by simp
  show "length long_name = 240"
    by (simp add: long_name_def length_concat_replicate)
  have "long_name ! 204 = [CHR 0xD0, CHR 0xB6] ! (204 mod length [CHR 0xD0, CHR 0xB6])"
    unfolding long_name_def by (rule nth_concat_replicate) simp
  then show "long_name ! 204 = CHR 0xD0" unfolding two by simp
  have "long_name ! 205 = [CHR 0xD0, CHR 0xB6] ! (205 mod length [CHR 0xD0, CHR 0xB6])"
    unfolding long_name_def by (rule nth_concat_replicate) simp
  then show "long_name ! 205 = CHR 0xB6" unfolding two by simp
qed

lemma crowd_cut:
  "length (buildPairsMessage crowd_pairs) = 4172
   \<and> buildPairsMessage crowd_pairs ! 3999 = CHR 0xD0
   \<and> buildPairsMessage crowd_pairs ! 4000 = CHR 0xB6"
proof -
  define line where "line = msg_bullet @ long_name @ msg_cross @ long_name @ [CHR 0x0A, CHR 0x0A]"
  define body where "body = concat (replicate 8 line)"
  have parts: "length msg_bullet = 7" "length msg_cross = 8" "length msg_header = 61"
    "length msg_footer = 135"
    by (simp_all add: msg_bullet_def msg_cross_def msg_header_def msg_footer_def)
  have ll: "length line = 497"
    by (simp add: line_def parts long_name_bytes(1))
  have lb: "length body = 3976"
    by (simp add: body_def length_concat_replicate ll)
  have m: "buildPairsMessage crowd_pairs = msg_header @ body @ msg_footer"
    by (simp add: crowd_message body_def line_def)
  have len: "length (buildPairsMessage crowd_pairs) = 4172"
    by (simp add: m lb parts)
  have "buildPairsMessage crowd_pairs ! 3999 = body ! 3938"
    by (simp add: m nth_append lb parts)
  also have "\<dots> = line ! (3938 mod length line)"
    unfolding body_def by (rule nth_concat_replicate) (simp add: ll)
  also have "\<dots> = long_name ! 204"
    unfolding ll by (simp add: line_def nth_append parts long_name_bytes(1))
  finally have b0: "buildPairsMessage crowd_pairs ! 3999 = CHR 0xD0"
    by (simp add: long_name_bytes)
  have "buildPairsMessage crowd_pairs ! 4000 = body ! 3939"
    by (simp add: m nth_append lb parts)
  also have "\<dots> = line ! (3939 mod length line)"
    unfolding body_def by (rule nth_concat_replicate) (simp add: ll)
  also have "\<dots> = long_name ! 205"
    unfolding ll by (simp add: line_def nth_append parts long_name_bytes(1))
  finally have b1: "buildPairsMessage crowd_pairs ! 4000 = CHR 0xB6"
    by (simp add: long_name_bytes)
  from len b0 b1 show ?thesis by simp
qed

lemma crowd_append:
  "\<exists>rows. GetAvailablePairs (db_fault quiet_env Op_GetAvailablePairs) (order_by_random quiet_env)
       (DB crowd_world) (- 100) = Inr rows
     \<and> fst (filterUniquePairs rows) = crowd_pairs
     \<and> fst (savePairsToDatabase quiet_env (emit (DBCall (Call_GetAvailablePairs (- 100))) crowd_world)
          crowd_pairs (- 100)) = None
     \<and> fst (appendUnpairedMessage quiet_env
              (snd (savePairsToDatabase quiet_env
                      (emit (DBCall (Call_GetAvailablePairs (- 100))) crowd_world) crowd_pairs (- 100)))
              (buildPairsMessage crowd_pairs) (- 100) (snd (filterUniquePairs rows)))
         = buildPairsMessage crowd_pairs"
  by (simp add: GetAvailablePairs_def crowd_world_def db_defs available_users_def upto16
      in_history_def member_sel scan_member Let_def quiet_env_def
      filterUniquePairs_def lookup_bool_def crowd_pairs_def
      savePairsToDatabase_def emit_def insert_pair_def itoa_def
      appendUnpairedMessage_def GetAllParticipants_def split: prod.splits)

lemma crowd_run:
  "sent_messages (CreatePairs quiet_env crowd_world (- 100)) =
     sent_messages crowd_world @ [(take 4000 (buildPairsMessage crowd_pairs) @ msg_truncated, - 100)]"
proof -
  from crowd_append obtain rows where
    r: "GetAvailablePairs (db_fault quiet_env Op_GetAvailablePairs) (order_by_random quiet_env)
          (DB crowd_world) (- 100) = Inr rows"
    and f: "fst (filterUniquePairs rows) = crowd_pairs"
    and s: "fst (savePairsToDatabase quiet_env (emit (DBCall (Call_GetAvailablePairs (- 100))) crowd_world)
                   crowd_pairs (- 100)) = None"
    and a: "fst (appendUnpairedMessage quiet_env
              (snd (savePairsToDatabase quiet_env
                      (emit (DBCall (Call_GetAvailablePairs (- 100))) crowd_world) crowd_pairs (- 100)))
              (buildPairsMessage crowd_pairs) (- 100) (snd (filterUniquePairs rows)))
         = buildPairsMessage crowd_pairs"
    by blast
  have ne: "fst (filterUniquePairs rows) \<noteq> []"
    by (simp add: f crowd_pairs_def)
  from s have s': "fst (savePairsToDatabase quiet_env
                     (emit (DBCall (Call_GetAvailablePairs (- 100))) crowd_world)
                     (fst (filterUniquePairs rows)) (- 100)) = None"
    by (simp add: f)
  from CreatePairs_sends_summary [OF r ne s'] crowd_cut show ?thesis
    by (simp add: f a truncateMessage_def)
qed

text \<open>
  C10. Every run of \<open>CreatePairs\<close> sends exactly one message to the group, and its text
  has at most 4000 bytes plus the 23 bytes of the truncation suffix, which is below the
  4096 of Telegram. In a run that selected pairs and saved them, the text sent is the
  summary, which starts with the message built from the final pairs and may end with
  the list of the unpaired, when that has at most 4000 bytes; otherwise it is the first
  4000 bytes of the summary followed by the suffix. The cut can fall inside a multi-byte
  UTF-8 character: there is a run whose summary has a continuation byte at offset 4000.
\<close>

theorem CreatePairs_summary_bounded:
  "(\<exists>text. sent_messages (CreatePairs e w groupID) = sent_messages w @ [(text, groupID)]
       \<and> length text \<le> 4000 + length msg_truncated \<and> length text \<le> 4096)
   \<and> length msg_truncated = 23
   \<and> (\<forall>availablePairs.
         GetAvailablePairs (db_fault e Op_GetAvailablePairs) (order_by_random e) (DB w) groupID
           = Inr availablePairs
         \<and> fst (filterUniquePairs availablePairs) \<noteq> []
         \<and> fst (savePairsToDatabase e (emit (DBCall (Call_GetAvailablePairs groupID)) w)
                  (fst (filterUniquePairs availablePairs)) groupID) = None
         \<longrightarrow> (let finalPairs = fst (filterUniquePairs availablePairs);
                  usedUsers = snd (filterUniquePairs availablePairs);
                  w2 = snd (savePairsToDatabase e (emit (DBCall (Call_GetAvailablePairs groupID)) w)
                              finalPairs groupID);
                  message = fst (appendUnpairedMessage e w2 (buildPairsMessage finalPairs)
                                   groupID usedUsers)
              in prefix (buildPairsMessage finalPairs) message
               \<and> sent_messages (CreatePairs e w groupID) = sent_messages w @
                    [(if 4000 < length message then take 4000 message @ msg_truncated else message,
                      groupID)]))
   \<and> (\<exists>e' w' groupID' message.
         4000 < length message \<and> is_continuation_byte (message ! 4000)
         \<and> sent_messages (CreatePairs e' w' groupID') =
              sent_messages w' @ [(take 4000 message @ msg_truncated, groupID')])"
proof -
  obtain msg where t: "sent_messages (CreatePairs e w groupID) = sent_messages w @ [(msg, groupID)]"
    "length msg \<le> 4000 + length msg_truncated"
    using CreatePairs_sends_one by blast
  from t(2) have "length msg \<le> 4096" by (simp add: length_msg_truncated)
  with t have first: "\<exists>text. sent_messages (CreatePairs e w groupID) = sent_messages w @ [(text, groupID)]
       \<and> length text \<le> 4000 + length msg_truncated \<and> length text \<le> 4096"
    by blast
  have summary: "\<forall>availablePairs.
         GetAvailablePairs (db_fault e Op_GetAvailablePairs) (order_by_random e) (DB w) groupID
           = Inr availablePairs
         \<and> fst (filterUniquePairs availablePairs) \<noteq> []
         \<and> fst (savePairsToDatabase e (emit (DBCall (Call_GetAvailablePairs groupID)) w)
                  (fst (filterUniquePairs availablePairs)) groupID) = None
         \<longrightarrow> (let finalPairs = fst (filterUniquePairs availablePairs);
                  usedUsers = snd (filterUniquePairs availablePairs);
                  w2 = snd (savePairsToDatabase e (emit (DBCall (Call_GetAvailablePairs groupID)) w)
                              finalPairs groupID);
                  message = fst (appendUnpairedMessage e w2 (buildPairsMessage finalPairs)
                                   groupID usedUsers)
              in prefix (buildPairsMessage finalPairs) message
               \<and> sent_messages (CreatePairs e w groupID) = sent_messages w @
                    [(if 4000 < length message then take 4000 message @ msg_truncated else message,
                      groupID)])"
  proof (intro allI impI)
    fix availablePairs
    assume h: "GetAvailablePairs (db_fault e Op_GetAvailablePairs) (order_by_random e) (DB w) groupID
           = Inr availablePairs
         \<and> fst (filterUniquePairs availablePairs) \<noteq> []
         \<and> fst (savePairsToDatabase e (emit (DBCall (Call_GetAvailablePairs groupID)) w)
                  (fst (filterUniquePairs availablePairs)) groupID) = None"
    then have h1: "GetAvailablePairs (db_fault e Op_GetAvailablePairs) (order_by_random e) (DB w) groupID
           = Inr availablePairs"
      and h2: "fst (filterUniquePairs availablePairs) \<noteq> []"
      and h3: "fst (savePairsToDatabase e (emit (DBCall (Call_GetAvailablePairs groupID)) w)
                  (fst (filterUniquePairs availablePairs)) groupID) = None"
      by simp_all
    from CreatePairs_sends_summary [OF h1 h2 h3] prefix_appendUnpairedMessage
    show "let finalPairs = fst (filterUniquePairs availablePairs);
              usedUsers = snd (filterUniquePairs availablePairs);
              w2 = snd (savePairsToDatabase e (emit (DBCall (Call_GetAvailablePairs groupID)) w)
                          finalPairs groupID);
              message = fst (appendUnpairedMessage e w2 (buildPairsMessage finalPairs)
                               groupID usedUsers)
          in prefix (buildPairsMessage finalPairs) message
           \<and> sent_messages (CreatePairs e w groupID) = sent_messages w @
                [(if 4000 < length message then take 4000 message @ msg_truncated else message,
                  groupID)]"
      by (simp add: Let_def truncateMessage_def)
  qed
  have "4000 < length (buildPairsMessage crowd_pairs)
      \<and> is_continuation_byte (buildPairsMessage crowd_pairs ! 4000)"
    using crowd_cut by (simp add: is_continuation_byte_def)
  with crowd_run have inside: "\<exists>e' w' groupID' message.
         4000 < length message \<and> is_continuation_byte (message ! 4000)
         \<and> sent_messages (CreatePairs e' w' groupID') =
              sent_messages w' @ [(take 4000 message @ msg_truncated, groupID')]"
    by blast
  from first length_msg_truncated summary inside show ?thesis by (intro conjI)
qed

theorem CreatePairs_summary_bounded_witness:
  "(\<exists>rows. GetAvailablePairs (db_fault quiet_env Op_GetAvailablePairs) (order_by_random quiet_env)
             (DB crowd_world) (- 100) = Inr rows
          \<and> fst (filterUniquePairs rows) = crowd_pairs)
   \<and> crowd_pairs \<noteq> []
   \<and> fst (savePairsToDatabase quiet_env (emit (DBCall (Call_GetAvailablePairs (- 100))) crowd_world)
            crowd_pairs (- 100)) = None
   \<and> length (buildPairsMessage crowd_pairs) = 4172
   \<and> sent_messages (CreatePairs quiet_env crowd_world (- 100)) =
        [(take 4000 (buildPairsMessage crowd_pairs) @ msg_truncated, - 100)]
   \<and> length (take 4000 (buildPairsMessage crowd_pairs) @ msg_truncated) = 4023
   \<and> buildPairsMessage crowd_pairs ! 3999 = CHR 0xD0
   \<and> buildPairsMessage crowd_pairs ! 4000 = CHR 0xB6
   \<and> is_continuation_byte (CHR 0xB6)"
proof -
  from crowd_append obtain rows where
    r: "GetAvailablePairs (db_fault quiet_env Op_GetAvailablePairs) (order_by_random quiet_env)
          (DB crowd_world) (- 100) = Inr rows"
    and f: "fst (filterUniquePairs rows) = crowd_pairs"
    and s: "fst (savePairsToDatabase quiet_env (emit (DBCall (Call_GetAvailablePairs (- 100))) crowd_world)
                   crowd_pairs (- 100)) = None"
    and a: "fst (appendUnpairedMessage quiet_env
              (snd (savePairsToDatabase quiet_env
                      (emit (DBCall (Call_GetAvailablePairs (- 100))) crowd_world) crowd_pairs (- 100)))
              (buildPairsMessage crowd_pairs) (- 100) (snd (filterUniquePairs rows)))
         = buildPairsMessage crowd_pairs"
    by blast
  have ne: "crowd_pairs \<noteq> []"
    by (simp add: crowd_pairs_def)
  have len: "length (buildPairsMessage crowd_pairs) = 4172"
    using crowd_cut by simp
  have st: "sent_messages crowd_world = []"
    by (simp add: sent_messages_def crowd_world_def)
  from CreatePairs_summary_bounded [of quiet_env crowd_world "- 100"] r f s ne
  have "let finalPairs = fst (filterUniquePairs rows);
              usedUsers = snd (filterUniquePairs rows);
              w2 = snd (savePairsToDatabase quiet_env
                          (emit (DBCall (Call_GetAvailablePairs (- 100))) crowd_world)
                          finalPairs (- 100));
              message = fst (appendUnpairedMessage quiet_env w2 (buildPairsMessage finalPairs)
                               (- 100) usedUsers)
          in prefix (buildPairsMessage finalPairs) message
           \<and> sent_messages (CreatePairs quiet_env crowd_world (- 100)) = sent_messages crowd_world @
                [(if 4000 < length message then take 4000 message @ msg_truncated else message,
                  - 100)]"
    by simp
  then have sent: "sent_messages (CreatePairs quiet_env crowd_world (- 100)) =
        [(take 4000 (buildPairsMessage crowd_pairs) @ msg_truncated, - 100)]"
    by (simp add: Let_def f a len st)
  have l: "length (take 4000 (buildPairsMessage crowd_pairs) @ msg_truncated) = 4023"
    by (simp add: len length_msg_truncated)
  have c: "is_continuation_byte (CHR 0xB6)"
    by (simp add: is_continuation_byte_def)
  from r f have ex: "\<exists>rows. GetAvailablePairs (db_fault quiet_env Op_GetAvailablePairs)
             (order_by_random quiet_env) (DB crowd_world) (- 100) = Inr rows
          \<and> fst (filterUniquePairs rows) = crowd_pairs"
    by blast
  from ex ne s len sent l crowd_cut c show ?thesis by (intro conjI) simp_all
qed

section \<open>The response workflow\<close>

lemma no_mapping_no_group:
  "\<forall>r \<in> set (poll_mapping d). PollID r \<noteq> pollID \<Longrightarrow> \<exists>err. GetGroupIDByPollID fault d pollID = Inl err"
proof -
  assume "\<forall>r \<in> set (poll_mapping d). PollID r \<noteq> pollID"
  then have "filter (\<lambda>r. PollID r = pollID) (poll_mapping d) = []"
    by (simp add: filter_empty_conv)
  then show ?thesis
    by (simp add: GetGroupIDByPollID_def split: option.splits)
qed

lemma HandlePollAnswer_unmapped:
  assumes "PA_User pa = Some user"
    and "\<forall>r \<in> set (poll_mapping (DB w)). PollID r \<noteq> PA_PollID pa"
  shows "DB (HandlePollAnswer e w pa) = DB w
     \<and> trace (HandlePollAnswer e w pa) = trace w @
          [DBCall (Call_GetGroupIDByPollID (PA_PollID pa)), Log Debug ''Poll not found (probably old poll)'']"
proof -
  obtain err where "GetGroupIDByPollID (db_fault e Op_GetGroupIDByPollID) (DB w) (PA_PollID pa) = Inl err"
    using no_mapping_no_group [OF assms(2)] by blast
  then show ?thesis
    using assms(1) by (simp add: HandlePollAnswer_def Let_def emit_def)
qed

lemma HandlePollAnswer_no:
  assumes user: "PA_User pa = Some user"
    and g: "GetGroupIDByPollID (db_fault e Op_GetGroupIDByPollID) (DB w) (PA_PollID pa) = Inr groupID"
    and cols: "check_columns (schema (DB w)) ''participant'' participant_columns = None"
    and nf: "\<not> db_fault e Op_DeleteParticipant"
    and no: "OptionIDs pa = [] \<or> hd (OptionIDs pa) \<noteq> 0"
  shows "participant (DB (HandlePollAnswer e w pa)) =
           filter (\<lambda>r. \<not> (GroupID r = groupID \<and> UserID r = User_ID user)) (participant (DB w))
     \<and> trace (HandlePollAnswer e w pa) = trace w @
          [DBCall (Call_GetGroupIDByPollID (PA_PollID pa)),
           DBCall (Call_DeleteParticipant groupID (User_ID user)),
           Log Info ''User removed from participants'']
     \<and> (rows_of (DB w) groupID (User_ID user) = [] \<longrightarrow> DB (HandlePollAnswer e w pa) = DB w)"
proof -
  have c: "check_columns (schema (DB w)) ''participant'' [''group_id'', ''user_id''] = None"
    by (rule check_columns_mono [OF cols]) (simp add: participant_columns_def)
  from no have o: "(case OptionIDs pa of [] \<Rightarrow> True | o0 # _ \<Rightarrow> o0 \<noteq> 0)"
    by (cases "OptionIDs pa") auto
  have keep: "filter (\<lambda>r. \<not> (GroupID r = groupID \<and> UserID r = User_ID user)) (participant (DB w))
      = participant (DB w)" if "rows_of (DB w) groupID (User_ID user) = []"
    using that by (auto simp: rows_of_def filter_empty_conv intro: filter_True)
  show ?thesis
    using user g c nf o keep
    by (simp add: HandlePollAnswer_def Let_def emit_def DeleteParticipant_def prepare_def)
qed

lemma HandlePollAnswer_yes:
  assumes user: "PA_User pa = Some user"
    and g: "GetGroupIDByPollID (db_fault e Op_GetGroupIDByPollID) (DB w) (PA_PollID pa) = Inr groupID"
    and cols: "check_columns (schema (DB w)) ''participant'' participant_columns = None"
    and nf: "\<not> db_fault e Op_CreateOrUpdateParticipant"
    and yes: "OptionIDs pa \<noteq> [] \<and> hd (OptionIDs pa) = 0"
    and fresh: "\<forall>r \<in> set (participant (DB w)). ID r \<noteq> uuid_New e 0"
  shows "participant (DB (HandlePollAnswer e w pa)) =
          (if rows_of (DB w) groupID (User_ID user) = []
           then participant (DB w) @
                  [\<lparr>ID = uuid_New e 0, GroupID = groupID, UserID = User_ID user,
                    Username = User_Username user, FullName = fullName_of user,
                    CreatedAt = time_Now e\<rparr>]
           else map (\<lambda>r. if GroupID r = groupID \<and> UserID r = User_ID user
                          then r\<lparr>Username := User_Username user, FullName := fullName_of user\<rparr>
                          else r)
                  (participant (DB w)))"
proof -
  from yes have o: "\<not> (case OptionIDs pa of [] \<Rightarrow> True | o0 # _ \<Rightarrow> o0 \<noteq> 0)"
    by (cases "OptionIDs pa") auto
  have ex: "(\<exists>r \<in> set (participant (DB w)). GroupID r = groupID \<and> UserID r = User_ID user)
       \<longleftrightarrow> rows_of (DB w) groupID (User_ID user) \<noteq> []"
    by (auto simp: rows_of_def filter_empty_conv)
  show ?thesis
    using user g cols nf o fresh ex
    by (simp add: HandlePollAnswer_def Let_def emit_def CreateOrUpdateParticipant_def prepare_def
        fullName_of_def)
qed

text \<open>
  C4. For a poll answer that carries its user: when no poll mapping has the answer's
  poll id, the handler leaves the database as it is and calls nothing but the lookup;
  when the poll maps to a group and the answer is empty or its first option is not 0,
  the user's participant row of that group is deleted, and when there is no such row
  the database is unchanged and the handler logs success; when the first option is 0,
  the row of (group, user) gets the current username and full name if it exists and is
  inserted otherwise.
\<close>

theorem HandlePollAnswer_cases:
  assumes "PA_User pa = Some user"
  shows
    "((\<forall>r \<in> set (poll_mapping (DB w)). PollID r \<noteq> PA_PollID pa) \<longrightarrow>
        DB (HandlePollAnswer e w pa) = DB w
        \<and> trace (HandlePollAnswer e w pa) = trace w @
             [DBCall (Call_GetGroupIDByPollID (PA_PollID pa)),
              Log Debug ''Poll not found (probably old poll)''])
     \<and> (GetGroupIDByPollID (db_fault e Op_GetGroupIDByPollID) (DB w) (PA_PollID pa) = Inr groupID
          \<and> check_columns (schema (DB w)) ''participant'' participant_columns = None
          \<and> \<not> db_fault e Op_DeleteParticipant
          \<and> (OptionIDs pa = [] \<or> hd (OptionIDs pa) \<noteq> 0) \<longrightarrow>
        participant (DB (HandlePollAnswer e w pa)) =
           filter (\<lambda>r. \<not> (GroupID r = groupID \<and> UserID r = User_ID user)) (participant (DB w))
        \<and> trace (HandlePollAnswer e w pa) = trace w @
             [DBCall (Call_GetGroupIDByPollID (PA_PollID pa)),
              DBCall (Call_DeleteParticipant groupID (User_ID user)),
              Log Info ''User removed from participants'']
        \<and> (rows_of (DB w) groupID (User_ID user) = [] \<longrightarrow> DB (HandlePollAnswer e w pa) = DB w))
     \<and> (GetGroupIDByPollID (db_fault e Op_GetGroupIDByPollID) (DB w) (PA_PollID pa) = Inr groupID
          \<and> check_columns (schema (DB w)) ''participant'' participant_columns = None
          \<and> \<not> db_fault e Op_CreateOrUpdateParticipant
          \<and> (OptionIDs pa \<noteq> [] \<and> hd (OptionIDs pa) = 0)
          \<and> (\<forall>r \<in> set (participant (DB w)). ID r \<noteq> uuid_New e 0) \<longrightarrow>
        participant (DB (HandlePollAnswer e w pa)) =
          (if rows_of (DB w) groupID (User_ID user) = []
           then participant (DB w) @
                  [\<lparr>ID = uuid_New e 0, GroupID = groupID, UserID = User_ID user,
                    Username = User_Username user, FullName = fullName_of user,
                    CreatedAt = time_Now e\<rparr>]
           else map (\<lambda>r. if GroupID r = groupID \<and> UserID r = User_ID user
                          then r\<lparr>Username := User_Username user, FullName := fullName_of user\<rparr>
                          else r)
                  (participant (DB w))))"
  using HandlePollAnswer_unmapped [OF assms, of w e]
    HandlePollAnswer_no [OF assms, of e w groupID]
    HandlePollAnswer_yes [OF assms, of e w groupID]
  by blast

theorem HandlePollAnswer_cases_witness:
  "\<not> (\<exists>r \<in> set (poll_mapping (DB poll_world)). PollID r = ''old'')
   \<and> DB (HandlePollAnswer quiet_env poll_world
            \<lparr>PA_PollID = ''old'', PA_User = Some user_bob, OptionIDs = [0]\<rparr>) = DB poll_world
   \<and> GetGroupIDByPollID False (DB poll_world) ''poll1'' = Inr (- 100)
   \<and> participant (DB poll_world) = [alice, bob, carol, dave]
   \<and> participant (DB (HandlePollAnswer quiet_env poll_world
            \<lparr>PA_PollID = ''poll1'', PA_User = Some user_bob, OptionIDs = [1]\<rparr>)) = [alice, carol, dave]
   \<and> DB (HandlePollAnswer quiet_env poll_world
            \<lparr>PA_PollID = ''poll1'', PA_User = Some user_zed, OptionIDs = []\<rparr>) = DB poll_world
   \<and> participant (DB (HandlePollAnswer quiet_env poll_world
            \<lparr>PA_PollID = ''poll1'', PA_User = Some user_alice, OptionIDs = [0]\<rparr>))
       = [alice\<lparr>Username := ''alice2'', FullName := ''Alice Again''\<rparr>, bob, carol, dave]
   \<and> participant (DB (HandlePollAnswer quiet_env poll_world
            \<lparr>PA_PollID = ''poll1'', PA_User = Some user_zed, OptionIDs = [0]\<rparr>))
       = [alice, bob, carol, dave,
          \<lparr>ID = ''uuid-0'', GroupID = - 100, UserID = 26, Username = [], FullName = ''Zed'',
           CreatedAt = 0\<rparr>]"
proof -
  let ?stale = "\<lparr>PA_PollID = ''old'', PA_User = Some user_bob, OptionIDs = [0]\<rparr>"
  let ?no_bob = "\<lparr>PA_PollID = ''poll1'', PA_User = Some user_bob, OptionIDs = [1]\<rparr>"
  let ?none_zed = "\<lparr>PA_PollID = ''poll1'', PA_User = Some user_zed, OptionIDs = []\<rparr>"
  let ?yes_alice = "\<lparr>PA_PollID = ''poll1'', PA_User = Some user_alice, OptionIDs = [0]\<rparr>"
  let ?yes_zed = "\<lparr>PA_PollID = ''poll1'', PA_User = Some user_zed, OptionIDs = [0]\<rparr>"
  have m: "\<forall>r \<in> set (poll_mapping (DB poll_world)). PollID r \<noteq> ''old''"
    by (simp add: world_defs)
  have g: "GetGroupIDByPollID False (DB poll_world) ''poll1'' = Inr (- 100)"
    by (simp add: GetGroupIDByPollID_def world_defs db_defs)
  have c: "check_columns (schema (DB poll_world)) ''participant'' participant_columns = None"
    by (simp add: world_defs db_defs)
  have ps: "participant (DB poll_world) = [alice, bob, carol, dave]"
    by (simp add: world_defs)
  have f: "\<forall>r \<in> set (participant (DB poll_world)). ID r \<noteq> uuid_New quiet_env 0"
    by (simp add: ps person_defs quiet_env_def)
  have q: "\<not> db_fault quiet_env op" for op
    by (simp add: quiet_env_def)
  have "itoa 0 = ''0''" by (simp add: itoa_def)
  then have u0: "uuid_New quiet_env 0 = ''uuid-0''" "time_Now quiet_env = 0"
    by (simp_all add: quiet_env_def)
  have r: "rows_of (DB poll_world) (- 100) 2 \<noteq> []" "rows_of (DB poll_world) (- 100) 26 = []"
    "rows_of (DB poll_world) (- 100) 1 \<noteq> []"
    by (simp_all add: rows_of_def ps person_defs)
  have 1: "DB (HandlePollAnswer quiet_env poll_world ?stale) = DB poll_world"
    using HandlePollAnswer_cases [where pa = ?stale and user = user_bob and w = poll_world and e = quiet_env] m by simp
  have 2: "participant (DB (HandlePollAnswer quiet_env poll_world ?no_bob)) = [alice, carol, dave]"
    using HandlePollAnswer_cases [where pa = ?no_bob and user = user_bob and w = poll_world and e = quiet_env and groupID = "- 100"] g c q
    by (simp add: ps person_defs user_bob_def)
  have 3: "DB (HandlePollAnswer quiet_env poll_world ?none_zed) = DB poll_world"
    using HandlePollAnswer_cases [where pa = ?none_zed and user = user_zed and w = poll_world and e = quiet_env and groupID = "- 100"] g c q r
    by (simp add: user_zed_def)
  have 4: "participant (DB (HandlePollAnswer quiet_env poll_world ?yes_alice))
       = [alice\<lparr>Username := ''alice2'', FullName := ''Alice Again''\<rparr>, bob, carol, dave]"
    using HandlePollAnswer_cases [where pa = ?yes_alice and user = user_alice and w = poll_world and e = quiet_env and groupID = "- 100"] g c q r f
    by (simp add: ps person_defs user_alice_def fullName_of_def)
  have 5: "participant (DB (HandlePollAnswer quiet_env poll_world ?yes_zed))
       = [alice, bob, carol, dave,
          \<lparr>ID = ''uuid-0'', GroupID = - 100, UserID = 26, Username = [], FullName = ''Zed'',
           CreatedAt = 0\<rparr>]"
    using HandlePollAnswer_cases [where pa = ?yes_zed and user = user_zed and w = poll_world and e = quiet_env and groupID = "- 100"] g c q r f
    by (simp add: ps u0 user_zed_def fullName_of_def)
  from m have m': "\<not> (\<exists>r \<in> set (poll_mapping (DB poll_world)). PollID r = ''old'')"
    by blast
  from m' 1 g ps 2 3 4 5 show ?thesis by (intro conjI)
qed

section \<open>The quiz workflow\<close>

lemma DeletePollMapping_result:
  "DeletePollMapping fault d groupID = Inr d' \<Longrightarrow>
     d' = d\<lparr>poll_mapping := filter (\<lambda>r. PM_GroupID r \<noteq> groupID) (poll_mapping d)\<rparr>"
  by (simp add: DeletePollMapping_def split: option.splits)

lemma CreatePollMapping_result:
  "CreatePollMapping fault d pm = Inr d' \<Longrightarrow> d' = d\<lparr>poll_mapping := poll_mapping d @ [pm]\<rparr>"
  by (simp add: CreatePollMapping_def split: option.splits if_splits)

lemma SendQuiz_result:
  "\<exists>d1 rest.
     (d1 = DB w \<or> d1 = (DB w)\<lparr>poll_mapping := filter (\<lambda>r. PM_GroupID r \<noteq> groupID) (poll_mapping (DB w))\<rparr>)
     \<and> (DB (SendQuiz e w groupID) = d1
          \<or> (\<exists>pollID messageID. DB (SendQuiz e w groupID) =
                d1\<lparr>poll_mapping := poll_mapping d1 @
                      [\<lparr>PollID = pollID, PM_GroupID = groupID, MessageID = messageID\<rparr>]\<rparr>))
     \<and> trace (SendQuiz e w groupID) = trace w @ DBCall (Call_DeletePollMapping groupID) # rest"
proof -
  define w1 where "w1 = emit (DBCall (Call_DeletePollMapping groupID)) w"
  define w2 where "w2 = (case DeletePollMapping (db_fault e Op_DeletePollMapping) (DB w1) groupID of
                  Inl err \<Rightarrow> emit (Log Warn ''Failed to delete old poll mapping'') w1
                | Inr d \<Rightarrow> w1\<lparr>DB := d\<rparr>)"
  define w3 where "w3 = emit (SendPoll groupID) w2"
  have sq: "SendQuiz e w groupID =
      (case send_poll_res e of
           PollError \<Rightarrow> emit (Log Error ''SendPoll failed'') w3
         | PollNil \<Rightarrow> emit (Log Error ''Poll result is nil'') w3
         | PollSent pollID messageID \<Rightarrow>
            (let pm = \<lparr>PollID = pollID, PM_GroupID = groupID, MessageID = messageID\<rparr>;
                 w4 = emit (DBCall (Call_CreatePollMapping pm)) w3
             in case CreatePollMapping (db_fault e Op_CreatePollMapping) (DB w4) pm of
                  Inl err \<Rightarrow> emit (Log Error ''CreatePollMapping failed'') w4
                | Inr d \<Rightarrow>
                   (let w5 = emit (PinChatMessage groupID messageID) (w4\<lparr>DB := d\<rparr>);
                        w6 = (if pin_err e
                              then emit (Log Warn ''PinChatMessage failed (check bot permissions)'') w5
                              else w5)
                    in emit (Log Info ''Quiz sent and pinned successfully'') w6)))"
    unfolding SendQuiz_def w1_def w2_def w3_def Let_def ..
  have d3: "DB w3 = DB w \<or> DB w3 = (DB w)\<lparr>poll_mapping := filter (\<lambda>r. PM_GroupID r \<noteq> groupID) (poll_mapping (DB w))\<rparr>"
    by (cases "DeletePollMapping (db_fault e Op_DeletePollMapping) (DB w1) groupID")
      (auto simp: w3_def w2_def w1_def emit_def dest: DeletePollMapping_result)
  have t3: "\<exists>rest. trace w3 = trace w @ DBCall (Call_DeletePollMapping groupID) # rest"
    by (cases "DeletePollMapping (db_fault e Op_DeletePollMapping) (DB w1) groupID")
      (simp_all add: w3_def w2_def w1_def emit_def)
  then obtain r3 where r3: "trace w3 = trace w @ DBCall (Call_DeletePollMapping groupID) # r3"
    by blast
  show ?thesis
  proof (cases "send_poll_res e")
    case PollError
    with d3 r3 show ?thesis by (auto simp: sq emit_def)
  next
    case PollNil
    with d3 r3 show ?thesis by (auto simp: sq emit_def)
  next
    case (PollSent pollID messageID)
    let ?pm = "\<lparr>PollID = pollID, PM_GroupID = groupID, MessageID = messageID\<rparr>"
    let ?w4 = "emit (DBCall (Call_CreatePollMapping ?pm)) w3"
    show ?thesis
    proof (cases "CreatePollMapping (db_fault e Op_CreatePollMapping) (DB ?w4) ?pm")
      case (Inl err)
      with PollSent d3 r3 show ?thesis by (auto simp: sq emit_def Let_def)
    next
      case (Inr d)
      from CreatePollMapping_result [OF this]
      have d: "d = (DB w3)\<lparr>poll_mapping := poll_mapping (DB w3) @ [?pm]\<rparr>"
        by (simp add: emit_def)
      have db: "DB (SendQuiz e w groupID) = d"
        using PollSent Inr by (simp add: sq Let_def emit_def)
      have tr: "trace (SendQuiz e w groupID) = trace w @ DBCall (Call_DeletePollMapping groupID) #
          (r3 @ DBCall (Call_CreatePollMapping ?pm) # PinChatMessage groupID messageID #
            (if pin_err e then [Log Warn ''PinChatMessage failed (check bot permissions)''] else [])
            @ [Log Info ''Quiz sent and pinned successfully''])"
        using PollSent Inr r3 by (simp add: sq Let_def emit_def)
      from d3 db d tr show ?thesis by blast
    qed
  qed
qed

lemma SendQuiz_schema: "schema (DB (SendQuiz e w groupID)) = schema (DB w)"
  using SendQuiz_result [of w groupID e] by auto

lemma SendQuiz_other_groups:
  "filter (\<lambda>r. PM_GroupID r \<noteq> groupID) (poll_mapping (DB (SendQuiz e w groupID)))
     = filter (\<lambda>r. PM_GroupID r \<noteq> groupID) (poll_mapping (DB w))"
  using SendQuiz_result [of w groupID e] by auto

lemma SendQuiz_starts_with_delete:
  "\<exists>rest. trace (SendQuiz e w groupID) = trace w @ DBCall (Call_DeletePollMapping groupID) # rest"
  using SendQuiz_result [of w groupID e] by blast

lemma SendQuiz_sent:
  assumes res: "send_poll_res e = PollSent pollID messageID"
    and cols: "check_columns (schema (DB w)) ''poll_mapping'' [''poll_id'', ''group_id'', ''message_id''] = None"
    and nf: "\<not> db_fault e Op_DeletePollMapping" "\<not> db_fault e Op_CreatePollMapping"
    and fresh: "\<forall>r \<in> set (poll_mapping (DB w)). PM_GroupID r \<noteq> groupID \<longrightarrow> PollID r \<noteq> pollID"
  shows "poll_mapping (DB (SendQuiz e w groupID)) =
           filter (\<lambda>r. PM_GroupID r \<noteq> groupID) (poll_mapping (DB w))
             @ [\<lparr>PollID = pollID, PM_GroupID = groupID, MessageID = messageID\<rparr>]"
    and "\<exists>rest. trace (SendQuiz e w groupID) = trace w @
           [DBCall (Call_DeletePollMapping groupID), SendPoll groupID,
            DBCall (Call_CreatePollMapping \<lparr>PollID = pollID, PM_GroupID = groupID, MessageID = messageID\<rparr>)]
           @ rest"
proof -
  have c: "check_columns (schema (DB w)) ''poll_mapping'' [''group_id''] = None"
    by (rule check_columns_mono [OF cols]) simp
  have pk: "\<not> (\<exists>r \<in> set (filter (\<lambda>r. PM_GroupID r \<noteq> groupID) (poll_mapping (DB w))). PollID r = pollID)"
    using fresh by auto
  show "poll_mapping (DB (SendQuiz e w groupID)) =
           filter (\<lambda>r. PM_GroupID r \<noteq> groupID) (poll_mapping (DB w))
             @ [\<lparr>PollID = pollID, PM_GroupID = groupID, MessageID = messageID\<rparr>]"
    using res cols c nf pk
    by (simp add: SendQuiz_def Let_def emit_def DeletePollMapping_def CreatePollMapping_def prepare_def)
  show "\<exists>rest. trace (SendQuiz e w groupID) = trace w @
           [DBCall (Call_DeletePollMapping groupID), SendPoll groupID,
            DBCall (Call_CreatePollMapping \<lparr>PollID = pollID, PM_GroupID = groupID, MessageID = messageID\<rparr>)]
           @ rest"
    using res cols c nf pk
    by (simp add: SendQuiz_def Let_def emit_def DeletePollMapping_def CreatePollMapping_def prepare_def)
qed

lemma SendQuiz_after_delete:
  assumes nf: "\<not> db_fault e Op_DeletePollMapping"
    and cols: "check_columns (schema (DB w)) ''poll_mapping'' [''group_id''] = None"
  shows "poll_mapping (DB (SendQuiz e w groupID))
           = filter (\<lambda>r. PM_GroupID r \<noteq> groupID) (poll_mapping (DB w))
       \<or> (\<exists>pollID messageID. send_poll_res e = PollSent pollID messageID
            \<and> poll_mapping (DB (SendQuiz e w groupID))
                = filter (\<lambda>r. PM_GroupID r \<noteq> groupID) (poll_mapping (DB w))
                    @ [\<lparr>PollID = pollID, PM_GroupID = groupID, MessageID = messageID\<rparr>])"
    and "send_poll_res e = PollSent pollID' messageID' \<Longrightarrow>
         \<exists>rest. trace (SendQuiz e w groupID) = trace w @
           [DBCall (Call_DeletePollMapping groupID), SendPoll groupID,
            DBCall (Call_CreatePollMapping
              \<lparr>PollID = pollID', PM_GroupID = groupID, MessageID = messageID'\<rparr>)] @ rest"
proof -
  define d1 where "d1 = (DB w)\<lparr>poll_mapping := filter (\<lambda>r. PM_GroupID r \<noteq> groupID) (poll_mapping (DB w))\<rparr>"
  define w1 where "w1 = emit (DBCall (Call_DeletePollMapping groupID)) w"
  define w2 where "w2 = (case DeletePollMapping (db_fault e Op_DeletePollMapping) (DB w1) groupID of
                  Inl err \<Rightarrow> emit (Log Warn ''Failed to delete old poll mapping'') w1
                | Inr d \<Rightarrow> w1\<lparr>DB := d\<rparr>)"
  define w3 where "w3 = emit (SendPoll groupID) w2"
  have del: "DeletePollMapping (db_fault e Op_DeletePollMapping) (DB w1) groupID = Inr d1"
    using nf cols by (simp add: DeletePollMapping_def prepare_def DB_emit d1_def w1_def)
  have sq: "SendQuiz e w groupID =
      (case send_poll_res e of
           PollError \<Rightarrow> emit (Log Error ''SendPoll failed'') w3
         | PollNil \<Rightarrow> emit (Log Error ''Poll result is nil'') w3
         | PollSent pollID messageID \<Rightarrow>
            (let pm = \<lparr>PollID = pollID, PM_GroupID = groupID, MessageID = messageID\<rparr>;
                 w4 = emit (DBCall (Call_CreatePollMapping pm)) w3
             in case CreatePollMapping (db_fault e Op_CreatePollMapping) (DB w4) pm of
                  Inl err \<Rightarrow> emit (Log Error ''CreatePollMapping failed'') w4
                | Inr d \<Rightarrow>
                   (let w5 = emit (PinChatMessage groupID messageID) (w4\<lparr>DB := d\<rparr>);
                        w6 = (if pin_err e
                              then emit (Log Warn ''PinChatMessage failed (check bot permissions)'') w5
                              else w5)
                    in emit (Log Info ''Quiz sent and pinned successfully'') w6)))"
    unfolding SendQuiz_def w1_def w2_def w3_def Let_def ..
  have d3: "DB w3 = d1" by (simp add: w3_def w2_def del DB_emit)
  have w2': "w2 = w1\<lparr>DB := d1\<rparr>"
    by (simp add: w2_def del)
  have t3: "trace w3 = trace w @ [DBCall (Call_DeletePollMapping groupID), SendPoll groupID]"
    by (simp add: w3_def w2' w1_def trace_emit)
  show "send_poll_res e = PollSent pollID' messageID' \<Longrightarrow>
         \<exists>rest. trace (SendQuiz e w groupID) = trace w @
           [DBCall (Call_DeletePollMapping groupID), SendPoll groupID,
            DBCall (Call_CreatePollMapping
              \<lparr>PollID = pollID', PM_GroupID = groupID, MessageID = messageID'\<rparr>)] @ rest"
  proof -
    assume sent: "send_poll_res e = PollSent pollID' messageID'"
    let ?pm = "\<lparr>PollID = pollID', PM_GroupID = groupID, MessageID = messageID'\<rparr>"
    show ?thesis
    proof (cases "CreatePollMapping (db_fault e Op_CreatePollMapping) d1 ?pm")
      case (Inl err)
      with sent show ?thesis by (simp add: sq Let_def DB_emit trace_emit d3 t3)
    next
      case (Inr d)
      with sent show ?thesis by (simp add: sq Let_def DB_emit trace_emit d3 t3)
    qed
  qed
  show "poll_mapping (DB (SendQuiz e w groupID))
           = filter (\<lambda>r. PM_GroupID r \<noteq> groupID) (poll_mapping (DB w))
       \<or> (\<exists>pollID messageID. send_poll_res e = PollSent pollID messageID
            \<and> poll_mapping (DB (SendQuiz e w groupID))
                = filter (\<lambda>r. PM_GroupID r \<noteq> groupID) (poll_mapping (DB w))
                    @ [\<lparr>PollID = pollID, PM_GroupID = groupID, MessageID = messageID\<rparr>])"
  proof (cases "send_poll_res e")
    case PollError
    then show ?thesis by (simp add: sq DB_emit d3 d1_def)
  next
    case PollNil
    then show ?thesis by (simp add: sq DB_emit d3 d1_def)
  next
    case (PollSent pollID messageID)
    let ?pm = "\<lparr>PollID = pollID, PM_GroupID = groupID, MessageID = messageID\<rparr>"
    show ?thesis
    proof (cases "CreatePollMapping (db_fault e Op_CreatePollMapping) d1 ?pm")
      case (Inl err)
      with PollSent show ?thesis by (simp add: sq Let_def DB_emit d3) (simp add: d1_def)
    next
      case (Inr d)
      from CreatePollMapping_result [OF this] have "poll_mapping d = poll_mapping d1 @ [?pm]" by simp
      with PollSent Inr show ?thesis by (simp add: sq Let_def DB_emit d3) (simp add: d1_def)
    qed
  qed
qed

text \<open>
  C5. \<open>SendQuiz\<close> calls \<open>DeletePollMapping\<close> for the group before it sends the poll and
  creates the new mapping. After two quizzes in a row to the same group, whatever happened
  in the first, when the second one's delete succeeds every mapping row of the group is
  the second poll's and the first poll id does not resolve to the group; when the
  second one's insert succeeds as well, the group has exactly that one mapping, the
  second poll id resolves to the group and the group's latest mapping is the second
  poll's.
\<close>

theorem SendQuiz_twice:
  assumes first: "send_poll_res e1 = PollSent pollID1 messageID1"
    and second: "send_poll_res e2 = PollSent pollID2 messageID2"
    and differ: "pollID1 \<noteq> pollID2"
    and del: "\<not> db_fault e2 Op_DeletePollMapping"
      "check_columns (schema (DB w)) ''poll_mapping'' [''group_id''] = None"
  shows "let w1 = SendQuiz e1 w groupID;
             w2 = SendQuiz e2 w1 groupID;
             pm2 = \<lparr>PollID = pollID2, PM_GroupID = groupID, MessageID = messageID2\<rparr>
         in (\<exists>rest. trace w1 = trace w @ DBCall (Call_DeletePollMapping groupID) # rest)
          \<and> (\<exists>rest. trace w2 = trace w1 @
                [DBCall (Call_DeletePollMapping groupID), SendPoll groupID,
                 DBCall (Call_CreatePollMapping pm2)] @ rest)
          \<and> (\<forall>r \<in> set (poll_mapping (DB w2)). PM_GroupID r = groupID \<longrightarrow> r = pm2)
          \<and> GetGroupIDByPollID False (DB w2) pollID1 \<noteq> Inr groupID
          \<and> (\<not> db_fault e2 Op_CreatePollMapping
               \<and> check_columns (schema (DB w)) ''poll_mapping''
                    [''poll_id'', ''group_id'', ''message_id''] = None
               \<and> (\<forall>r \<in> set (poll_mapping (DB w)). PM_GroupID r \<noteq> groupID \<longrightarrow> PollID r \<noteq> pollID2)
              \<longrightarrow> filter (\<lambda>r. PM_GroupID r = groupID) (poll_mapping (DB w2)) = [pm2]
                  \<and> GetGroupIDByPollID False (DB w2) pollID2 = Inr groupID
                  \<and> GetPollMappingByGroupID False (DB w2) groupID = Inr (Some pm2))"
proof -
  define w1 where "w1 = SendQuiz e1 w groupID"
  define w2 where "w2 = SendQuiz e2 w1 groupID"
  define pm2 where "pm2 = \<lparr>PollID = pollID2, PM_GroupID = groupID, MessageID = messageID2\<rparr>"
  define others where "others = filter (\<lambda>r. PM_GroupID r \<noteq> groupID) (poll_mapping (DB w))"
  have sch1: "schema (DB w1) = schema (DB w)"
    by (simp add: w1_def SendQuiz_schema)
  have sch2: "schema (DB w2) = schema (DB w)"
    by (simp add: w2_def SendQuiz_schema sch1)
  have o1: "filter (\<lambda>r. PM_GroupID r \<noteq> groupID) (poll_mapping (DB w1)) = others"
    by (simp add: w1_def others_def SendQuiz_other_groups)
  have del1: "check_columns (schema (DB w1)) ''poll_mapping'' [''group_id''] = None"
    using del(2) by (simp add: sch1)
  have tr1: "\<exists>rest. trace w1 = trace w @ DBCall (Call_DeletePollMapping groupID) # rest"
    unfolding w1_def by (rule SendQuiz_starts_with_delete)
  have tr2: "\<exists>rest. trace w2 = trace w1 @
                [DBCall (Call_DeletePollMapping groupID), SendPoll groupID,
                 DBCall (Call_CreatePollMapping pm2)] @ rest"
    unfolding w2_def pm2_def by (rule SendQuiz_after_delete(2) [OF del(1) del1 second])
  have pm: "poll_mapping (DB w2) = others \<or> poll_mapping (DB w2) = others @ [pm2]"
    using SendQuiz_after_delete(1) [OF del(1) del1, of groupID] second
    by (auto simp: w2_def o1 pm2_def)
  have og: "\<forall>r \<in> set others. PM_GroupID r \<noteq> groupID"
    by (simp add: others_def)
  have only: "\<forall>r \<in> set (poll_mapping (DB w2)). PM_GroupID r = groupID \<longrightarrow> r = pm2"
    using pm og by auto
  have res1: "GetGroupIDByPollID False (DB w2) pollID1 \<noteq> Inr groupID"
  proof
    assume a: "GetGroupIDByPollID False (DB w2) pollID1 = Inr groupID"
    then obtain r rs where f: "filter (\<lambda>r. PollID r = pollID1) (poll_mapping (DB w2)) = r # rs"
      and g: "PM_GroupID r = groupID"
      by (auto simp: GetGroupIDByPollID_def split: option.splits list.splits)
    from f have "r \<in> set (filter (\<lambda>r. PollID r = pollID1) (poll_mapping (DB w2)))" by simp
    then have r: "r \<in> set (poll_mapping (DB w2))" "PollID r = pollID1" by simp_all
    from only r(1) g have "r = pm2" by blast
    then have "PollID r = pollID2" by (simp add: pm2_def)
    with r(2) differ show False by simp
  qed
  have tier2: "filter (\<lambda>r. PM_GroupID r = groupID) (poll_mapping (DB w2)) = [pm2]
                  \<and> GetGroupIDByPollID False (DB w2) pollID2 = Inr groupID
                  \<and> GetPollMappingByGroupID False (DB w2) groupID = Inr (Some pm2)"
    if nf: "\<not> db_fault e2 Op_CreatePollMapping"
      and cols: "check_columns (schema (DB w)) ''poll_mapping''
                    [''poll_id'', ''group_id'', ''message_id''] = None"
      and fresh: "\<forall>r \<in> set (poll_mapping (DB w)). PM_GroupID r \<noteq> groupID \<longrightarrow> PollID r \<noteq> pollID2"
  proof -
    have cols1: "check_columns (schema (DB w1)) ''poll_mapping''
                 [''poll_id'', ''group_id'', ''message_id''] = None"
      using cols by (simp add: sch1)
    have fresh1: "\<forall>r \<in> set (poll_mapping (DB w1)). PM_GroupID r \<noteq> groupID \<longrightarrow> PollID r \<noteq> pollID2"
    proof (intro ballI impI)
      fix r assume "r \<in> set (poll_mapping (DB w1))" "PM_GroupID r \<noteq> groupID"
      then have "r \<in> set (filter (\<lambda>r. PM_GroupID r \<noteq> groupID) (poll_mapping (DB w1)))" by simp
      then have "r \<in> set (poll_mapping (DB w))" unfolding o1 others_def by simp
      with fresh \<open>PM_GroupID r \<noteq> groupID\<close> show "PollID r \<noteq> pollID2" by blast
    qed
    have pm': "poll_mapping (DB w2) = others @ [pm2]"
      using SendQuiz_sent(1) [OF second cols1 del(1) nf fresh1] by (simp add: w2_def o1 pm2_def)
    have og2: "\<forall>r \<in> set others. PM_GroupID r \<noteq> groupID \<and> PollID r \<noteq> pollID2"
      using fresh by (auto simp: others_def)
    have f_g: "filter (\<lambda>r. PM_GroupID r = groupID) others = []"
      using og2 by (simp add: filter_empty_conv)
    have f_p2: "filter (\<lambda>r. PollID r = pollID2) others = []"
      using og2 by (simp add: filter_empty_conv)
    have one: "filter (\<lambda>r. PM_GroupID r = groupID) (poll_mapping (DB w2)) = [pm2]"
      by (simp add: pm' f_g pm2_def)
    have c2: "check_columns (schema (DB w2)) ''poll_mapping'' [''group_id'', ''poll_id''] = None"
      by (rule check_columns_mono [where cols = "[''poll_id'', ''group_id'', ''message_id'']"])
        (simp_all add: sch2 cols)
    have c3: "check_columns (schema (DB w2)) ''poll_mapping''
              [''poll_id'', ''group_id'', ''message_id''] = None"
      by (simp add: sch2 cols)
    have res2: "GetGroupIDByPollID False (DB w2) pollID2 = Inr groupID"
      by (simp add: GetGroupIDByPollID_def prepare_def c2 pm' f_p2 pm2_def)
    have latest: "GetPollMappingByGroupID False (DB w2) groupID = Inr (Some pm2)"
      by (simp add: GetPollMappingByGroupID_def prepare_def c3 one)
    from one res2 latest show ?thesis by blast
  qed
  from tr1 tr2 only res1 tier2 show ?thesis
    unfolding Let_def w1_def [symmetric] w2_def [symmetric] pm2_def [symmetric] by blast
qed

theorem SendQuiz_twice_witness:
  "send_poll_res quiet_env = PollSent ''poll2'' 8
   \<and> send_poll_res second_env = PollSent ''poll3'' 9
   \<and> ''poll2'' \<noteq> ''poll3''
   \<and> \<not> db_fault second_env Op_DeletePollMapping \<and> \<not> db_fault second_env Op_CreatePollMapping
   \<and> check_columns (schema (DB poll_world)) ''poll_mapping''
        [''poll_id'', ''group_id'', ''message_id''] = None
   \<and> \<not> (\<exists>r \<in> set (poll_mapping (DB poll_world)). PM_GroupID r \<noteq> - 100 \<and> PollID r = ''poll3'')
   \<and> filter (\<lambda>r. PM_GroupID r = - 100)
         (poll_mapping (DB (SendQuiz second_env (SendQuiz quiet_env poll_world (- 100)) (- 100))))
       = [\<lparr>PollID = ''poll3'', PM_GroupID = - 100, MessageID = 9\<rparr>]
   \<and> GetGroupIDByPollID False
         (DB (SendQuiz second_env (SendQuiz quiet_env poll_world (- 100)) (- 100))) ''poll3''
       = Inr (- 100)
   \<and> GetGroupIDByPollID False
         (DB (SendQuiz second_env (SendQuiz quiet_env poll_world (- 100)) (- 100))) ''poll2''
       \<noteq> Inr (- 100)
   \<and> GetPollMappingByGroupID False
         (DB (SendQuiz second_env (SendQuiz quiet_env poll_world (- 100)) (- 100))) (- 100)
       = Inr (Some \<lparr>PollID = ''poll3'', PM_GroupID = - 100, MessageID = 9\<rparr>)
   \<and> check_columns (schema (DB migrated_world)) ''poll_mapping'' [''group_id''] = None
   \<and> GetGroupIDByPollID False
         (DB (SendQuiz second_env (SendQuiz quiet_env migrated_world (- 100)) (- 100))) ''poll2''
       \<noteq> Inr (- 100)"
proof -
  have h1: "send_poll_res quiet_env = PollSent ''poll2'' 8"
    by (simp add: quiet_env_def)
  have h2: "send_poll_res second_env = PollSent ''poll3'' 9"
    by (simp add: second_env_def)
  have h3: "''poll2'' \<noteq> ''poll3''"
    by simp
  have h4: "check_columns (schema (DB poll_world)) ''poll_mapping''
        [''poll_id'', ''group_id'', ''message_id''] = None"
    by (simp add: world_defs db_defs)
  have h4': "check_columns (schema (DB poll_world)) ''poll_mapping'' [''group_id''] = None"
    by (simp add: world_defs db_defs)
  have h5: "\<not> db_fault second_env Op_DeletePollMapping" "\<not> db_fault second_env Op_CreatePollMapping"
    by (simp_all add: second_env_def quiet_env_def)
  have h6: "\<forall>r \<in> set (poll_mapping (DB poll_world)). PM_GroupID r \<noteq> - 100 \<longrightarrow> PollID r \<noteq> ''poll3''"
    by (simp add: world_defs)
  from h6 have h6': "\<not> (\<exists>r \<in> set (poll_mapping (DB poll_world)). PM_GroupID r \<noteq> - 100 \<and> PollID r = ''poll3'')"
    by blast
  have m: "check_columns (schema (DB migrated_world)) ''poll_mapping'' [''group_id''] = None"
    by (simp add: migrated_world_def empty_db_def db_defs)
  from SendQuiz_twice [OF h1 h2 h3 h5(1) h4', of "- 100"] h5(2) h4 h6
  have c: "filter (\<lambda>r. PM_GroupID r = - 100)
         (poll_mapping (DB (SendQuiz second_env (SendQuiz quiet_env poll_world (- 100)) (- 100))))
       = [\<lparr>PollID = ''poll3'', PM_GroupID = - 100, MessageID = 9\<rparr>]
   \<and> GetGroupIDByPollID False
         (DB (SendQuiz second_env (SendQuiz quiet_env poll_world (- 100)) (- 100))) ''poll3''
       = Inr (- 100)
   \<and> GetGroupIDByPollID False
         (DB (SendQuiz second_env (SendQuiz quiet_env poll_world (- 100)) (- 100))) ''poll2''
       \<noteq> Inr (- 100)
   \<and> GetPollMappingByGroupID False
         (DB (SendQuiz second_env (SendQuiz quiet_env poll_world (- 100)) (- 100))) (- 100)
       = Inr (Some \<lparr>PollID = ''poll3'', PM_GroupID = - 100, MessageID = 9\<rparr>)"
    unfolding Let_def by blast
  from SendQuiz_twice [OF h1 h2 h3 h5(1) m, of "- 100"]
  have c': "GetGroupIDByPollID False
         (DB (SendQuiz second_env (SendQuiz quiet_env migrated_world (- 100)) (- 100))) ''poll2''
       \<noteq> Inr (- 100)"
    unfolding Let_def by blast
  from h1 h2 h3 h5 h4 h6' c m c' show ?thesis by blast
qed

section \<open>The pairing workflow and its cleanup\<close>

lemma DB_sendMessage: "DB (sendMessage e t chatID w) = DB w"
  by (simp add: sendMessage_def Let_def DB_emit split: option.splits)

lemmas frame = DB_emit trace_emit DB_sendMessage

lemma trace_sendMessage:
  "\<exists>logs. trace (sendMessage e t chatID w) = trace w @ SendMessage t chatID # logs
     \<and> (\<forall>ev \<in> set logs. \<exists>l s. ev = Log l s)"
  by (simp add: frame sendMessage_def Let_def split: option.splits)

lemma insert_pair_keeps:
  "insert_pair fault d p = Inr d' \<Longrightarrow>
     schema d' = schema d \<and> participant d' = participant d \<and> poll_mapping d' = poll_mapping d"
  by (auto simp: frame insert_pair_def split: option.splits if_splits)

lemma db_CreatePairs_keeps:
  "db_CreatePairs faults d ps = (err, d') \<Longrightarrow>
     schema d' = schema d \<and> participant d' = participant d \<and> poll_mapping d' = poll_mapping d"
proof (induction ps arbitrary: faults d)
  case Nil
  then show ?case by (simp add: frame)
next
  case (Cons p ps)
  show ?case
  proof (cases "insert_pair (case faults of [] \<Rightarrow> False | f # _ \<Rightarrow> f) d p")
    case (Inl e)
    with Cons.prems show ?thesis by (simp add: frame)
  next
    case (Inr d1)
    with Cons.prems have "db_CreatePairs (tl faults) d1 ps = (err, d')" by (simp add: frame)
    from Cons.IH [OF this] insert_pair_keeps [OF Inr] show ?thesis by (simp add: frame)
  qed
qed

lemma savePairsToDatabase_keeps:
  assumes "savePairsToDatabase e w finalPairs groupID = (err, w2)"
  shows "schema (DB w2) = schema (DB w) \<and> participant (DB w2) = participant (DB w)
     \<and> poll_mapping (DB w2) = poll_mapping (DB w)
     \<and> (\<exists>pairs. trace w2 = trace w @ [DBCall (Call_CreatePairs pairs)])"
proof -
  let ?pairs = "map (\<lambda>(k, fp).
                    \<lparr>Pair_ID = uuid_New e k, Pair_GroupID = groupID, WeekStart = getWeekStart (time_Now e),
                     User1ID = UserID (fst fp), User2ID = UserID (snd fp),
                     Pair_CreatedAt = time_Now e\<rparr>)
                  (enumerate 0 finalPairs)"
  obtain err' d where r: "db_CreatePairs (insert_fault e) (DB w) ?pairs = (err', d)"
    by (cases "db_CreatePairs (insert_fault e) (DB w) ?pairs")
  with assms have w2: "w2 = (emit (DBCall (Call_CreatePairs ?pairs)) w)\<lparr>DB := d\<rparr>"
    by (simp add: frame savePairsToDatabase_def Let_def)
  from db_CreatePairs_keeps [OF r] show ?thesis
    by (simp add: frame w2)
qed

lemma appendUnpairedMessage_keeps:
  assumes "appendUnpairedMessage e w message groupID usedUsers = (message', w3)"
  shows "DB w3 = DB w \<and> (\<exists>logs. trace w3 = trace w @ DBCall (Call_GetAllParticipants groupID) # logs
     \<and> (\<forall>ev \<in> set logs. \<exists>l s. ev = Log l s))"
  using assms
  by (cases "GetAllParticipants (db_fault e Op_GetAllParticipants) (DB w) groupID")
    (auto simp: frame appendUnpairedMessage_def Let_def split: if_splits)

lemma unpinAndCleanup_effect:
  "\<exists>mid post. trace (unpinAndCleanup e w groupID) =
       trace w @ mid @ DBCall (Call_ClearAllParticipants groupID) # post
     \<and> (\<forall>pm. GetPollMappingByGroupID (db_fault e Op_GetPollMappingByGroupID) (DB w) groupID
                 = Inr (Some pm)
            \<longrightarrow> UnpinChatMessage groupID (MessageID pm) \<in> set mid
                \<and> DBCall (Call_DeletePollMapping groupID) \<in> set mid)
     \<and> (\<not> db_fault e Op_ClearAllParticipants
          \<and> check_columns (schema (DB w)) ''participant'' [''group_id''] = None
            \<longrightarrow> participant (DB (unpinAndCleanup e w groupID))
                  = filter (\<lambda>r. GroupID r \<noteq> groupID) (participant (DB w)))"
proof -
  define w1 where "w1 = emit (DBCall (Call_GetPollMappingByGroupID groupID)) w"
  define w2 where "w2 =
    (case GetPollMappingByGroupID (db_fault e Op_GetPollMappingByGroupID) (DB w1) groupID of
                  Inl err \<Rightarrow> emit (Log Warn ''GetPollMappingByGroupID failed (no active poll)'') w1
                | Inr None \<Rightarrow> w1
                | Inr (Some pollMapping) \<Rightarrow>
                   (let u1 = emit (UnpinChatMessage groupID (MessageID pollMapping)) w1;
                        u2 = (if unpin_err e
                              then emit (Log Warn ''UnpinChatMessage failed (check bot permissions)'') u1
                              else emit (Log Info ''Poll message unpinned'') u1);
                        u3 = emit (DBCall (Call_DeletePollMapping groupID)) u2
                    in case DeletePollMapping (db_fault e Op_DeletePollMapping) (DB u3) groupID of
                         Inl err \<Rightarrow> emit (Log Warn ''DeletePollMapping failed'') u3
                       | Inr d \<Rightarrow> u3\<lparr>DB := d\<rparr>))"
  define w3 where "w3 = emit (DBCall (Call_ClearAllParticipants groupID)) w2"
  have u: "unpinAndCleanup e w groupID =
      (case ClearAllParticipants (db_fault e Op_ClearAllParticipants) (DB w3) groupID of
           Inl err \<Rightarrow> emit (Log Error ''ClearAllParticipants failed'') w3
         | Inr d \<Rightarrow> w3\<lparr>DB := d\<rparr>)"
    unfolding unpinAndCleanup_def w1_def w2_def w3_def Let_def ..
  have w2: "\<exists>mid. trace w2 = trace w @ mid
     \<and> (\<forall>pm. GetPollMappingByGroupID (db_fault e Op_GetPollMappingByGroupID) (DB w) groupID
                 = Inr (Some pm)
            \<longrightarrow> UnpinChatMessage groupID (MessageID pm) \<in> set mid
                \<and> DBCall (Call_DeletePollMapping groupID) \<in> set mid)
     \<and> schema (DB w2) = schema (DB w) \<and> participant (DB w2) = participant (DB w)"
  proof (cases "GetPollMappingByGroupID (db_fault e Op_GetPollMappingByGroupID) (DB w) groupID")
    case (Inl err)
    then show ?thesis by (simp add: frame w2_def w1_def)
  next
    case (Inr found)
    show ?thesis
    proof (cases found)
      case None
      with Inr show ?thesis by (simp add: frame w2_def w1_def)
    next
      case (Some pm)
      show ?thesis
      proof (cases "DeletePollMapping (db_fault e Op_DeletePollMapping) (DB w) groupID")
        case (Inl err)
        with Inr Some show ?thesis by (simp add: frame w2_def w1_def Let_def)
      next
        case del: (Inr d)
        from DeletePollMapping_result [OF del] Inr Some del show ?thesis
          by (simp add: frame w2_def w1_def Let_def)
      qed
    qed
  qed
  then obtain mid where mid: "trace w2 = trace w @ mid"
    "\<forall>pm. GetPollMappingByGroupID (db_fault e Op_GetPollMappingByGroupID) (DB w) groupID
                 = Inr (Some pm)
            \<longrightarrow> UnpinChatMessage groupID (MessageID pm) \<in> set mid
                \<and> DBCall (Call_DeletePollMapping groupID) \<in> set mid"
    and keep: "schema (DB w2) = schema (DB w)" "participant (DB w2) = participant (DB w)"
    by blast
  show ?thesis
  proof (cases "ClearAllParticipants (db_fault e Op_ClearAllParticipants) (DB w3) groupID")
    case (Inl err)
    then have tr: "trace (unpinAndCleanup e w groupID) =
        trace w @ mid @ DBCall (Call_ClearAllParticipants groupID) # [Log Error ''ClearAllParticipants failed'']"
      by (simp add: frame u w3_def mid(1))
    from Inl have "db_fault e Op_ClearAllParticipants
        \<or> check_columns (schema (DB w)) ''participant'' [''group_id''] \<noteq> None"
      by (auto simp: frame ClearAllParticipants_def prepare_def w3_def keep split: option.splits if_splits)
    with tr mid(2) have "trace (unpinAndCleanup e w groupID) =
       trace w @ mid @ DBCall (Call_ClearAllParticipants groupID) # [Log Error ''ClearAllParticipants failed'']
     \<and> (\<forall>pm. GetPollMappingByGroupID (db_fault e Op_GetPollMappingByGroupID) (DB w) groupID
                 = Inr (Some pm)
            \<longrightarrow> UnpinChatMessage groupID (MessageID pm) \<in> set mid
                \<and> DBCall (Call_DeletePollMapping groupID) \<in> set mid)
     \<and> (\<not> db_fault e Op_ClearAllParticipants
          \<and> check_columns (schema (DB w)) ''participant'' [''group_id''] = None
            \<longrightarrow> participant (DB (unpinAndCleanup e w groupID))
                  = filter (\<lambda>r. GroupID r \<noteq> groupID) (participant (DB w)))"
      by (auto simp: frame)
    then show ?thesis
      by (intro exI [of _ mid] exI [of _ "[Log Error ''ClearAllParticipants failed'']"])
  next
    case (Inr d)
    then have tr: "trace (unpinAndCleanup e w groupID) =
        trace w @ mid @ DBCall (Call_ClearAllParticipants groupID) # []"
      by (simp add: frame u w3_def mid(1))
    from Inr have "participant d = filter (\<lambda>r. GroupID r \<noteq> groupID) (participant (DB w))"
      by (auto simp: frame ClearAllParticipants_def w3_def keep split: option.splits)
    with Inr have "participant (DB (unpinAndCleanup e w groupID))
                  = filter (\<lambda>r. GroupID r \<noteq> groupID) (participant (DB w))"
      by (simp add: frame u)
    with tr mid(2) have "trace (unpinAndCleanup e w groupID) =
       trace w @ mid @ DBCall (Call_ClearAllParticipants groupID) # []
     \<and> (\<forall>pm. GetPollMappingByGroupID (db_fault e Op_GetPollMappingByGroupID) (DB w) groupID
                 = Inr (Some pm)
            \<longrightarrow> UnpinChatMessage groupID (MessageID pm) \<in> set mid
                \<and> DBCall (Call_DeletePollMapping groupID) \<in> set mid)
     \<and> (\<not> db_fault e Op_ClearAllParticipants
          \<and> check_columns (schema (DB w)) ''participant'' [''group_id''] = None
            \<longrightarrow> participant (DB (unpinAndCleanup e w groupID))
                  = filter (\<lambda>r. GroupID r \<noteq> groupID) (participant (DB w)))"
      by (auto simp: frame)
    then show ?thesis
      by (intro exI [of _ mid] exI [of _ "[]"])
  qed
qed

lemma GetPollMappingByGroupID_cong:
  "schema d' = schema d \<Longrightarrow> poll_mapping d' = poll_mapping d
     \<Longrightarrow> GetPollMappingByGroupID fault d' groupID = GetPollMappingByGroupID fault d groupID"
  by (simp add: frame GetPollMappingByGroupID_def split: option.splits)

lemma events_since_append: "trace w' = trace w @ evs \<Longrightarrow> events_since w w' = evs"
  by (simp add: frame events_since_def)

text \<open>
  C3, as the code has it. In a run of \<open>CreatePairs\<close> that selected at least one pair:
  when the pairs were persisted, the summary message is sent and, whatever the outcome
  of the send, of the mapping lookup, of the unpin and of the mapping deletion,
  \<open>ClearAllParticipants\<close> is called; when the lookup finds a mapping the unpin and
  the mapping deletion are both called; and when the clearing statement does not fail
  the group's participant pool is empty afterwards. When persisting the pairs fails,
  the run logs the failure, sends the error message and returns: after the two database
  calls for the candidates and the INSERTs it makes no other call but the send and
  its log records, so no poll mapping is looked up, no message is unpinned, no poll
  mapping is deleted and \<open>ClearAllParticipants\<close> is not called; the participants
  and the poll mappings stay.
\<close>

theorem CreatePairs_cleanup:
  assumes avail: "GetAvailablePairs (db_fault e Op_GetAvailablePairs) (order_by_random e) (DB w) groupID
                    = Inr availablePairs"
    and sel: "fst (filterUniquePairs availablePairs) \<noteq> []"
  shows "let finalPairs = fst (filterUniquePairs availablePairs);
             saved = savePairsToDatabase e (emit (DBCall (Call_GetAvailablePairs groupID)) w)
                       finalPairs groupID;
             new = events_since w (CreatePairs e w groupID)
         in (fst saved = None \<longrightarrow>
               (\<exists>summary. SendMessage summary groupID \<in> set new)
               \<and> DBCall (Call_ClearAllParticipants groupID) \<in> set new
               \<and> (\<forall>pm. GetPollMappingByGroupID (db_fault e Op_GetPollMappingByGroupID) (DB w) groupID
                           = Inr (Some pm)
                      \<longrightarrow> UnpinChatMessage groupID (MessageID pm) \<in> set new
                          \<and> DBCall (Call_DeletePollMapping groupID) \<in> set new)
               \<and> (\<not> db_fault e Op_ClearAllParticipants
                    \<longrightarrow> filter (\<lambda>r. GroupID r = groupID)
                          (participant (DB (CreatePairs e w groupID))) = []))
          \<and> (fst saved \<noteq> None \<longrightarrow>
               (\<exists>pairs logs.
                   new = [DBCall (Call_GetAvailablePairs groupID), DBCall (Call_CreatePairs pairs),
                          Log Error ''CreatePairs failed'', SendMessage msg_save_failed groupID] @ logs
                   \<and> (\<forall>ev \<in> set logs. \<exists>l s. ev = Log l s))
               \<and> (\<forall>g. DBCall (Call_GetPollMappingByGroupID g) \<notin> set new)
               \<and> (\<forall>g m. UnpinChatMessage g m \<notin> set new)
               \<and> (\<forall>g. DBCall (Call_DeletePollMapping g) \<notin> set new)
               \<and> (\<forall>g. DBCall (Call_ClearAllParticipants g) \<notin> set new)
               \<and> SendMessage msg_save_failed groupID \<in> set new
               \<and> participant (DB (CreatePairs e w groupID)) = participant (DB w)
               \<and> poll_mapping (DB (CreatePairs e w groupID)) = poll_mapping (DB w))"
proof -
  define w1 where "w1 = emit (DBCall (Call_GetAvailablePairs groupID)) w"
  have d1: "DB w1 = DB w" by (simp add: frame w1_def)
  obtain finalPairs usedUsers where f: "filterUniquePairs availablePairs = (finalPairs, usedUsers)"
    by (cases "filterUniquePairs availablePairs")
  with sel have ne: "finalPairs \<noteq> []" by (simp add: frame)
  have ane: "availablePairs \<noteq> []"
    using f ne by (auto simp: frame filterUniquePairs_def)
  obtain err w2 where s: "savePairsToDatabase e w1 finalPairs groupID = (err, w2)"
    by (cases "savePairsToDatabase e w1 finalPairs groupID")
  from savePairsToDatabase_keeps [OF s] obtain pairs where
    k2: "schema (DB w2) = schema (DB w)" "participant (DB w2) = participant (DB w)"
        "poll_mapping (DB w2) = poll_mapping (DB w)"
    and t2: "trace w2 = trace w @ [DBCall (Call_GetAvailablePairs groupID), DBCall (Call_CreatePairs pairs)]"
    by (auto simp: frame w1_def)
  have cols: "check_columns (schema (DB w)) ''participant'' [''group_id''] = None"
  proof -
    from avail have "check_columns (schema (DB w)) ''participant'' participant_columns = None"
      by (auto simp: frame GetAvailablePairs_def prepare_def split: option.splits if_splits)
    then show ?thesis
      by (rule check_columns_mono) (simp add: frame participant_columns_def)
  qed
  show ?thesis
  proof (cases err)
    case (Some failure)
    have cp: "CreatePairs e w groupID =
        sendMessage e msg_save_failed groupID (emit (Log Error ''CreatePairs failed'') w2)"
      using avail f ne ane s Some by (simp add: frame CreatePairs_def Let_def w1_def [symmetric] d1)
    obtain logs where tr: "trace (CreatePairs e w groupID) =
        trace w @ [DBCall (Call_GetAvailablePairs groupID), DBCall (Call_CreatePairs pairs),
                   Log Error ''CreatePairs failed'', SendMessage msg_save_failed groupID] @ logs"
      and logs: "\<forall>ev \<in> set logs. \<exists>l s. ev = Log l s"
      using trace_sendMessage [of e msg_save_failed groupID "emit (Log Error ''CreatePairs failed'') w2"]
      by (auto simp: frame cp t2)
    define new where "new = events_since w (CreatePairs e w groupID)"
    have new: "new =
        [DBCall (Call_GetAvailablePairs groupID), DBCall (Call_CreatePairs pairs),
         Log Error ''CreatePairs failed'', SendMessage msg_save_failed groupID] @ logs"
      unfolding new_def by (rule events_since_append) (simp add: frame tr)
    then have shape: "\<exists>pairs logs.
        new = [DBCall (Call_GetAvailablePairs groupID), DBCall (Call_CreatePairs pairs),
               Log Error ''CreatePairs failed'', SendMessage msg_save_failed groupID] @ logs
        \<and> (\<forall>ev \<in> set logs. \<exists>l s. ev = Log l s)"
      using logs by blast
    have n1: "DBCall (Call_GetPollMappingByGroupID g) \<notin> set new" for g
      using logs unfolding new by auto
    have n2: "UnpinChatMessage g m \<notin> set new" for g m
      using logs unfolding new by auto
    have n3: "DBCall (Call_DeletePollMapping g) \<notin> set new" for g
      using logs unfolding new by auto
    have n4: "DBCall (Call_ClearAllParticipants g) \<notin> set new" for g
      using logs unfolding new by auto
    have n5: "SendMessage msg_save_failed groupID \<in> set new"
      unfolding new by simp
    have db: "participant (DB (CreatePairs e w groupID)) = participant (DB w)"
      "poll_mapping (DB (CreatePairs e w groupID)) = poll_mapping (DB w)"
      by (simp_all add: frame cp k2)
    from shape n1 n2 n3 n4 n5 db
    have "(\<exists>pairs logs.
              new = [DBCall (Call_GetAvailablePairs groupID), DBCall (Call_CreatePairs pairs),
                     Log Error ''CreatePairs failed'', SendMessage msg_save_failed groupID] @ logs
              \<and> (\<forall>ev \<in> set logs. \<exists>l s. ev = Log l s))
          \<and> (\<forall>g. DBCall (Call_GetPollMappingByGroupID g) \<notin> set new)
          \<and> (\<forall>g m. UnpinChatMessage g m \<notin> set new)
          \<and> (\<forall>g. DBCall (Call_DeletePollMapping g) \<notin> set new)
          \<and> (\<forall>g. DBCall (Call_ClearAllParticipants g) \<notin> set new)
          \<and> SendMessage msg_save_failed groupID \<in> set new
          \<and> participant (DB (CreatePairs e w groupID)) = participant (DB w)
          \<and> poll_mapping (DB (CreatePairs e w groupID)) = poll_mapping (DB w)"
      by blast
    with Some show ?thesis
      unfolding new_def by (simp add: frame Let_def f w1_def [symmetric] s)
  next
    case None
    obtain message w3 where a: "appendUnpairedMessage e w2 (buildPairsMessage finalPairs) groupID usedUsers
        = (message, w3)"
      by (cases "appendUnpairedMessage e w2 (buildPairsMessage finalPairs) groupID usedUsers")
    from appendUnpairedMessage_keeps [OF a] obtain logs3 where
      k3: "DB w3 = DB w2" and t3: "trace w3 = trace w2 @ DBCall (Call_GetAllParticipants groupID) # logs3"
      by blast
    define w4 where "w4 = sendMessage e (truncateMessage message) groupID w3"
    obtain logs4 where t4: "trace w4 = trace w3 @ SendMessage (truncateMessage message) groupID # logs4"
      using trace_sendMessage [of e "truncateMessage message" groupID w3] by (auto simp: frame w4_def)
    have k4: "DB w4 = DB w2" by (simp add: frame w4_def k3)
    have cp: "CreatePairs e w groupID =
        emit (Log Info ''Pairs created successfully'') (unpinAndCleanup e w4 groupID)"
      using avail f ne ane s None a
      by (simp add: frame CreatePairs_def Let_def w1_def [symmetric] d1 w4_def)
    from unpinAndCleanup_effect [of e w4 groupID] obtain mid post where
      t5: "trace (unpinAndCleanup e w4 groupID) =
             trace w4 @ mid @ DBCall (Call_ClearAllParticipants groupID) # post"
      and m5: "\<forall>pm. GetPollMappingByGroupID (db_fault e Op_GetPollMappingByGroupID) (DB w4) groupID
                 = Inr (Some pm)
            \<longrightarrow> UnpinChatMessage groupID (MessageID pm) \<in> set mid
                \<and> DBCall (Call_DeletePollMapping groupID) \<in> set mid"
      and p5: "\<not> db_fault e Op_ClearAllParticipants
          \<and> check_columns (schema (DB w4)) ''participant'' [''group_id''] = None
            \<longrightarrow> participant (DB (unpinAndCleanup e w4 groupID))
                  = filter (\<lambda>r. GroupID r \<noteq> groupID) (participant (DB w4))"
      by blast
    have look: "GetPollMappingByGroupID fault (DB w4) groupID
        = GetPollMappingByGroupID fault (DB w) groupID" for fault
      by (rule GetPollMappingByGroupID_cong) (simp_all add: frame k4 k2)
    have new: "events_since w (CreatePairs e w groupID) =
        [DBCall (Call_GetAvailablePairs groupID), DBCall (Call_CreatePairs pairs)]
        @ DBCall (Call_GetAllParticipants groupID) # logs3
        @ SendMessage (truncateMessage message) groupID # logs4
        @ mid @ DBCall (Call_ClearAllParticipants groupID) # post
        @ [Log Info ''Pairs created successfully'']"
      by (rule events_since_append) (simp add: frame cp t5 t4 t3 t2)
    have sent: "\<exists>summary. SendMessage summary groupID \<in> set (events_since w (CreatePairs e w groupID))"
      unfolding new by (rule exI [of _ "truncateMessage message"]) simp
    have clear: "DBCall (Call_ClearAllParticipants groupID) \<in> set (events_since w (CreatePairs e w groupID))"
      unfolding new by (simp add: frame)
    have unpin: "\<forall>pm. GetPollMappingByGroupID (db_fault e Op_GetPollMappingByGroupID) (DB w) groupID
                           = Inr (Some pm)
                      \<longrightarrow> UnpinChatMessage groupID (MessageID pm) \<in> set (events_since w (CreatePairs e w groupID))
                          \<and> DBCall (Call_DeletePollMapping groupID) \<in> set (events_since w (CreatePairs e w groupID))"
      using m5 unfolding new look by (auto simp: frame)
    have empty: "filter (\<lambda>r. GroupID r = groupID) (participant (DB (CreatePairs e w groupID))) = []"
      if "\<not> db_fault e Op_ClearAllParticipants"
    proof -
      from that p5 cols have "participant (DB (unpinAndCleanup e w4 groupID))
                  = filter (\<lambda>r. GroupID r \<noteq> groupID) (participant (DB w))"
        by (simp add: frame k4 k2)
      then show ?thesis by (simp add: frame cp filter_empty_conv)
    qed
    from None sent clear unpin empty show ?thesis
      by (simp add: frame Let_def f w1_def [symmetric] s)
  qed
qed

lemma week_start_0: "getWeekStart 0 = - 3"
  by (simp add: frame getWeekStart_def Weekday_def AddDate_days_def ns_per_day_def Let_def)

lemma itoa_0: "itoa 0 = ''0''"
  by (simp add: frame itoa_def)

lemma avail_300:
  "GetAvailablePairs False (\<lambda>xs. xs) week_db (- 300) = Inr [(erin, frank)]"
  by (simp add: frame GetAvailablePairs_def week_db_def db_defs available_users_def
        in_history_def person_defs scan_participant_def)

lemma select_300: "filterUniquePairs [(erin, frank)] = ([(erin, frank)], [5 \<mapsto> True, 6 \<mapsto> True])"
  by (simp add: frame filterUniquePairs_def lookup_bool_def person_defs)

lemma save_300:
  "savePairsToDatabase save_fails_env (emit (DBCall (Call_GetAvailablePairs (- 300))) week_world)
      [(erin, frank)] (- 300)
   = (Some DriverError,
      \<lparr>DB = week_db,
       trace = [DBCall (Call_GetAvailablePairs (- 300)),
                DBCall (Call_CreatePairs
                  [\<lparr>Pair_ID = ''uuid-0'', Pair_GroupID = - 300, WeekStart = - 3, User1ID = 5,
                    User2ID = 6, Pair_CreatedAt = 0\<rparr>])]\<rparr>)"
  by (simp add: frame savePairsToDatabase_def Let_def save_fails_env_def quiet_env_def week_start_0 itoa_0
      week_world_def emit_def insert_pair_def prepare_def person_defs)

theorem CreatePairs_save_failure_counterexample:
  "GetAvailablePairs (db_fault save_fails_env Op_GetAvailablePairs) (order_by_random save_fails_env)
      (DB week_world) (- 300) = Inr [(erin, frank)]
   \<and> fst (filterUniquePairs [(erin, frank)]) = [(erin, frank)]
   \<and> trace (CreatePairs save_fails_env week_world (- 300)) =
        [DBCall (Call_GetAvailablePairs (- 300)),
         DBCall (Call_CreatePairs
           [\<lparr>Pair_ID = ''uuid-0'', Pair_GroupID = - 300, WeekStart = - 3, User1ID = 5,
             User2ID = 6, Pair_CreatedAt = 0\<rparr>]),
         Log Error ''CreatePairs failed'',
         SendMessage msg_save_failed (- 300)]
   \<and> DBCall (Call_ClearAllParticipants (- 300))
        \<notin> set (trace (CreatePairs save_fails_env week_world (- 300)))
   \<and> rows_of (DB (CreatePairs save_fails_env week_world (- 300))) (- 300) 5 = [erin]
   \<and> rows_of (DB (CreatePairs save_fails_env week_world (- 300))) (- 300) 6 = [frank]
   \<and> GetPollMappingByGroupID False (DB week_world) (- 300)
        = Inr (Some \<lparr>PollID = ''poll9'', PM_GroupID = - 300, MessageID = 9\<rparr>)
   \<and> UnpinChatMessage (- 300) 9 \<notin> set (trace (CreatePairs save_fails_env week_world (- 300)))
   \<and> DBCall (Call_DeletePollMapping (- 300))
        \<notin> set (trace (CreatePairs save_fails_env week_world (- 300)))
   \<and> poll_mapping (DB (CreatePairs save_fails_env week_world (- 300)))
        = [\<lparr>PollID = ''poll9'', PM_GroupID = - 300, MessageID = 9\<rparr>]"
proof -
  have a: "GetAvailablePairs (db_fault save_fails_env Op_GetAvailablePairs)
      (order_by_random save_fails_env) (DB week_world) (- 300) = Inr [(erin, frank)]"
    using avail_300 by (simp add: frame save_fails_env_def quiet_env_def week_world_def)
  have se: "send_message_err save_fails_env = None"
    by (simp add: frame save_fails_env_def quiet_env_def)
  have r: "CreatePairs save_fails_env week_world (- 300) =
      \<lparr>DB = week_db,
       trace = [DBCall (Call_GetAvailablePairs (- 300)),
         DBCall (Call_CreatePairs
           [\<lparr>Pair_ID = ''uuid-0'', Pair_GroupID = - 300, WeekStart = - 3, User1ID = 5,
             User2ID = 6, Pair_CreatedAt = 0\<rparr>]),
         Log Error ''CreatePairs failed'',
         SendMessage msg_save_failed (- 300)]\<rparr>"
  proof -
    have "CreatePairs save_fails_env week_world (- 300) =
      sendMessage save_fails_env msg_save_failed (- 300)
        (emit (Log Error ''CreatePairs failed'')
          \<lparr>DB = week_db,
           trace = [DBCall (Call_GetAvailablePairs (- 300)),
                DBCall (Call_CreatePairs
                  [\<lparr>Pair_ID = ''uuid-0'', Pair_GroupID = - 300, WeekStart = - 3, User1ID = 5,
                    User2ID = 6, Pair_CreatedAt = 0\<rparr>])]\<rparr>)"
      by (simp add: frame CreatePairs_def Let_def a select_300 save_300)
    then show ?thesis
      by (simp add: frame sendMessage_def se emit_def)
  qed
  have p: "rows_of week_db (- 300) 5 = [erin]" "rows_of week_db (- 300) 6 = [frank]"
    by (simp_all add: frame rows_of_def week_db_def person_defs)
  have m: "GetPollMappingByGroupID False (DB week_world) (- 300)
        = Inr (Some \<lparr>PollID = ''poll9'', PM_GroupID = - 300, MessageID = 9\<rparr>)"
    "poll_mapping week_db = [\<lparr>PollID = ''poll9'', PM_GroupID = - 300, MessageID = 9\<rparr>]"
    by (simp_all add: GetPollMappingByGroupID_def week_world_def week_db_def db_defs)
  from a select_300 p m show ?thesis
    by (simp add: frame r)
qed

theorem CreatePairs_cleanup_witness:
  "GetAvailablePairs (db_fault kicked_env Op_GetAvailablePairs) (order_by_random kicked_env)
      (DB poll_world) (- 100) = Inr [(alice, carol), (bob, carol)]
   \<and> fst (filterUniquePairs [(alice, carol), (bob, carol)]) = [(alice, carol)]
   \<and> fst (savePairsToDatabase kicked_env (emit (DBCall (Call_GetAvailablePairs (- 100))) poll_world)
            [(alice, carol)] (- 100)) = None
   \<and> send_message_err kicked_env = Some ''Forbidden: bot was kicked from the group chat''
   \<and> unpin_err kicked_env
   \<and> GetPollMappingByGroupID (db_fault kicked_env Op_GetPollMappingByGroupID) (DB poll_world) (- 100)
        = Inr (Some \<lparr>PollID = ''poll1'', PM_GroupID = - 100, MessageID = 7\<rparr>)
   \<and> (\<exists>summary. SendMessage summary (- 100)
          \<in> set (events_since poll_world (CreatePairs kicked_env poll_world (- 100))))
   \<and> UnpinChatMessage (- 100) 7
        \<in> set (events_since poll_world (CreatePairs kicked_env poll_world (- 100)))
   \<and> DBCall (Call_DeletePollMapping (- 100))
        \<in> set (events_since poll_world (CreatePairs kicked_env poll_world (- 100)))
   \<and> DBCall (Call_ClearAllParticipants (- 100))
        \<in> set (events_since poll_world (CreatePairs kicked_env poll_world (- 100)))
   \<and> filter (\<lambda>r. GroupID r = - 100) (participant (DB (CreatePairs kicked_env poll_world (- 100)))) = []
   \<and> GetAvailablePairs (db_fault save_fails_env Op_GetAvailablePairs) (order_by_random save_fails_env)
        (DB week_world) (- 300) = Inr [(erin, frank)]
   \<and> fst (filterUniquePairs [(erin, frank)]) = [(erin, frank)]
   \<and> fst (savePairsToDatabase save_fails_env (emit (DBCall (Call_GetAvailablePairs (- 300))) week_world)
            [(erin, frank)] (- 300)) = Some DriverError
   \<and> \<not> (\<exists>ev \<in> set (events_since week_world (CreatePairs save_fails_env week_world (- 300))).
           ev = DBCall (Call_GetPollMappingByGroupID (- 300)) \<or> ev = UnpinChatMessage (- 300) 9
           \<or> ev = DBCall (Call_DeletePollMapping (- 300))
           \<or> ev = DBCall (Call_ClearAllParticipants (- 300)))
   \<and> SendMessage msg_save_failed (- 300)
        \<in> set (events_since week_world (CreatePairs save_fails_env week_world (- 300)))
   \<and> participant (DB (CreatePairs save_fails_env week_world (- 300))) = participant (DB week_world)
   \<and> poll_mapping (DB (CreatePairs save_fails_env week_world (- 300))) = poll_mapping (DB week_world)"
proof -
  have e: "db_fault kicked_env op = False" "order_by_random kicked_env = (\<lambda>xs. xs)"
    "insert_fault kicked_env = []" "uuid_New kicked_env 0 = ''uuid-0''" "time_Now kicked_env = 0"
    "send_message_err kicked_env = Some ''Forbidden: bot was kicked from the group chat''"
    "unpin_err kicked_env" for op
    by (simp_all add: frame kicked_env_def quiet_env_def itoa_0)
  have h1: "GetAvailablePairs (db_fault kicked_env Op_GetAvailablePairs) (order_by_random kicked_env)
      (DB poll_world) (- 100) = Inr [(alice, carol), (bob, carol)]"
    by (simp add: frame e GetAvailablePairs_def poll_world_def history_db_def db_defs available_users_def
        in_history_def person_defs scan_participant_def)
  have f: "fst (filterUniquePairs [(alice, carol), (bob, carol)]) = [(alice, carol)]"
    by (simp add: frame filterUniquePairs_def lookup_bool_def person_defs)
  then have h2: "fst (filterUniquePairs [(alice, carol), (bob, carol)]) \<noteq> []"
    by (simp add: frame)
  have s: "fst (savePairsToDatabase kicked_env (emit (DBCall (Call_GetAvailablePairs (- 100))) poll_world)
            [(alice, carol)] (- 100)) = None"
    by (simp add: frame savePairsToDatabase_def Let_def e week_start_0 poll_world_def history_db_def
        db_defs emit_def insert_pair_def person_defs split: prod.splits)
  have l: "GetPollMappingByGroupID (db_fault kicked_env Op_GetPollMappingByGroupID) (DB poll_world) (- 100)
        = Inr (Some \<lparr>PollID = ''poll1'', PM_GroupID = - 100, MessageID = 7\<rparr>)"
    by (simp add: frame e GetPollMappingByGroupID_def poll_world_def history_db_def db_defs)
  from CreatePairs_cleanup [OF h1 h2] f s l e(1) [of Op_ClearAllParticipants]
  have c: "(\<exists>summary. SendMessage summary (- 100)
          \<in> set (events_since poll_world (CreatePairs kicked_env poll_world (- 100))))
   \<and> UnpinChatMessage (- 100) 7
        \<in> set (events_since poll_world (CreatePairs kicked_env poll_world (- 100)))
   \<and> DBCall (Call_DeletePollMapping (- 100))
        \<in> set (events_since poll_world (CreatePairs kicked_env poll_world (- 100)))
   \<and> DBCall (Call_ClearAllParticipants (- 100))
        \<in> set (events_since poll_world (CreatePairs kicked_env poll_world (- 100)))
   \<and> filter (\<lambda>r. GroupID r = - 100) (participant (DB (CreatePairs kicked_env poll_world (- 100)))) = []"
    by (simp add: frame Let_def)
  have g1: "GetAvailablePairs (db_fault save_fails_env Op_GetAvailablePairs)
      (order_by_random save_fails_env) (DB week_world) (- 300) = Inr [(erin, frank)]"
    using avail_300 by (simp add: frame save_fails_env_def quiet_env_def week_world_def)
  have g2: "fst (filterUniquePairs [(erin, frank)]) = [(erin, frank)]"
    by (simp add: select_300)
  then have g2': "fst (filterUniquePairs [(erin, frank)]) \<noteq> []"
    by simp
  have g3: "fst (savePairsToDatabase save_fails_env
                   (emit (DBCall (Call_GetAvailablePairs (- 300))) week_world)
                   [(erin, frank)] (- 300)) = Some DriverError"
    by (simp add: save_300)
  from CreatePairs_cleanup [OF g1 g2'] g2 g3
  have k: "(\<forall>g. DBCall (Call_GetPollMappingByGroupID g)
               \<notin> set (events_since week_world (CreatePairs save_fails_env week_world (- 300))))
     \<and> (\<forall>g m. UnpinChatMessage g m
               \<notin> set (events_since week_world (CreatePairs save_fails_env week_world (- 300))))
     \<and> (\<forall>g. DBCall (Call_DeletePollMapping g)
               \<notin> set (events_since week_world (CreatePairs save_fails_env week_world (- 300))))
     \<and> (\<forall>g. DBCall (Call_ClearAllParticipants g)
               \<notin> set (events_since week_world (CreatePairs save_fails_env week_world (- 300))))
     \<and> SendMessage msg_save_failed (- 300)
          \<in> set (events_since week_world (CreatePairs save_fails_env week_world (- 300)))
     \<and> participant (DB (CreatePairs save_fails_env week_world (- 300))) = participant (DB week_world)
     \<and> poll_mapping (DB (CreatePairs save_fails_env week_world (- 300))) = poll_mapping (DB week_world)"
    by (simp add: Let_def)
  then have k1: "\<not> (\<exists>ev \<in> set (events_since week_world (CreatePairs save_fails_env week_world (- 300))).
           ev = DBCall (Call_GetPollMappingByGroupID (- 300)) \<or> ev = UnpinChatMessage (- 300) 9
           \<or> ev = DBCall (Call_DeletePollMapping (- 300))
           \<or> ev = DBCall (Call_ClearAllParticipants (- 300)))"
    by blast
  from k have k2: "SendMessage msg_save_failed (- 300)
        \<in> set (events_since week_world (CreatePairs save_fails_env week_world (- 300)))"
    "participant (DB (CreatePairs save_fails_env week_world (- 300))) = participant (DB week_world)"
    "poll_mapping (DB (CreatePairs save_fails_env week_world (- 300))) = poll_mapping (DB week_world)"
    by simp_all
  from h1 f s e(6,7) l c g1 g2 g3 k1 k2 show ?thesis by (intro conjI) simp_all
qed

section \<open>Commands and the admin check\<close>

text \<open>
  C7, as the code has it. A command is recognised by equality of the whole message text.
  In a chat that is not private, \<open>/create_pairs\<close> and \<open>/send_quiz\<close> run the pairing and
  the quiz workflow for the chat when the sender is an admin; a sender who is not an admin,
  or any other text, changes nothing. In a private chat, \<open>/groups\<close> lists the configured
  groups for an admin and answers a non-admin with the access-denied text; \<open>/start\<close> is
  answered with the help text for every sender, admin or not; any other text gets the
  unknown-command reply. Private commands leave the database as it is.
\<close>

theorem commands_admin_gate:
  assumes "From message = Some sender"
  shows
    "(\<not> isAdmin cfg (User_ID sender) \<longrightarrow> HandleGroupCommand cfg e w message = w)
     \<and> (Text message \<noteq> ''/create_pairs'' \<and> Text message \<noteq> ''/send_quiz''
          \<longrightarrow> HandleGroupCommand cfg e w message = w)
     \<and> (isAdmin cfg (User_ID sender) \<and> Text message = ''/create_pairs''
          \<longrightarrow> HandleGroupCommand cfg e w message =
                CreatePairs e (emit (Log Info ''Manual create_pairs command'') w) (Chat_ID (Chat message)))
     \<and> (isAdmin cfg (User_ID sender) \<and> Text message = ''/send_quiz''
          \<longrightarrow> HandleGroupCommand cfg e w message =
                SendQuiz e (emit (Log Info ''Manual send_quiz command'') w) (Chat_ID (Chat message)))
     \<and> DB (HandlePrivateCommand cfg e w message) = DB w
     \<and> (Text message = ''/start''
          \<longrightarrow> sent_messages (HandlePrivateCommand cfg e w message)
                = sent_messages w @ [(msg_start, Chat_ID (Chat message))])
     \<and> (Text message = ''/groups'' \<and> \<not> isAdmin cfg (User_ID sender)
          \<longrightarrow> sent_messages (HandlePrivateCommand cfg e w message)
                = sent_messages w @ [(msg_access_denied, Chat_ID (Chat message))])
     \<and> (Text message = ''/groups'' \<and> isAdmin cfg (User_ID sender)
          \<longrightarrow> sent_messages (HandlePrivateCommand cfg e w message)
                = sent_messages w @
                    [(if configuredGroups cfg = [] then msg_no_groups
                      else groups_listing (configuredGroups cfg), Chat_ID (Chat message))])
     \<and> (Text message \<noteq> ''/start'' \<and> Text message \<noteq> ''/groups''
          \<longrightarrow> sent_messages (HandlePrivateCommand cfg e w message)
                = sent_messages w @ [(msg_unknown_command, Chat_ID (Chat message))])"
proof -
  have g: "(\<not> isAdmin cfg (User_ID sender) \<longrightarrow> HandleGroupCommand cfg e w message = w)
     \<and> (Text message \<noteq> ''/create_pairs'' \<and> Text message \<noteq> ''/send_quiz''
          \<longrightarrow> HandleGroupCommand cfg e w message = w)
     \<and> (isAdmin cfg (User_ID sender) \<and> Text message = ''/create_pairs''
          \<longrightarrow> HandleGroupCommand cfg e w message =
                CreatePairs e (emit (Log Info ''Manual create_pairs command'') w) (Chat_ID (Chat message)))
     \<and> (isAdmin cfg (User_ID sender) \<and> Text message = ''/send_quiz''
          \<longrightarrow> HandleGroupCommand cfg e w message =
                SendQuiz e (emit (Log Info ''Manual send_quiz command'') w) (Chat_ID (Chat message)))"
    using assms by (simp add: HandleGroupCommand_def Let_def)
  have d: "DB (HandlePrivateCommand cfg e w message) = DB w"
    using assms by (simp add: HandlePrivateCommand_def Let_def DB_sendMessage)
  have p: "(Text message = ''/start''
          \<longrightarrow> sent_messages (HandlePrivateCommand cfg e w message)
                = sent_messages w @ [(msg_start, Chat_ID (Chat message))])
     \<and> (Text message = ''/groups'' \<and> \<not> isAdmin cfg (User_ID sender)
          \<longrightarrow> sent_messages (HandlePrivateCommand cfg e w message)
                = sent_messages w @ [(msg_access_denied, Chat_ID (Chat message))])
     \<and> (Text message = ''/groups'' \<and> isAdmin cfg (User_ID sender)
          \<longrightarrow> sent_messages (HandlePrivateCommand cfg e w message)
                = sent_messages w @
                    [(if configuredGroups cfg = [] then msg_no_groups
                      else groups_listing (configuredGroups cfg), Chat_ID (Chat message))])
     \<and> (Text message \<noteq> ''/start'' \<and> Text message \<noteq> ''/groups''
          \<longrightarrow> sent_messages (HandlePrivateCommand cfg e w message)
                = sent_messages w @ [(msg_unknown_command, Chat_ID (Chat message))])"
    using assms
    by (simp add: HandlePrivateCommand_def Let_def sent_sendMessage groups_listing_def)
  from g d p show ?thesis by blast
qed

theorem private_start_counterexample:
  "\<not> isAdmin demo_config (User_ID user_zed)
   \<and> sent_messages (HandlePrivateCommand demo_config quiet_env poll_world
        \<lparr>From = Some user_zed, Chat = \<lparr>Chat_ID = 26, Chat_Type = ''private''\<rparr>, Text = ''/start''\<rparr>)
      = [(msg_start, 26)]
   \<and> sent_messages (Update demo_config quiet_env poll_world
        \<lparr>U_PollAnswer = None,
         U_Message = Some \<lparr>From = Some user_zed, Chat = \<lparr>Chat_ID = 26, Chat_Type = ''private''\<rparr>,
                           Text = ''/start''\<rparr>\<rparr>)
      = [(msg_start, 26)]"
  by (simp add: isAdmin_def lookup_bool_def demo_config_def user_zed_def Update_def
      HandlePrivateCommand_def sendMessage_def quiet_env_def poll_world_def sent_messages_def emit_def)

theorem commands_admin_gate_witness:
  "From \<lparr>From = Some user_zed, Chat = \<lparr>Chat_ID = - 100, Chat_Type = ''supergroup''\<rparr>,
          Text = ''/create_pairs''\<rparr> = Some user_zed
   \<and> \<not> isAdmin demo_config (User_ID user_zed)
   \<and> HandleGroupCommand demo_config quiet_env poll_world
        \<lparr>From = Some user_zed, Chat = \<lparr>Chat_ID = - 100, Chat_Type = ''supergroup''\<rparr>,
         Text = ''/create_pairs''\<rparr> = poll_world
   \<and> isAdmin demo_config (User_ID user_alice)
   \<and> HandleGroupCommand demo_config quiet_env poll_world
        \<lparr>From = Some user_alice, Chat = \<lparr>Chat_ID = - 100, Chat_Type = ''supergroup''\<rparr>,
         Text = ''/Create_pairs''\<rparr> = poll_world
   \<and> HandleGroupCommand demo_config quiet_env poll_world
        \<lparr>From = Some user_alice, Chat = \<lparr>Chat_ID = - 100, Chat_Type = ''supergroup''\<rparr>,
         Text = ''/send_quiz''\<rparr>
      = SendQuiz quiet_env (emit (Log Info ''Manual send_quiz command'') poll_world) (- 100)
   \<and> sent_messages (HandlePrivateCommand demo_config quiet_env poll_world
        \<lparr>From = Some user_zed, Chat = \<lparr>Chat_ID = 26, Chat_Type = ''private''\<rparr>, Text = ''/groups''\<rparr>)
      = [(msg_access_denied, 26)]
   \<and> sent_messages (HandlePrivateCommand demo_config quiet_env poll_world
        \<lparr>From = Some user_alice, Chat = \<lparr>Chat_ID = 1, Chat_Type = ''private''\<rparr>, Text = ''/groups''\<rparr>)
      = [(msg_groups_header @ msg_group_bullet @ ''-100'' @ [CHR 0x0A]
            @ msg_group_bullet @ ''-300'' @ [CHR 0x0A], 1)]"
proof -
  let ?m1 = "\<lparr>From = Some user_zed, Chat = \<lparr>Chat_ID = - 100, Chat_Type = ''supergroup''\<rparr>,
          Text = ''/create_pairs''\<rparr>"
  let ?m2 = "\<lparr>From = Some user_alice, Chat = \<lparr>Chat_ID = - 100, Chat_Type = ''supergroup''\<rparr>,
         Text = ''/Create_pairs''\<rparr>"
  let ?m3 = "\<lparr>From = Some user_alice, Chat = \<lparr>Chat_ID = - 100, Chat_Type = ''supergroup''\<rparr>,
         Text = ''/send_quiz''\<rparr>"
  let ?m4 = "\<lparr>From = Some user_zed, Chat = \<lparr>Chat_ID = 26, Chat_Type = ''private''\<rparr>, Text = ''/groups''\<rparr>"
  let ?m5 = "\<lparr>From = Some user_alice, Chat = \<lparr>Chat_ID = 1, Chat_Type = ''private''\<rparr>, Text = ''/groups''\<rparr>"
  have z: "\<not> isAdmin demo_config (User_ID user_zed)"
    by (simp add: isAdmin_def lookup_bool_def demo_config_def user_zed_def)
  have a: "isAdmin demo_config (User_ID user_alice)"
    by (simp add: isAdmin_def lookup_bool_def demo_config_def user_alice_def)
  have s0: "sent_messages poll_world = []"
    by (simp add: sent_messages_def poll_world_def)
  have l: "groups_listing (configuredGroups demo_config) =
      msg_groups_header @ msg_group_bullet @ ''-100'' @ [CHR 0x0A]
            @ msg_group_bullet @ ''-300'' @ [CHR 0x0A]"
    by (simp add: groups_listing_def demo_config_def itoa_def)
  have c: "configuredGroups demo_config \<noteq> []"
    by (simp add: demo_config_def)
  have 1: "HandleGroupCommand demo_config quiet_env poll_world ?m1 = poll_world"
    using commands_admin_gate [where message = ?m1 and sender = user_zed and cfg = demo_config
        and e = quiet_env and w = poll_world] z by simp
  have 2: "HandleGroupCommand demo_config quiet_env poll_world ?m2 = poll_world"
    using commands_admin_gate [where message = ?m2 and sender = user_alice and cfg = demo_config
        and e = quiet_env and w = poll_world] by simp
  have 3: "HandleGroupCommand demo_config quiet_env poll_world ?m3
      = SendQuiz quiet_env (emit (Log Info ''Manual send_quiz command'') poll_world) (- 100)"
    using commands_admin_gate [where message = ?m3 and sender = user_alice and cfg = demo_config
        and e = quiet_env and w = poll_world] a by simp
  have 4: "sent_messages (HandlePrivateCommand demo_config quiet_env poll_world ?m4)
      = [(msg_access_denied, 26)]"
    using commands_admin_gate [where message = ?m4 and sender = user_zed and cfg = demo_config
        and e = quiet_env and w = poll_world] z by (simp add: s0)
  have 5: "sent_messages (HandlePrivateCommand demo_config quiet_env poll_world ?m5)
      = [(msg_groups_header @ msg_group_bullet @ ''-100'' @ [CHR 0x0A]
            @ msg_group_bullet @ ''-300'' @ [CHR 0x0A], 1)]"
    using commands_admin_gate [where message = ?m5 and sender = user_alice and cfg = demo_config
        and e = quiet_env and w = poll_world] a c by (simp add: s0 l)
  from z a 1 2 3 4 5 show ?thesis by simp
qed

end
